theory Spec2Isabelle
  imports Complex_Main "HOL-Library.Word"
begin

section \<open>The DEM processor of \<^verbatim>\<open>src/nbo/dem_to_asc_processor.py\<close>\<close>

text \<open>
  The class \<^verbatim>\<open>DEMProcessor\<close> loads a DEM raster, rasterizes building polygons onto its
  grid in chunks, sets the building cells of a copy of the DEM to -9999 and writes ESRI
  ASCII grids. Its methods are embedded as state transformers that return either an
  exception or a value, together with the new state. The state holds the attributes of
  \<^verbatim>\<open>self\<close>, the file system, standard output, standard error and the numpy arrays the
  code allocates.

  GDAL, OGR, numpy's float formatting, the size of Python's file buffer and the clock are
  not code of the repository. What the methods need from them is a parameter (the record
  \<open>ext\<close> below); the theorems hold for every value of it.
\<close>

subsection \<open>Exceptions\<close>

text \<open>
  \<open>ValueError\<close> stands for the \<^verbatim>\<open>ValueError\<close> of \<^verbatim>\<open>load_dem_info\<close>, for the one
  \<^verbatim>\<open>range\<close> raises on a zero step and for \<^verbatim>\<open>json.JSONDecodeError\<close>, a subclass of it;
  \<open>IOError\<close> for \<^verbatim>\<open>OSError\<close> (Python 3 names it \<^verbatim>\<open>IOError\<close> too) and its subclasses;
  \<open>AttributeError\<close> for reading an attribute \<^verbatim>\<open>load_dem_info\<close> has not set yet;
  \<open>IndexError\<close> for numpy's boolean index of the wrong shape; \<open>KeyError\<close> and
  \<open>TypeError\<close> for subscripting a dict that lacks the key and a value that is no dict.
  \<open>DimensionMismatch\<close> is the error the specification names for a mask and a DEM of
  different sizes; no statement of the source raises it.
\<close>

datatype error =
  ValueError | IOError | AttributeError | IndexError | KeyError | TypeError | DimensionMismatch

subsection \<open>Rasters, files and the processor's state\<close>

record geotransform =
  gt0 :: real
  gt1 :: real
  gt2 :: real
  gt3 :: real
  gt4 :: real
  gt5 :: real

text \<open>
  A raster dataset as GDAL presents it once opened. Cell values are idealised as real
  numbers (no NaN, no infinity); a 2-D array is the list of its rows, row 0 first.
\<close>

record dataset =
  GetGeoTransform :: geotransform
  GetProjection :: string
  ReadAsArray :: "real list list"
  GetNoDataValue :: "real option"
  RasterXSize :: nat
  RasterYSize :: nat

text \<open>
  An element of the array \<^verbatim>\<open>features\<close> as \<^verbatim>\<open>json.load\<close> returns it: a dict, given by
  its members (\<^typ>\<open>'g\<close> is the type of the JSON values a member can hold, the value of
  \<^verbatim>\<open>geometry\<close> among them), or a JSON value that is no object (a number, a string, an
  array, \<^verbatim>\<open>null\<close>).
\<close>

datatype 'g feature = JObject "string \<Rightarrow> 'g option" | JOther

text \<open>
  A file is a text that is no JSON document, a JSON document whose member
  \<^verbatim>\<open>features\<close> is an array (the list of its elements, in file order), or a raster
  that GDAL can open. Other JSON documents are not among the contents modelled.
\<close>

datatype 'g file_content = Text string | FeatureCollection "'g feature list" | GTiff dataset

text \<open>The attributes \<^verbatim>\<open>load_dem_info\<close> sets; \<open>dem_array\<close> is a reference into the heap.\<close>

record dem_info =
  geotransform :: geotransform
  projection :: string
  dem_array :: nat
  nodata :: "real option"
  width :: nat
  height :: nat

text \<open>
  The state: the three attributes of \<^verbatim>\<open>__init__\<close>, the attributes of
  \<^verbatim>\<open>load_dem_info\<close> (absent before it has run), the files by path, which paths can be
  opened for writing, the free space of the device in characters (the room that
  overwriting a file gives back is not counted), the lines printed so far, the messages on standard error so far (the code writes none; GDAL does), the float
  arrays by reference with the next free reference, and the number of clock readings
  taken.
\<close>

record 'g state =
  dem_tile_path :: string
  buildings_geojson_path :: string
  output_dir :: string
  loaded :: "dem_info option"
  files :: "string \<Rightarrow> 'g file_content option"
  writable :: "string \<Rightarrow> bool"
  space :: nat
  stdout :: "string list"
  stderr :: "string list"
  heap :: "nat \<Rightarrow> real list list"
  next_addr :: nat
  ticks :: nat

text \<open>
  The calls into GDAL and OGR during which the library may write a message to standard
  error (its exceptions are off in the source, so it reports there and returns):
  \<^verbatim>\<open>gdal.Open\<close> of a path; \<^verbatim>\<open>gdal.Translate\<close> to a destination from a source; the set-up
  of the in-memory layer with the DEM's projection (source lines 126 to 132); the creation
  of one feature from the JSON value of its geometry (lines 136 to 144); the creation of
  the in-memory raster and the rasterization of the layer onto the DEM's grid (lines 147
  to 156).
\<close>

datatype 'g gdal_call =
    Open_call string
  | Translate_call string string
  | CreateLayer_call string
  | CreateGeometryFromJson_call 'g
  | RasterizeLayer_call dem_info "'g list"

text \<open>
  The external collaborators. \<open>burns gt w h g r c\<close>: GDAL's scan conversion of the one
  geometry \<open>g\<close> (given by its JSON value) onto a raster of \<open>w\<close> by \<open>h\<close> cells with
  geotransform \<open>gt\<close> burns cell \<open>(r, c)\<close>. \<open>cpl_stderr call s\<close>: the messages GDAL writes
  to standard error during \<open>call\<close>, made in state \<open>s\<close>. \<open>Translate\<close>, \<open>prj\<close>, \<open>aux_xml\<close>:
  the AAIGrid text \<^verbatim>\<open>gdal.Translate\<close> produces, and the texts of the two files the
  AAIGrid driver puts beside it, the projection file and the auxiliary metadata file,
  for each of which GDAL decides whether to write it. \<open>buffer_size\<close>: the number of
  characters Python's file object holds back before it writes them to the device.
  \<open>f32\<close>: rounding to 32-bit floating point. \<open>str_float\<close>, \<open>str_f32\<close>, \<open>fmt_6f\<close>,
  \<open>fmt_1f\<close>: Python's \<^verbatim>\<open>str\<close> of a float and of a \<^verbatim>\<open>numpy.float32\<close>, and the formats
  \<^verbatim>\<open>:.6f\<close> and \<^verbatim>\<open>:.1f\<close>. \<open>time n\<close>: the n-th reading of the clock.
\<close>

record 'g ext =
  burns :: "geotransform \<Rightarrow> nat \<Rightarrow> nat \<Rightarrow> 'g \<Rightarrow> nat \<Rightarrow> nat \<Rightarrow> bool"
  cpl_stderr :: "'g gdal_call \<Rightarrow> 'g state \<Rightarrow> string list"
  Translate :: "dataset \<Rightarrow> string"
  prj :: "dataset \<Rightarrow> string option"
  aux_xml :: "dataset \<Rightarrow> string option"
  buffer_size :: nat
  f32 :: "real \<Rightarrow> real"
  str_float :: "real \<Rightarrow> string"
  str_f32 :: "real \<Rightarrow> string"
  fmt_6f :: "real \<Rightarrow> string"
  fmt_1f :: "real \<Rightarrow> string"
  time :: "nat \<Rightarrow> real"

subsection \<open>Statements that may raise\<close>

type_synonym ('a, 'g) py = "'g state \<Rightarrow> (error + 'a) \<times> 'g state"

definition ret :: "'a \<Rightarrow> ('a, 'g) py" where
  "ret x s = (Inr x, s)"

definition raise :: "error \<Rightarrow> ('a, 'g) py" where
  "raise e s = (Inl e, s)"

definition bnd :: "('a, 'g) py \<Rightarrow> ('a \<Rightarrow> ('b, 'g) py) \<Rightarrow> ('b, 'g) py" where
  "bnd m f s = (case m s of (Inl e, s') \<Rightarrow> (Inl e, s') | (Inr x, s') \<Rightarrow> f x s')"

definition seq :: "(unit, 'g) py \<Rightarrow> ('b, 'g) py \<Rightarrow> ('b, 'g) py" where
  "seq m n = bnd m (\<lambda>_. n)"

definition gets :: "('g state \<Rightarrow> 'a) \<Rightarrow> ('a, 'g) py" where
  "gets f s = (Inr (f s), s)"

definition lift :: "error + 'a \<Rightarrow> ('a, 'g) py" where
  "lift r s = (r, s)"

text \<open>Reading an attribute that \<^verbatim>\<open>load_dem_info\<close> sets.\<close>

definition attrs :: "(dem_info, 'g) py" where
  "attrs s = (case loaded s of None \<Rightarrow> (Inl AttributeError, s) | Some d \<Rightarrow> (Inr d, s))"

definition print :: "string \<Rightarrow> (unit, 'g) py" where
  "print line s = (Inr (), s\<lparr>stdout := stdout s @ [line]\<rparr>)"

text \<open>
  A \<^verbatim>\<open>for\<close> loop; \<open>acc\<close> holds the variables the body updates (an array, a counter, a
  layer, the pending characters of a file object).
\<close>

fun for_acc :: "'a list \<Rightarrow> ('a \<Rightarrow> 'b \<Rightarrow> ('b, 'g) py) \<Rightarrow> 'b \<Rightarrow> ('b, 'g) py" where
  "for_acc [] body acc = ret acc"
| "for_acc (x # xs) body acc = bnd (body x acc) (\<lambda>acc'. for_acc xs body acc')"

subsection \<open>Python built-ins\<close>

definition newline :: string where
  "newline = [CHR 0x0A]"

definition digit :: "nat \<Rightarrow> char" where
  "digit d = ''0123456789'' ! d"

function str_nat :: "nat \<Rightarrow> string" where
  "str_nat n = (if n < 10 then [digit n] else str_nat (n div 10) @ [digit (n mod 10)])"
  by pat_completeness auto
termination
  by (relation "measure (\<lambda>n. n)") auto

declare str_nat.simps [simp del]

definition str_int :: "int \<Rightarrow> string" where
  "str_int i = (if i < 0 then CHR ''-'' # str_nat (nat (- i)) else str_nat (nat i))"

text \<open>\<^verbatim>\<open>sep.join(xs)\<close>.\<close>

fun join :: "string \<Rightarrow> string list \<Rightarrow> string" where
  "join sep [] = []"
| "join sep [x] = x"
| "join sep (x # y # ys) = x @ sep @ join sep (y # ys)"

text \<open>\<^verbatim>\<open>range(start, stop, step)\<close>: a zero step raises, a positive one counts up, a negative one down.\<close>

function range_up :: "int \<Rightarrow> int \<Rightarrow> int \<Rightarrow> int list" where
  "range_up i stop step = (if 0 < step \<and> i < stop then i # range_up (i + step) stop step else [])"
  by pat_completeness auto
termination
  by (relation "measure (\<lambda>(i, stop, step). nat (stop - i))") auto

declare range_up.simps [simp del]

function range_down :: "int \<Rightarrow> int \<Rightarrow> int \<Rightarrow> int list" where
  "range_down i stop step = (if step < 0 \<and> stop < i then i # range_down (i + step) stop step else [])"
  by pat_completeness auto
termination
  by (relation "measure (\<lambda>(i, stop, step). nat (i - stop))") auto

declare range_down.simps [simp del]

definition py_range :: "int \<Rightarrow> int \<Rightarrow> int \<Rightarrow> error + int list" where
  "py_range start stop step =
     (if step = 0 then Inl ValueError
      else if 0 < step then Inr (range_up start stop step)
      else Inr (range_down start stop step))"

text \<open>\<^verbatim>\<open>xs[i:j]\<close>: negative indices count from the end, both are clipped to the list.\<close>

definition slice_index :: "nat \<Rightarrow> int \<Rightarrow> nat" where
  "slice_index n i = (if i < 0 then nat (max (i + int n) 0) else min (nat i) n)"

definition slice :: "'a list \<Rightarrow> int \<Rightarrow> int \<Rightarrow> 'a list" where
  "slice xs i j =
     (let lo = slice_index (length xs) i; hi = slice_index (length xs) j
      in take (hi - lo) (drop lo xs))"

text \<open>\<^verbatim>\<open>os.path.join(a, b)\<close> and \<^verbatim>\<open>os.path.basename(p)\<close> of \<^verbatim>\<open>posixpath\<close>.\<close>

definition path_join :: "string \<Rightarrow> string \<Rightarrow> string" where
  "path_join a b =
     (if b \<noteq> [] \<and> hd b = CHR ''/'' then b
      else if a = [] \<or> last a = CHR ''/'' then a @ b
      else a @ ''/'' @ b)"

definition basename :: "string \<Rightarrow> string" where
  "basename p = rev (takeWhile (\<lambda>c. c \<noteq> CHR ''/'') (rev p))"

text \<open>
  \<^verbatim>\<open>x[key]\<close> for a string \<open>key\<close> and an element \<open>x\<close> of the array \<^verbatim>\<open>features\<close>: a dict
  without the key raises \<^verbatim>\<open>KeyError\<close>, a value that is no dict raises \<^verbatim>\<open>TypeError\<close>.
\<close>

definition getitem :: "'g feature \<Rightarrow> string \<Rightarrow> error + 'g" where
  "getitem x key =
     (case x of
        JObject members \<Rightarrow> (case members key of None \<Rightarrow> Inl KeyError | Some v \<Rightarrow> Inr v)
      | JOther \<Rightarrow> Inl TypeError)"

subsection \<open>numpy\<close>

definition np_zeros :: "nat \<Rightarrow> nat \<Rightarrow> 8 word list list" where
  "np_zeros h w = replicate h (replicate w 0)"

definition shape :: "'a list list \<Rightarrow> nat \<times> nat" where
  "shape a = (length a, case a of [] \<Rightarrow> 0 | row # _ \<Rightarrow> length row)"

text \<open>\<^verbatim>\<open>a == v\<close>, element by element.\<close>

definition eq_scalar :: "'a list list \<Rightarrow> 'a \<Rightarrow> bool list list" where
  "eq_scalar a v = map (map (\<lambda>x. x = v)) a"

text \<open>
  \<^verbatim>\<open>a[m] = v\<close> for a boolean array \<open>m\<close>: numpy raises \<^verbatim>\<open>IndexError\<close> when the shape of
  \<open>m\<close> is not that of \<open>a\<close>, and otherwise stores \<open>v\<close> where \<open>m\<close> is true.
\<close>

definition setitem_mask :: "'a list list \<Rightarrow> bool list list \<Rightarrow> 'a \<Rightarrow> error + 'a list list" where
  "setitem_mask a m v =
     (if shape m \<noteq> shape a then Inl IndexError
      else Inr (map2 (\<lambda>row mrow. map2 (\<lambda>x b. if b then v else x) row mrow) a m))"

text \<open>\<^verbatim>\<open>np.sum\<close> of a byte array (numpy accumulates in a 64-bit integer) and of a boolean one.\<close>

definition np_sum :: "8 word list list \<Rightarrow> int" where
  "np_sum a = sum_list (map (\<lambda>row. sum_list (map uint row)) a)"

definition np_sum_bool :: "bool list list \<Rightarrow> int" where
  "np_sum_bool a = sum_list (map (\<lambda>row. sum_list (map (\<lambda>b. if b then 1 else 0) row)) a)"

text \<open>Allocation of a new float array; \<^verbatim>\<open>copy\<close> and \<^verbatim>\<open>astype\<close> both allocate.\<close>

definition alloc :: "real list list \<Rightarrow> (nat, 'g) py" where
  "alloc a s = (Inr (next_addr s), s\<lparr>heap := (heap s)(next_addr s := a), next_addr := Suc (next_addr s)\<rparr>)"

definition ndarray_copy :: "nat \<Rightarrow> (nat, 'g) py" where
  "ndarray_copy a = bnd (gets (\<lambda>s. heap s a)) alloc"

definition astype_float32 :: "'g ext \<Rightarrow> nat \<Rightarrow> (nat, 'g) py" where
  "astype_float32 ext a = bnd (gets (\<lambda>s. heap s a)) (\<lambda>arr. alloc (map (map (f32 ext)) arr))"

text \<open>\<^verbatim>\<open>astype(np.float32)\<close> of a byte array: a byte is a float32 exactly.\<close>

definition astype_float32_of_uint8 :: "8 word list list \<Rightarrow> (nat, 'g) py" where
  "astype_float32_of_uint8 m = alloc (map (map (\<lambda>b. real (unat b))) m)"

text \<open>\<^verbatim>\<open>a[m] = v\<close> on the array behind the reference \<open>a\<close>, in place.\<close>

definition setitem_mask_at :: "nat \<Rightarrow> bool list list \<Rightarrow> real \<Rightarrow> (unit, 'g) py" where
  "setitem_mask_at a m v s =
     (case setitem_mask (heap s a) m v of
        Inl e \<Rightarrow> (Inl e, s)
      | Inr arr \<Rightarrow> (Inr (), s\<lparr>heap := (heap s)(a := arr)\<rparr>))"

subsection \<open>Files\<close>

text \<open>
  \<^verbatim>\<open>open(path, 'w')\<close> raises when the path cannot be opened for writing, and otherwise
  leaves an empty file there.
\<close>

definition open_w :: "string \<Rightarrow> (unit, 'g) py" where
  "open_w path s =
     (if writable s path then (Inr (), s\<lparr>files := (files s)(path \<mapsto> Text [])\<rparr>)
      else (Inl IOError, s))"

text \<open>
  The file object buffers. \<^verbatim>\<open>f.write(text)\<close> adds the text to the pending characters of
  the file object and returns; the pending characters go to the device when there are
  more of them than the buffer holds, and when the file is closed. Writing \<open>pending\<close> to
  the device puts as many characters at the end of the file as the device has room for;
  when that is not all of them the device is full and \<^verbatim>\<open>OSError\<close> is raised. The
  pending characters of the file object \<open>f\<close> are passed along as a value; when the
  io module hands them over is its own affair, here the threshold \<open>buffer_size\<close>.
\<close>

definition flush :: "string \<Rightarrow> string \<Rightarrow> (unit, 'g) py" where
  "flush path pending s =
     (case files s path of
        Some (Text old) \<Rightarrow>
          (if length pending \<le> space s then Inr () else Inl IOError,
           s\<lparr>files := (files s)(path \<mapsto> Text (old @ take (space s) pending)),
             space := space s - length pending\<rparr>)
      | _ \<Rightarrow> (Inl IOError, s))"

definition f_write :: "'g ext \<Rightarrow> string \<Rightarrow> string \<Rightarrow> string \<Rightarrow> (string, 'g) py" where
  "f_write ext path pending text =
     (let pending = pending @ text in
      if buffer_size ext < length pending then seq (flush path pending) (ret [])
      else ret pending)"

definition f_close :: "string \<Rightarrow> string \<Rightarrow> (unit, 'g) py" where
  "f_close path pending = flush path pending"

text \<open>
  \<^verbatim>\<open>with open(path, 'w') as f: body\<close>. The file is closed when the body is left. When the
  body returns, closing writes the pending characters. When the body raises, which in
  this program only a write to a full device does, \<^verbatim>\<open>__exit__\<close> closes the file too: the
  write it attempts finds no room (the failed write has used it up), the file stays as
  that write left it, and the exception raised is an \<^verbatim>\<open>OSError\<close> again.
\<close>

definition with_open_w :: "string \<Rightarrow> (string \<Rightarrow> (string, 'g) py) \<Rightarrow> (unit, 'g) py" where
  "with_open_w path body = seq (open_w path) (bnd (body []) (f_close path))"

text \<open>
  \<^verbatim>\<open>with open(path, 'r') as f: json.load(f)['features']\<close>: a missing file raises
  \<^verbatim>\<open>FileNotFoundError\<close>, a file that is no JSON raises \<^verbatim>\<open>JSONDecodeError\<close>.
\<close>

definition json_load_features :: "string \<Rightarrow> ('g feature list, 'g) py" where
  "json_load_features path s =
     (case files s path of
        None \<Rightarrow> (Inl IOError, s)
      | Some (FeatureCollection fs) \<Rightarrow> (Inr fs, s)
      | Some _ \<Rightarrow> (Inl ValueError, s))"

subsection \<open>GDAL\<close>

text \<open>What GDAL writes to standard error during a call.\<close>

definition gdal_reports :: "'g ext \<Rightarrow> 'g gdal_call \<Rightarrow> (unit, 'g) py" where
  "gdal_reports ext call s = (Inr (), s\<lparr>stderr := stderr s @ cpl_stderr ext call s\<rparr>)"

text \<open>\<^verbatim>\<open>gdal.Open(path)\<close> returns \<^verbatim>\<open>None\<close> for what it cannot open (GDAL's exceptions are off).\<close>

definition gdal_Open :: "'g ext \<Rightarrow> string \<Rightarrow> (dataset option, 'g) py" where
  "gdal_Open ext path =
     seq (gdal_reports ext (Open_call path))
         (\<lambda>s. case files s path of Some (GTiff ds) \<Rightarrow> (Inr (Some ds), s) | _ \<Rightarrow> (Inr None, s))"

text \<open>
  GDAL writing a file of its own: the text goes to the path as far as the device has
  room, and nothing is raised; a path that cannot be opened for writing is left alone.
\<close>

definition vsi_write :: "string \<Rightarrow> string \<Rightarrow> (unit, 'g) py" where
  "vsi_write path text s =
     (if writable s path
      then (Inr (), s\<lparr>files := (files s)(path \<mapsto> Text (take (space s) text)),
                       space := space s - length text\<rparr>)
      else (Inr (), s))"

text \<open>
  The path of the projection file that the AAIGrid driver writes beside \<open>dst\<close>: the
  extension of the last component of \<open>dst\<close>, if it has one, is replaced by \<^verbatim>\<open>prj\<close>. The
  auxiliary metadata file is \<open>dst\<close> followed by \<^verbatim>\<open>.aux.xml\<close>.
\<close>

definition strip_extension :: "string \<Rightarrow> string" where
  "strip_extension p =
     (let e = takeWhile (\<lambda>c. c \<noteq> CHR ''.'' \<and> c \<noteq> CHR ''/'') (rev p)
      in if length e < length p \<and> rev p ! length e = CHR ''.''
         then take (length p - Suc (length e)) p else p)"

definition prj_path :: "string \<Rightarrow> string" where
  "prj_path dst = strip_extension dst @ ''.prj''"

definition aux_xml_path :: "string \<Rightarrow> string" where
  "aux_xml_path dst = dst @ ''.aux.xml''"

definition write_if_any :: "string \<Rightarrow> string option \<Rightarrow> (unit, 'g) py" where
  "write_if_any path text = (case text of None \<Rightarrow> ret () | Some t \<Rightarrow> vsi_write path t)"

text \<open>
  \<^verbatim>\<open>gdal.Translate(dst, src, format='AAIGrid', ...)\<close>: writes the translated text to
  \<open>dst\<close>, then the projection file and the auxiliary metadata file beside it; when it
  cannot read \<open>src\<close> or open \<open>dst\<close> it returns \<^verbatim>\<open>None\<close> and writes nothing. It never
  raises.
\<close>

definition gdal_Translate :: "'g ext \<Rightarrow> string \<Rightarrow> string \<Rightarrow> (unit, 'g) py" where
  "gdal_Translate ext dst src =
     seq (gdal_reports ext (Translate_call dst src))
         (\<lambda>s. case files s src of
                Some (GTiff ds) \<Rightarrow>
                  if writable s dst
                  then seq (vsi_write dst (Translate ext ds))
                      (seq (write_if_any (prj_path dst) (prj ext ds))
                           (write_if_any (aux_xml_path dst) (aux_xml ext ds))) s
                  else (Inr (), s)
              | _ \<Rightarrow> (Inr (), s))"

subsection \<open>The clock\<close>

text \<open>\<^verbatim>\<open>time.time()\<close>.\<close>

definition time_time :: "'g ext \<Rightarrow> (real, 'g) py" where
  "time_time ext s = (Inr (time ext (ticks s)), s\<lparr>ticks := Suc (ticks s)\<rparr>)"

subsection \<open>\<^verbatim>\<open>load_dem_info\<close>, \<^verbatim>\<open>get_bounds\<close>, \<^verbatim>\<open>convert_dem_to_asc\<close>\<close>

definition get_bounds :: "dem_info \<Rightarrow> real \<times> real \<times> real \<times> real" where
  "get_bounds d =
     (let minx = gt0 (geotransform d);
          maxy = gt3 (geotransform d);
          maxx = minx + real (width d) * gt1 (geotransform d);
          miny = maxy + real (height d) * gt5 (geotransform d)
      in (minx, miny, maxx, maxy))"

text \<open>\<^verbatim>\<open>str\<close> of a tuple of four floats.\<close>

definition str_tuple4 :: "'g ext \<Rightarrow> real \<times> real \<times> real \<times> real \<Rightarrow> string" where
  "str_tuple4 ext t =
     (case t of (a, b, c, d) \<Rightarrow>
        ''('' @ str_float ext a @ '', '' @ str_float ext b @ '', '' @ str_float ext c @ '', ''
          @ str_float ext d @ '')'')"

definition load_dem_info :: "'g ext \<Rightarrow> (unit, 'g) py" where
  "load_dem_info ext =
     seq (print ''Loading DEM information...'')
    (bnd (gets dem_tile_path) (\<lambda>path.
     bnd (gdal_Open ext path) (\<lambda>dataset.
       case dataset of
         None \<Rightarrow> raise ValueError
       | Some ds \<Rightarrow>
           bnd (alloc (ReadAsArray ds)) (\<lambda>arr.
           seq (\<lambda>s. (Inr (), s\<lparr>loaded := Some \<lparr>geotransform = GetGeoTransform ds,
                                                 projection = GetProjection ds,
                                                 dem_array = arr,
                                                 nodata = GetNoDataValue ds,
                                                 width = RasterXSize ds,
                                                 height = RasterYSize ds\<rparr>\<rparr>))
          (bnd attrs (\<lambda>d.
           seq (print (''DEM dimensions: '' @ str_int (int (width d)) @ '' x ''
                        @ str_int (int (height d))))
          (seq (print (''DEM bounds: '' @ str_tuple4 ext (get_bounds d)))
               (print (''Pixel size: '' @ fmt_6f ext \<bar>gt1 (geotransform d)\<bar> @ '' degrees'')))))))))"

definition convert_dem_to_asc :: "'g ext \<Rightarrow> string \<Rightarrow> (string, 'g) py" where
  "convert_dem_to_asc ext output_filename =
     seq (print (''Converting DEM to ASC format: '' @ output_filename))
    (bnd (gets output_dir) (\<lambda>dir.
     let output_path = path_join dir output_filename in
     bnd (gets dem_tile_path) (\<lambda>src.
     seq (gdal_Translate ext output_path src)
    (seq (print (''Basic DEM ASC file created: '' @ output_path))
         (ret output_path)))))"

subsection \<open>\<^verbatim>\<open>_rasterize_chunk\<close> and \<^verbatim>\<open>rasterize_buildings_chunked\<close>\<close>

text \<open>
  \<^verbatim>\<open>gdal.RasterizeLayer(mem_raster, [1], layer, burn_values=[1])\<close> burns the features of
  the layer one after the other: each stores the burn value in the cells its geometry
  covers and leaves the other cells as they are.
\<close>

definition burn_geometry :: "(nat \<Rightarrow> nat \<Rightarrow> bool) \<Rightarrow> 8 word \<Rightarrow> 8 word list list \<Rightarrow> 8 word list list" where
  "burn_geometry covers v ras =
     map (\<lambda>(r, row). map (\<lambda>(c, x). if covers r c then v else x) (enumerate 0 row)) (enumerate 0 ras)"

definition RasterizeLayer :: "'g ext \<Rightarrow> dem_info \<Rightarrow> 'g list \<Rightarrow> 8 word \<Rightarrow> 8 word list list \<Rightarrow> 8 word list list" where
  "RasterizeLayer ext d layer v ras =
     fold (\<lambda>g. burn_geometry (burns ext (geotransform d) (width d) (height d) g) v) layer ras"

text \<open>
  \<^verbatim>\<open>_rasterize_chunk\<close>: each feature of the chunk is subscripted with \<^verbatim>\<open>'geometry'\<close> and
  the value goes into an in-memory layer (GDAL makes what it can of it, and says so on
  standard error if it likes); the layer is rasterized into a fresh raster of the DEM's
  size, and the cells that came out 1 are set to 1 in \<open>output_array\<close>. The source mutates
  \<open>output_array\<close> in place; here the updated array is returned to the caller, which is the
  only holder of it.
\<close>

definition rasterize_chunk :: "'g ext \<Rightarrow> 'g feature list \<Rightarrow> 8 word list list \<Rightarrow> (8 word list list, 'g) py" where
  "rasterize_chunk ext chunk_features output_array =
     bnd attrs (\<lambda>d.
     seq (gdal_reports ext (CreateLayer_call (projection d)))
    (bnd (for_acc chunk_features (\<lambda>feature_data layer.
            bnd (lift (getitem feature_data ''geometry'')) (\<lambda>geom.
            seq (gdal_reports ext (CreateGeometryFromJson_call geom))
                (ret (layer @ [geom])))) []) (\<lambda>layer.
     seq (gdal_reports ext (RasterizeLayer_call d layer))
         (let mem_raster = RasterizeLayer ext d layer 1 (np_zeros (height d) (width d));
              chunk_result = mem_raster
          in lift (setitem_mask output_array (eq_scalar chunk_result 1) 1)))))"

text \<open>
  The body of the loop of \<^verbatim>\<open>rasterize_buildings_chunked\<close>, with the loop-carried
  \<open>buildings_raster\<close> and \<open>processed\<close>.
\<close>

definition chunk_step :: "'g ext \<Rightarrow> 'g feature list \<Rightarrow> int \<Rightarrow> int \<Rightarrow> 8 word list list \<times> int
    \<Rightarrow> (8 word list list \<times> int, 'g) py" where
  "chunk_step ext features chunk_size start_idx acc =
     (case acc of (buildings_raster, processed) \<Rightarrow>
      let total_features = int (length features);
          end_idx = min (start_idx + chunk_size) total_features;
          chunk_features = slice features start_idx end_idx
      in seq (print (''Processing chunk '' @ str_int (start_idx div chunk_size + 1) @ ''/''
                      @ str_int ((total_features - 1) div chunk_size + 1) @ '' (''
                      @ str_int (end_idx - start_idx) @ '' polygons)''))
        (bnd (rasterize_chunk ext chunk_features buildings_raster) (\<lambda>buildings_raster.
         let processed = processed + (end_idx - start_idx) in
         seq (if processed mod (chunk_size * 5) = 0
              then print (''Progress: '' @ str_int processed @ ''/''
                           @ str_int total_features @ '' polygons processed'')
              else ret ())
             (ret (buildings_raster, processed)))))"

definition rasterize_buildings_chunked :: "'g ext \<Rightarrow> int \<Rightarrow> (8 word list list, 'g) py" where
  "rasterize_buildings_chunked ext chunk_size =
     bnd (gets buildings_geojson_path) (\<lambda>path.
     seq (print (''Rasterizing '' @ path @ '' in chunks of '' @ str_int chunk_size @ ''...''))
    (bnd attrs (\<lambda>d.
     let buildings_raster = np_zeros (height d) (width d) in
     bnd (json_load_features path) (\<lambda>features.
     let total_features = int (length features) in
     seq (print (''Total building polygons: '' @ str_int total_features))
    (bnd (lift (py_range 0 total_features chunk_size)) (\<lambda>starts.
     bnd (for_acc starts (chunk_step ext features chunk_size) (buildings_raster, 0)) (\<lambda>acc.
     case acc of (buildings_raster, processed) \<Rightarrow>
     seq (print (''Building rasterization complete. Buildings found in ''
                  @ str_int (np_sum buildings_raster) @ '' pixels''))
         (ret buildings_raster))))))))"

subsection \<open>\<^verbatim>\<open>_write_asc_file\<close>\<close>

definition write_asc_file :: "'g ext \<Rightarrow> nat \<Rightarrow> string \<Rightarrow> int \<Rightarrow> (unit, 'g) py" where
  "write_asc_file ext array output_path nodata_value =
     bnd attrs (\<lambda>d.
     case get_bounds d of (minx, miny, maxx, maxy) \<Rightarrow>
     let cellsize = \<bar>gt1 (geotransform d)\<bar> in
     with_open_w output_path (\<lambda>f.
     bnd (f_write ext output_path f (''ncols '' @ str_int (int (width d)) @ newline)) (\<lambda>f.
     bnd (f_write ext output_path f (''nrows '' @ str_int (int (height d)) @ newline)) (\<lambda>f.
     bnd (f_write ext output_path f (''xllcorner '' @ str_float ext minx @ newline)) (\<lambda>f.
     bnd (f_write ext output_path f (''yllcorner '' @ str_float ext miny @ newline)) (\<lambda>f.
     bnd (f_write ext output_path f (''cellsize '' @ str_float ext cellsize @ newline)) (\<lambda>f.
     bnd (f_write ext output_path f (''NODATA_value '' @ str_int nodata_value @ newline)) (\<lambda>f.
     bnd (gets (\<lambda>s. heap s array)) (\<lambda>rows.
     for_acc rows (\<lambda>row f.
       f_write ext output_path f (join '' '' (map (str_f32 ext) row) @ newline)) f)))))))))"

subsection \<open>\<^verbatim>\<open>create_dem_with_buildings_nodata\<close>, \<^verbatim>\<open>create_building_footprint_raster\<close>, \<^verbatim>\<open>process_all\<close>\<close>

definition create_dem_with_buildings_nodata :: "'g ext \<Rightarrow> string \<Rightarrow> (string, 'g) py" where
  "create_dem_with_buildings_nodata ext output_filename =
     seq (print (''Creating DEM with buildings as NoData: '' @ output_filename))
    (bnd (rasterize_buildings_chunked ext 10000) (\<lambda>buildings_mask.
     bnd attrs (\<lambda>d.
     bnd (ndarray_copy (dem_array d)) (\<lambda>copied.
     bnd (astype_float32 ext copied) (\<lambda>output_dem.
     let building_pixels = eq_scalar buildings_mask 1 in
     seq (setitem_mask_at output_dem building_pixels (- 9999))
    (seq (print (''Set '' @ str_int (np_sum_bool building_pixels) @ '' pixels to NoData (buildings)''))
    (bnd (gets output_dir) (\<lambda>dir.
     let output_path = path_join dir output_filename in
     seq (write_asc_file ext output_dem output_path (- 9999))
    (seq (print (''DEM with buildings as NoData created: '' @ output_path))
         (ret output_path))))))))))"

definition create_building_footprint_raster :: "'g ext \<Rightarrow> string \<Rightarrow> (string, 'g) py" where
  "create_building_footprint_raster ext output_filename =
     seq (print (''Creating building footprint raster: '' @ output_filename))
    (bnd (rasterize_buildings_chunked ext 10000) (\<lambda>buildings_mask.
     bnd (gets output_dir) (\<lambda>dir.
     let output_path = path_join dir output_filename in
     bnd (astype_float32_of_uint8 buildings_mask) (\<lambda>arr.
     seq (write_asc_file ext arr output_path (- 9999))
    (seq (print (''Building footprint raster created: '' @ output_path))
         (ret output_path))))))"

text \<open>The dictionary \<^verbatim>\<open>process_all\<close> returns, as the triple of its three values.\<close>

definition process_all :: "'g ext \<Rightarrow> (string \<times> string \<times> string, 'g) py" where
  "process_all ext =
     seq (print ''=== DEM to ASC Processing Started ==='')
    (bnd (time_time ext) (\<lambda>start_time.
     seq (load_dem_info ext)
    (bnd (convert_dem_to_asc ext ''Nairobi_DEM.asc'') (\<lambda>basic_asc.
     bnd (create_dem_with_buildings_nodata ext ''Nairobi_DEM_housesnodata.asc'') (\<lambda>buildings_nodata_asc.
     bnd (create_building_footprint_raster ext ''Nairobi_OSM_buildings.asc'') (\<lambda>buildings_raster.
     bnd (time_time ext) (\<lambda>end_time.
     let elapsed_time = end_time - start_time in
     bnd (gets output_dir) (\<lambda>dir.
     seq (print (newline @ ''=== Processing Complete in '' @ fmt_1f ext elapsed_time @ '' seconds ===''))
    (seq (print (''Files created in '' @ [CHR 0x27] @ dir @ [CHR 0x27] @ '' directory:''))
    (seq (print (''- '' @ basename basic_asc @ '' (basic DEM)''))
    (seq (print (''- '' @ basename buildings_nodata_asc @ '' (DEM with buildings as NoData - for RIM2D)''))
    (seq (print (''- '' @ basename buildings_raster @ '' (building footprints)''))
         (ret (basic_asc, buildings_nodata_asc, buildings_raster))))))))))))))"

section \<open>Notions used to state the properties\<close>

subsection \<open>The text of an ASCII grid\<close>

text \<open>
  The lines \<^verbatim>\<open>_write_asc_file\<close> passes to \<^verbatim>\<open>f.write\<close>: the six header lines
  (\<^verbatim>\<open>get_bounds\<close> gives \<^verbatim>\<open>minx\<close> and \<^verbatim>\<open>miny\<close>), then one line for each row of the
  array, its values formatted by \<^verbatim>\<open>str\<close> and separated by one space. Every line ends
  with a newline.
\<close>

definition unlines :: "string list \<Rightarrow> string" where
  "unlines ls = concat (map (\<lambda>l. l @ newline) ls)"

definition row_line :: "'g ext \<Rightarrow> real list \<Rightarrow> string" where
  "row_line ext row = join '' '' (map (str_f32 ext) row)"

definition asc_header :: "'g ext \<Rightarrow> dem_info \<Rightarrow> int \<Rightarrow> string list" where
  "asc_header ext d nodata_value =
     [''ncols '' @ str_int (int (width d)),
      ''nrows '' @ str_int (int (height d)),
      ''xllcorner '' @ str_float ext (gt0 (geotransform d)),
      ''yllcorner '' @ str_float ext (gt3 (geotransform d) + real (height d) * gt5 (geotransform d)),
      ''cellsize '' @ str_float ext \<bar>gt1 (geotransform d)\<bar>,
      ''NODATA_value '' @ str_int nodata_value]"

definition asc_lines :: "'g ext \<Rightarrow> dem_info \<Rightarrow> real list list \<Rightarrow> int \<Rightarrow> string list" where
  "asc_lines ext d rows nodata_value = asc_header ext d nodata_value @ map (row_line ext) rows"

text \<open>
  Passing a list of lines to \<^verbatim>\<open>f.write\<close> one after the other, from given pending
  characters.
\<close>

definition write_lines :: "'g ext \<Rightarrow> string \<Rightarrow> string list \<Rightarrow> string \<Rightarrow> (string, 'g) py" where
  "write_lines ext path ls pending = for_acc ls (\<lambda>l f. f_write ext path f (l @ newline)) pending"

text \<open>
  Reading a text back: its lines (Python's \<^verbatim>\<open>splitlines\<close> for a text whose only line
  break is the newline) and the tokens of a line (Python's \<^verbatim>\<open>str.split()\<close>, which cuts at
  runs of whitespace).
\<close>

fun split_on :: "char \<Rightarrow> string \<Rightarrow> string list" where
  "split_on c [] = [[]]"
| "split_on c (x # xs) =
     (if x = c then [] # split_on c xs
      else (case split_on c xs of [] \<Rightarrow> [[x]] | y # ys \<Rightarrow> (x # y) # ys))"

definition lines_of :: "string \<Rightarrow> string list" where
  "lines_of text =
     (let ps = split_on (CHR 0x0A) text in if last ps = [] then butlast ps else ps)"

definition is_space :: "char \<Rightarrow> bool" where
  "is_space c = (c \<in> {CHR '' '', CHR 0x09, CHR 0x0A, CHR 0x0B, CHR 0x0C, CHR 0x0D})"

fun tokens :: "string \<Rightarrow> string \<Rightarrow> string list" where
  "tokens cur [] = (if cur = [] then [] else [rev cur])"
| "tokens cur (x # xs) =
     (if is_space x then (if cur = [] then tokens [] xs else rev cur # tokens [] xs)
      else tokens (x # cur) xs)"

definition split_ws :: "string \<Rightarrow> string list" where
  "split_ws s = tokens [] s"

text \<open>
  What the properties of the format ask of the two formatting functions, which are
  Python's: \<^verbatim>\<open>str\<close> of a float has no line break, and \<^verbatim>\<open>str\<close> of a float32 is not empty
  and has no whitespace.
\<close>

definition plain_format :: "'g ext \<Rightarrow> bool" where
  "plain_format ext =
     ((\<forall>x. CHR 0x0A \<notin> set (str_float ext x)) \<and>
      (\<forall>x. str_f32 ext x \<noteq> [] \<and> (\<forall>c \<in> set (str_f32 ext x). \<not> is_space c)))"

subsection \<open>Arrays and masks\<close>

text \<open>
  An array of \<^term>\<open>h\<close> rows of \<^term>\<open>w\<close> cells, and the array given by its cells.
\<close>

definition has_shape :: "'a list list \<Rightarrow> nat \<Rightarrow> nat \<Rightarrow> bool" where
  "has_shape a h w = (length a = h \<and> (\<forall>row \<in> set a. length row = w))"

definition tabulate2 :: "nat \<Rightarrow> nat \<Rightarrow> (nat \<Rightarrow> nat \<Rightarrow> 'a) \<Rightarrow> 'a list list" where
  "tabulate2 h w f = map (\<lambda>r. map (f r) [0..<w]) [0..<h]"

text \<open>
  The values of the member \<^verbatim>\<open>geometry\<close> of a list of features, in order of the
  features; when a feature has no such member, the exception that subscripting the first
  such feature raises.
\<close>

fun geometries :: "'g feature list \<Rightarrow> error + 'g list" where
  "geometries [] = Inr []"
| "geometries (x # xs) =
     (case getitem x ''geometry'' of
        Inl e \<Rightarrow> Inl e
      | Inr g \<Rightarrow> (case geometries xs of Inl e \<Rightarrow> Inl e | Inr gs \<Rightarrow> Inr (g # gs)))"

text \<open>
  The mask of a collection of geometries on the grid of a DEM: a cell is 1 when some
  geometry of the collection burns it, and 0 otherwise.
\<close>

definition burn_mask :: "'g ext \<Rightarrow> dem_info \<Rightarrow> 'g list \<Rightarrow> 8 word list list" where
  "burn_mask ext d features =
     tabulate2 (height d) (width d)
       (\<lambda>r c. if \<exists>g \<in> set features. burns ext (geotransform d) (width d) (height d) g r c
              then 1 else 0)"

text \<open>
  The array \<^verbatim>\<open>output_dem\<close> after \<^verbatim>\<open>output_dem[building_pixels] = -9999\<close>, from the DEM
  array and the mask, for arrays of the same shape; and the arrays that
  \<^verbatim>\<open>astype(np.float32)\<close> leaves as they are.
\<close>

definition masked_dem :: "'g ext \<Rightarrow> real list list \<Rightarrow> 8 word list list \<Rightarrow> real list list" where
  "masked_dem ext dem m =
     map2 (\<lambda>row mrow. map2 (\<lambda>x b. if b = 1 then - 9999 else f32 ext x) row mrow) dem m"

definition is_float32 :: "'g ext \<Rightarrow> real list list \<Rightarrow> bool" where
  "is_float32 ext a = (\<forall>row \<in> set a. \<forall>v \<in> set row. f32 ext v = v)"

text \<open>
  The attributes \<^verbatim>\<open>load_dem_info\<close> sets from a dataset whose array is stored at
  \<^term>\<open>arr\<close>.
\<close>

definition info_of :: "dataset \<Rightarrow> nat \<Rightarrow> dem_info" where
  "info_of ds arr =
     \<lparr>geotransform = GetGeoTransform ds, projection = GetProjection ds, dem_array = arr,
      nodata = GetNoDataValue ds, width = RasterXSize ds, height = RasterYSize ds\<rparr>"

subsection \<open>What a call may change\<close>

text \<open>
  The state after a text has been written to a file, \<^term>\<open>n\<close> characters of space
  remaining.
\<close>

definition put_file :: "string \<Rightarrow> string \<Rightarrow> nat \<Rightarrow> 'g state \<Rightarrow> 'g state" where
  "put_file p t n s = s\<lparr>files := (files s)(p \<mapsto> Text t), space := n\<rparr>"

text \<open>
  Two computations that return the same from every state with a given store of arrays,
  and a computation that leaves the store as it is.
\<close>

definition agree :: "(nat \<Rightarrow> real list list) \<Rightarrow> ('a, 'g) py \<Rightarrow> ('a, 'g) py \<Rightarrow> bool" where
  "agree h m n = (\<forall>s. heap s = h \<longrightarrow> m s = n s)"

definition keeps_heap :: "('a, 'g) py \<Rightarrow> bool" where
  "keeps_heap m = (\<forall>s. heap (snd (m s)) = heap s)"

text \<open>
  A computation whose only effect is output: lines printed, and messages of GDAL on
  standard error.
\<close>

definition only_prints :: "'g state \<Rightarrow> 'g state \<Rightarrow> bool" where
  "only_prints s s' = (\<exists>out err. s' = s\<lparr>stdout := stdout s @ out, stderr := stderr s @ err\<rparr>)"

definition prints_only :: "('a, 'g) py \<Rightarrow> bool" where
  "prints_only m = (\<forall>s. only_prints s (snd (m s)))"

text \<open>
  A computation that leaves the state as it is but for the messages GDAL may have
  written to standard error.
\<close>

definition only_reports :: "'g state \<Rightarrow> 'g state \<Rightarrow> bool" where
  "only_reports s s' = (\<exists>err. s' = s\<lparr>stderr := stderr s @ err\<rparr>)"

definition reports_only :: "('a, 'g) py \<Rightarrow> bool" where
  "reports_only m = (\<forall>s. only_reports s (snd (m s)))"

text \<open>
  The state after \<^verbatim>\<open>create_dem_with_buildings_nodata\<close> has built its arrays: the copy of
  the DEM array and the composited array are new in the store, and there has been
  output. Likewise for the one array of \<^verbatim>\<open>create_building_footprint_raster\<close>.
\<close>

definition composited :: "'g state \<Rightarrow> real list list \<Rightarrow> real list list \<Rightarrow> 'g state \<Rightarrow> bool" where
  "composited s dem out s' =
     (\<exists>printed err. s' = s\<lparr>stdout := stdout s @ printed, stderr := stderr s @ err,
                        heap := (heap s)(next_addr s := dem, Suc (next_addr s) := out),
                        next_addr := Suc (Suc (next_addr s))\<rparr>)"

definition footprinted :: "'g state \<Rightarrow> real list list \<Rightarrow> 'g state \<Rightarrow> bool" where
  "footprinted s arr s' =
     (\<exists>printed err. s' = s\<lparr>stdout := stdout s @ printed, stderr := stderr s @ err,
                        heap := (heap s)(next_addr s := arr),
                        next_addr := Suc (next_addr s)\<rparr>)"

text \<open>
  The first statement of \<^verbatim>\<open>rasterize_buildings_chunked\<close> prints a line that begins with
  \<^verbatim>\<open>Rasterizing\<close> followed by a space, and no other statement of the class prints such a
  line: the number of these lines on standard output counts the rasterizations run so
  far.
\<close>

definition rasterizing_line :: "string \<Rightarrow> bool" where
  "rasterizing_line l = (take 12 l = ''Rasterizing '')"

definition passes :: "'g state \<Rightarrow> nat" where
  "passes s = length (filter rasterizing_line (stdout s))"

definition keeps_passes :: "('a, 'g) py \<Rightarrow> bool" where
  "keeps_passes m = (\<forall>s. passes (snd (m s)) = passes s)"

subsection \<open>A small grid\<close>

text \<open>
  A grid of two rows and two columns, with the north-west corner at \<^term>\<open>(0::real, 2::real)\<close>
  and cells of size 1; its DEM has one cell at the DEM's own nodata value, \<^term>\<open>- 32768 :: real\<close>.
  Geometries are polygons, lists of rings. The rasterizer of the example burns a cell when
  the first ring has at least four points and the centre of the cell lies in its bounding
  box, and it reports a first ring of fewer than four points on standard error, in words
  of the example's own. Numbers are formatted as integers followed by \<^verbatim>\<open>.0\<close>. Beside a
  translated grid the example's GDAL writes both the projection file and the auxiliary
  file. The file buffer of the example holds 8192 characters.
\<close>

type_synonym polygon = "(real \<times> real) list list"

definition str_integral :: "real \<Rightarrow> string" where
  "str_integral x = str_int \<lfloor>x\<rfloor> @ ''.0''"

definition demo_burns :: "geotransform \<Rightarrow> nat \<Rightarrow> nat \<Rightarrow> polygon \<Rightarrow> nat \<Rightarrow> nat \<Rightarrow> bool" where
  "demo_burns gt w h g r c =
     (case g of
        [] \<Rightarrow> False
      | ring # holes \<Rightarrow>
          4 \<le> length ring \<and>
          (let x = gt0 gt + (real c + 1 / 2) * gt1 gt;
               y = gt3 gt + (real r + 1 / 2) * gt5 gt
           in (\<exists>p \<in> set ring. fst p \<le> x) \<and> (\<exists>p \<in> set ring. x \<le> fst p) \<and>
              (\<exists>p \<in> set ring. snd p \<le> y) \<and> (\<exists>p \<in> set ring. y \<le> snd p)))"

definition demo_warning :: string where
  "demo_warning = ''Warning 1: ring with fewer than 4 points''"

definition demo_stderr :: "polygon gdal_call \<Rightarrow> polygon state \<Rightarrow> string list" where
  "demo_stderr call s =
     (case call of
        CreateGeometryFromJson_call (ring # holes) \<Rightarrow> if length ring < 4 then [demo_warning] else []
      | _ \<Rightarrow> [])"

definition demo_ext :: "polygon ext" where
  "demo_ext =
     \<lparr>burns = demo_burns,
      cpl_stderr = demo_stderr,
      Translate = (\<lambda>ds. concat (map (\<lambda>row. join '' '' (map str_integral row) @ newline) (ReadAsArray ds))),
      prj = (\<lambda>ds. Some (GetProjection ds)),
      aux_xml = (\<lambda>ds. Some ''<PAMDataset/>''),
      buffer_size = 8192,
      f32 = (\<lambda>x. x),
      str_float = str_integral,
      str_f32 = str_integral,
      fmt_6f = (\<lambda>x. str_int \<lfloor>x\<rfloor> @ ''.000000''),
      fmt_1f = str_integral,
      time = real\<rparr>"

definition demo_gt :: geotransform where
  "demo_gt = \<lparr>gt0 = 0, gt1 = 1, gt2 = 0, gt3 = 2, gt4 = 0, gt5 = - 1\<rparr>"

definition demo_dataset :: dataset where
  "demo_dataset =
     \<lparr>GetGeoTransform = demo_gt, GetProjection = ''EPSG:4326'',
      ReadAsArray = [[100, - 32768], [100, 100]], GetNoDataValue = Some (- 32768),
      RasterXSize = 2, RasterYSize = 2\<rparr>"

definition demo_info :: dem_info where
  "demo_info =
     \<lparr>geotransform = demo_gt, projection = ''EPSG:4326'', dem_array = 0,
      nodata = Some (- 32768), width = 2, height = 2\<rparr>"

text \<open>
  The polygon file holds two features, each a dict whose one member is its geometry: a
  ring of two points, which burns nothing, and the unit square over the south-east cell.
  A third feature, used apart, is a dict without a geometry.
\<close>

definition feature_of :: "'g \<Rightarrow> 'g feature" where
  "feature_of g = JObject (Map.empty(''geometry'' \<mapsto> g))"

definition square11 :: polygon where
  "square11 = [[(1, 0), (2, 0), (2, 1), (1, 1), (1, 0)]]"

definition two_point_ring :: polygon where
  "two_point_ring = [[(0, 0), (1, 1)]]"

definition no_geometry :: "polygon feature" where
  "no_geometry = JObject Map.empty"

text \<open>
  The processor before \<^verbatim>\<open>load_dem_info\<close> and after it; after it with room for ten
  characters only, with no writable path, with a grid recorded as three columns wide
  over the array of two, and with an array of three rows in the store beside the DEM.
\<close>

definition demo_state :: "polygon state" where
  "demo_state =
     \<lparr>dem_tile_path = ''dem.tif'', buildings_geojson_path = ''nbo.geojson'', output_dir = ''input'',
      loaded = None,
      files = [''dem.tif'' \<mapsto> GTiff demo_dataset,
               ''nbo.geojson'' \<mapsto> FeatureCollection [feature_of two_point_ring, feature_of square11]],
      writable = (\<lambda>_. True), space = 1000, stdout = [], stderr = [],
      heap = (\<lambda>_. []), next_addr = 0, ticks = 0\<rparr>"

definition demo_loaded :: "polygon state" where
  "demo_loaded =
     demo_state\<lparr>loaded := Some demo_info,
                  heap := (\<lambda>_. [])(0 := [[100, - 32768], [100, 100]]), next_addr := 1\<rparr>"

definition demo_full :: "polygon state" where
  "demo_full = demo_loaded\<lparr>space := 10\<rparr>"

definition demo_readonly :: "polygon state" where
  "demo_readonly = demo_loaded\<lparr>writable := (\<lambda>_. False)\<rparr>"

definition demo_wide_info :: dem_info where
  "demo_wide_info = demo_info\<lparr>width := 3\<rparr>"

definition demo_mismatch :: "polygon state" where
  "demo_mismatch = demo_loaded\<lparr>loaded := Some demo_wide_info\<rparr>"

definition demo_tall :: "polygon state" where
  "demo_tall =
     demo_loaded\<lparr>heap := (\<lambda>_. [])(0 := [[100, - 32768], [100, 100]], 1 := [[1, 2], [3, 4], [5, 6]]),
                   next_addr := 2\<rparr>"

text \<open>
  The processor with the polygon file at the path of the third output.
\<close>

definition demo_overwrite :: "polygon state" where
  "demo_overwrite =
     demo_state\<lparr>buildings_geojson_path := ''input/Nairobi_OSM_buildings.asc'',
                  files := [''dem.tif'' \<mapsto> GTiff demo_dataset,
                            ''input/Nairobi_OSM_buildings.asc'' \<mapsto>
                              FeatureCollection [feature_of two_point_ring, feature_of square11]]\<rparr>"

text \<open>
  A DEM of 64-bit floats whose nodata value, -9999.0001, is no 32-bit float, and a
  rounding for it: to the nearest multiple of \<open>2 ^ (-10)\<close>, which is the spacing of the
  32-bit floats between 8192 and 16384 and leaves the other values of the example as
  they are.
\<close>

definition demo_f32 :: "real \<Rightarrow> real" where
  "demo_f32 x = real_of_int (round (x * 1024)) / 1024"

definition demo_round_ext :: "polygon ext" where
  "demo_round_ext = demo_ext\<lparr>f32 := demo_f32\<rparr>"

definition demo_f64_info :: dem_info where
  "demo_f64_info = demo_info\<lparr>nodata := Some (- 99990001 / 10000)\<rparr>"

definition demo_f64 :: "polygon state" where
  "demo_f64 =
     demo_loaded\<lparr>loaded := Some demo_f64_info,
                   heap := (\<lambda>_. [])(0 := [[100, - 99990001 / 10000], [100, 100]])\<rparr>"

section \<open>Properties\<close>

subsection \<open>The writer\<close>

lemma agree_seq: "keeps_heap m \<Longrightarrow> agree h n n' \<Longrightarrow> agree h (seq m n) (seq m n')"
  unfolding agree_def keeps_heap_def seq_def bnd_def
  by (auto split: prod.splits sum.splits)

lemma agree_bnd:
  assumes "keeps_heap m" and "\<And>x. agree h (f x) (g x)"
  shows "agree h (bnd m f) (bnd m g)"
  unfolding agree_def
proof (intro allI impI)
  fix s :: "'a state"
  assume h: "heap s = h"
  obtain r s1 where m: "m s = (r, s1)" by (cases "m s")
  with assms(1) h have "heap s1 = h" by (auto simp: keeps_heap_def dest: spec [of _ s])
  with assms(2) have "f x s1 = g x s1" for x by (simp add: agree_def)
  then show "bnd m f s = bnd m g s" using m by (simp add: bnd_def split: sum.splits)
qed

lemma agree_bnd_left: "agree h m m' \<Longrightarrow> agree h (bnd m f) (bnd m' f)"
  unfolding agree_def bnd_def by simp

lemma agree_gets: "agree h (bnd (gets (\<lambda>s. heap s a)) f) (f (h a))"
  by (simp add: agree_def bnd_def gets_def)

lemma keeps_heap_open_w: "keeps_heap (open_w p)"
  by (simp add: keeps_heap_def open_w_def)

lemma keeps_heap_flush: "keeps_heap (flush p b)"
  by (simp add: keeps_heap_def flush_def split: option.splits file_content.splits)

lemma keeps_heap_f_write: "keeps_heap (f_write ext p b t)"
  unfolding keeps_heap_def
proof
  fix s :: "'a state"
  obtain r s1 where f: "flush p (b @ t) s = (r, s1)" by (cases "flush p (b @ t) s")
  with keeps_heap_flush [of p "b @ t"] have "heap s1 = heap s"
    by (auto simp: keeps_heap_def dest: spec [of _ s])
  then show "heap (snd (f_write ext p b t s)) = heap s"
    using f by (simp add: f_write_def Let_def seq_def bnd_def ret_def split: sum.splits)
qed

lemma for_acc_map: "for_acc (map f xs) body = for_acc xs (\<lambda>x. body (f x))"
proof (induction xs)
  case Nil
  show ?case by (rule ext) simp
next
  case (Cons x xs)
  show ?case by (rule ext) (simp add: Cons)
qed

lemma for_acc_Cons: "for_acc (x # xs) body = (\<lambda>acc. bnd (body x acc) (for_acc xs body))"
  by (rule ext) simp

lemma bnd_attrs: "loaded s = Some d \<Longrightarrow> bnd attrs f s = f d s"
  by (simp add: bnd_def attrs_def)

lemma bnd_attrs_None: "loaded s = None \<Longrightarrow> bnd attrs f s = (Inl AttributeError, s)"
  by (simp add: bnd_def attrs_def)

lemma write_asc_file_eq:
  "write_asc_file ext a p nd s =
     (case loaded s of
        None \<Rightarrow> (Inl AttributeError, s)
      | Some d \<Rightarrow>
          seq (open_w p) (bnd (write_lines ext p (asc_lines ext d (heap s a) nd) []) (f_close p)) s)"
proof (cases "loaded s")
  case None
  then show ?thesis by (simp add: write_asc_file_def bnd_attrs_None)
next
  case (Some d)
  let ?tail = "\<lambda>rows f. for_acc rows
      (\<lambda>row f. f_write ext p f (join '' '' (map (str_f32 ext) row) @ newline)) f"
  let ?head = "\<lambda>k.
     bnd (f_write ext p [] (''ncols '' @ str_int (int (width d)) @ newline)) (\<lambda>f.
     bnd (f_write ext p f (''nrows '' @ str_int (int (height d)) @ newline)) (\<lambda>f.
     bnd (f_write ext p f (''xllcorner '' @ str_float ext (gt0 (geotransform d)) @ newline)) (\<lambda>f.
     bnd (f_write ext p f (''yllcorner '' @ str_float ext
            (gt3 (geotransform d) + real (height d) * gt5 (geotransform d)) @ newline)) (\<lambda>f.
     bnd (f_write ext p f (''cellsize '' @ str_float ext \<bar>gt1 (geotransform d)\<bar> @ newline)) (\<lambda>f.
     bnd (f_write ext p f (''NODATA_value '' @ str_int nd @ newline)) k)))))"
  let ?L = "seq (open_w p)
     (bnd (?head (\<lambda>f. bnd (gets (\<lambda>s. heap s a)) (\<lambda>rows. ?tail rows f))) (f_close p))"
  let ?R = "seq (open_w p) (bnd (?head (\<lambda>f. ?tail (heap s a) f)) (f_close p))"
  have "agree (heap s) ?L ?R"
    by (intro agree_seq agree_bnd_left agree_bnd keeps_heap_open_w keeps_heap_f_write agree_gets)
  then have "?L s = ?R s" unfolding agree_def by blast
  moreover have "write_asc_file ext a p nd s = ?L s"
    using Some by (simp add: write_asc_file_def bnd_attrs get_bounds_def Let_def with_open_w_def)
  moreover have "?R s = seq (open_w p) (bnd (write_lines ext p (asc_lines ext d (heap s a) nd) []) (f_close p)) s"
    by (simp add: write_lines_def asc_lines_def asc_header_def row_line_def for_acc_map for_acc_Cons)
  ultimately show ?thesis using Some by simp
qed

lemma unlines_Nil [simp]: "unlines [] = []"
  by (simp add: unlines_def)

lemma unlines_Cons [simp]: "unlines (l # ls) = l @ newline @ unlines ls"
  by (simp add: unlines_def)

lemma unlines_append: "unlines (xs @ ys) = unlines xs @ unlines ys"
  by (simp add: unlines_def)

lemma length_newline [simp]: "length newline = 1"
  by (simp add: newline_def)

lemma put_file_same: "files s p = Some (Text old) \<Longrightarrow> put_file p old (space s) s = s"
  unfolding put_file_def by (intro state.equality) (simp_all add: fun_upd_idem)

lemma put_file_put_file: "put_file p t n (put_file p t' n' s) = put_file p t n s"
  unfolding put_file_def by (intro state.equality) simp_all

lemma flush_run:
  "files s p = Some (Text old) \<Longrightarrow>
   flush p b s =
     (if length b \<le> space s then Inr () else Inl IOError,
      put_file p (old @ take (space s) b) (space s - length b) s)"
  by (simp add: flush_def put_file_def)

text \<open>
  Whatever the size of the buffer, the lines passed to \<^verbatim>\<open>f.write\<close> and the closing of
  the file put on the device the text of these lines as far as there is room; the
  writer returns when there is room for all of it and raises otherwise.
\<close>

lemma write_lines_run:
  "files s p = Some (Text old) \<Longrightarrow>
   bnd (write_lines ext p ls b) (f_close p) s =
     (if length (b @ unlines ls) \<le> space s then Inr () else Inl IOError,
      put_file p (old @ take (space s) (b @ unlines ls)) (space s - length (b @ unlines ls)) s)"
proof (induction ls arbitrary: s old b)
  case Nil
  then show ?case by (simp add: write_lines_def ret_def bnd_def f_close_def flush_run)
next
  case (Cons l ls)
  let ?b1 = "b @ l @ newline"
  have step: "bnd (write_lines ext p (l # ls) b) (f_close p) s =
      bnd (f_write ext p b (l @ newline)) (\<lambda>f. bnd (write_lines ext p ls f) (f_close p)) s"
    by (simp add: write_lines_def bnd_def split: prod.splits sum.splits)
  show ?case
  proof (cases "buffer_size ext < length ?b1")
    case False
    then have "f_write ext p b (l @ newline) s = (Inr ?b1, s)"
      by (simp add: f_write_def Let_def ret_def)
    then have "bnd (write_lines ext p (l # ls) b) (f_close p) s =
        bnd (write_lines ext p ls ?b1) (f_close p) s"
      unfolding step by (simp add: bnd_def)
    then show ?thesis using Cons.IH [OF Cons.prems, of ?b1] by simp
  next
    case True
    show ?thesis
    proof (cases "length ?b1 \<le> space s")
      case False
      then have "f_write ext p b (l @ newline) s =
          (Inl IOError, put_file p (old @ take (space s) ?b1) 0 s)"
        using True Cons.prems by (simp add: f_write_def Let_def seq_def bnd_def flush_run)
      then show ?thesis unfolding step using False by (simp add: bnd_def)
    next
      case le: True
      let ?s1 = "put_file p (old @ ?b1) (space s - length ?b1) s"
      have f1: "files ?s1 p = Some (Text (old @ ?b1))" and sp: "space ?s1 = space s - length ?b1"
        by (simp_all add: put_file_def)
      have "f_write ext p b (l @ newline) s = (Inr [], ?s1)"
        using True le Cons.prems by (simp add: f_write_def Let_def seq_def bnd_def flush_run ret_def)
      then have "bnd (write_lines ext p (l # ls) b) (f_close p) s =
          bnd (write_lines ext p ls []) (f_close p) ?s1"
        unfolding step by (simp add: bnd_def)
      also have "\<dots> = (if length (unlines ls) \<le> space ?s1 then Inr () else Inl IOError,
          put_file p ((old @ ?b1) @ take (space ?s1) (unlines ls))
            (space ?s1 - length (unlines ls)) ?s1)"
        using Cons.IH [OF f1, of "[]"] by simp
      finally show ?thesis using le sp by (auto simp: put_file_put_file ac_simps)
    qed
  qed
qed

lemma write_asc_file_run:
  assumes "loaded s = Some d" and "writable s p"
  shows "write_asc_file ext a p nd s =
     (if length (unlines (asc_lines ext d (heap s a) nd)) \<le> space s then Inr () else Inl IOError,
      put_file p (take (space s) (unlines (asc_lines ext d (heap s a) nd)))
        (space s - length (unlines (asc_lines ext d (heap s a) nd))) s)"
proof -
  let ?s1 = "put_file p [] (space s) s"
  have "files ?s1 p = Some (Text [])" by (simp add: put_file_def)
  from write_lines_run [OF this, of ext "asc_lines ext d (heap s a) nd" "[]"]
  have "bnd (write_lines ext p (asc_lines ext d (heap s a) nd) []) (f_close p) ?s1 =
     (if length (unlines (asc_lines ext d (heap s a) nd)) \<le> space s then Inr () else Inl IOError,
      put_file p (take (space s) (unlines (asc_lines ext d (heap s a) nd)))
        (space s - length (unlines (asc_lines ext d (heap s a) nd))) s)"
    by (simp add: put_file_put_file) (simp add: put_file_def)
  moreover have "open_w p s = (Inr (), ?s1)"
    using assms by (simp add: open_w_def put_file_def)
  ultimately show ?thesis using assms
    by (simp add: write_asc_file_eq seq_def bnd_def)
qed

lemma write_asc_file_unwritable:
  assumes "loaded s = Some d" and "\<not> writable s p"
  shows "write_asc_file ext a p nd s = (Inl IOError, s)"
  using assms by (simp add: write_asc_file_eq seq_def bnd_def open_w_def)

subsection \<open>Lines and tokens\<close>

lemma split_on_not_Nil [simp]: "split_on c xs \<noteq> []"
  by (induction xs) (auto split: list.splits)

lemma split_on_prefix: "c \<notin> set l \<Longrightarrow> split_on c (l @ c # rest) = l # split_on c rest"
  by (induction l) (auto split: list.splits)

lemma split_on_unlines:
  "\<forall>l \<in> set ls. CHR 0x0A \<notin> set l \<Longrightarrow> split_on (CHR 0x0A) (unlines ls) = ls @ [[]]"
  by (induction ls) (simp_all add: newline_def split_on_prefix)

lemma lines_of_unlines: "\<forall>l \<in> set ls. CHR 0x0A \<notin> set l \<Longrightarrow> lines_of (unlines ls) = ls"
  by (simp add: lines_of_def split_on_unlines)

lemma tokens_word: "\<forall>c \<in> set t. \<not> is_space c \<Longrightarrow> tokens cur (t @ rest) = tokens (rev t @ cur) rest"
  by (induction t arbitrary: cur) simp_all

lemma split_ws_join:
  "\<forall>t \<in> set ts. t \<noteq> [] \<and> (\<forall>c \<in> set t. \<not> is_space c) \<Longrightarrow> split_ws (join '' '' ts) = ts"
proof (induction "'' ''" ts rule: join.induct)
  case 1
  then show ?case by (simp add: split_ws_def)
next
  case (2 x)
  then show ?case using tokens_word [of x "[]" "[]"] by (simp add: split_ws_def)
next
  case (3 x y ys)
  have "tokens [] (x @ '' '' @ join '' '' (y # ys)) = tokens (rev x) ('' '' @ join '' '' (y # ys))"
    using 3 tokens_word [of x "[]"] by simp
  also have "\<dots> = x # tokens [] (join '' '' (y # ys))"
    using 3 by (simp add: is_space_def)
  finally show ?case using 3 by (simp add: split_ws_def)
qed

lemma set_join: "set (join sep ts) \<subseteq> set sep \<union> \<Union> (set ` set ts)"
  by (induction sep ts rule: join.induct) auto

lemma str_nat_chars: "c \<in> set (str_nat n) \<Longrightarrow> \<exists>d < 10. c = digit d"
proof (induction n rule: str_nat.induct)
  case (1 n)
  show ?case
  proof (cases "n < 10")
    case True
    then have "str_nat n = [digit n]" by (simp add: str_nat.simps)
    then show ?thesis using 1(2) True by auto
  next
    case False
    then have "str_nat n = str_nat (n div 10) @ [digit (n mod 10)]"
      by (subst str_nat.simps) simp
    with 1(2) have "c \<in> set (str_nat (n div 10)) \<or> c = digit (n mod 10)" by auto
    then show ?thesis
    proof
      assume "c \<in> set (str_nat (n div 10))"
      then show ?thesis using 1(1) False by simp
    next
      assume "c = digit (n mod 10)"
      moreover have "n mod 10 < 10" by simp
      ultimately show ?thesis by blast
    qed
  qed
qed

lemma str_nat_no_space: "c \<in> set (str_nat n) \<Longrightarrow> \<not> is_space c \<and> c \<noteq> CHR ''-''"
proof -
  assume "c \<in> set (str_nat n)"
  then obtain d where "d < 10" and c: "c = digit d" using str_nat_chars by blast
  then have "d \<in> {0, 1, 2, 3, 4, 5, 6, 7, 8, 9}" by auto
  then show ?thesis unfolding c by (auto simp: digit_def is_space_def)
qed

lemma str_int_no_space: "c \<in> set (str_int i) \<Longrightarrow> \<not> is_space c"
proof (cases "i < 0")
  case True
  assume "c \<in> set (str_int i)"
  with True have "c = CHR ''-'' \<or> c \<in> set (str_nat (nat (- i)))" by (simp add: str_int_def)
  then show ?thesis using str_nat_no_space by (auto simp: is_space_def)
next
  case False
  assume "c \<in> set (str_int i)"
  with False have "c \<in> set (str_nat (nat i))" by (simp add: str_int_def)
  then show ?thesis using str_nat_no_space by blast
qed

lemma str_int_no_newline: "CHR 0x0A \<notin> set (str_int i)"
  using str_int_no_space [of "CHR 0x0A" i] by (auto simp: is_space_def)

lemma row_line_no_newline:
  "plain_format ext \<Longrightarrow> CHR 0x0A \<notin> set (row_line ext row)"
proof
  assume pf: "plain_format ext" and "CHR 0x0A \<in> set (row_line ext row)"
  then have "CHR 0x0A \<in> set '' '' \<union> \<Union> (set ` set (map (str_f32 ext) row))"
    using set_join [of "'' ''" "map (str_f32 ext) row"] by (auto simp: row_line_def)
  then obtain x where "CHR 0x0A \<in> set (str_f32 ext x)" by auto
  then show False using pf by (auto simp: plain_format_def is_space_def)
qed

lemma asc_lines_no_newline:
  assumes "plain_format ext" and "l \<in> set (asc_lines ext d rows nd)"
  shows "CHR 0x0A \<notin> set l"
proof -
  from assms(2) consider "l \<in> set (asc_header ext d nd)" | row where "l = row_line ext row"
    by (auto simp: asc_lines_def)
  then show ?thesis
  proof cases
    case 1
    then show ?thesis using assms(1) str_int_no_newline
      by (auto simp: asc_header_def plain_format_def)
  next
    case 2
    then show ?thesis using assms(1) row_line_no_newline by simp
  qed
qed


lemma plain_format_demo: "plain_format demo_ext"
  using str_int_no_space by (auto simp: plain_format_def demo_ext_def str_integral_def is_space_def)


lemma write_asc_file_Inr:
  assumes "write_asc_file ext a p nd s = (Inr (), s')"
  obtains d where "loaded s = Some d" and "writable s p"
    and "files s' p = Some (Text (unlines (asc_lines ext d (heap s a) nd)))"
proof (cases "loaded s")
  case None
  then show ?thesis using assms by (simp add: write_asc_file_eq)
next
  case (Some d)
  show ?thesis
  proof (cases "writable s p")
    case False
    then show ?thesis using assms Some write_asc_file_unwritable [of s d p] by simp
  next
    case True
    let ?text = "unlines (asc_lines ext d (heap s a) nd)"
    from assms write_asc_file_run [OF Some True, of ext a nd]
    have k: "length ?text \<le> space s"
      and s': "s' = put_file p (take (space s) ?text) (space s - length ?text) s"
      by (auto split: if_splits)
    have "files s' p = Some (Text ?text)"
      unfolding s' using k by (simp add: put_file_def)
    then show ?thesis using that Some True by blast
  qed
qed

lemma demo_write:
  "write_asc_file demo_ext 0 ''out.asc'' (- 9999) demo_loaded =
     (Inr (), put_file ''out.asc''
        (unlines [''ncols 2'', ''nrows 2'', ''xllcorner 0.0'', ''yllcorner 0.0'', ''cellsize 1.0'',
                  ''NODATA_value -9999'', ''100.0 -32768.0'', ''100.0 100.0'']) 897 demo_loaded)"
  by (simp add: write_asc_file_run [where d = demo_info] demo_loaded_def demo_state_def Let_def
      asc_lines_def asc_header_def row_line_def demo_info_def demo_ext_def demo_gt_def str_integral_def
      str_int_def str_nat.simps digit_def)

text \<open>
  C4. The data rows of the file are the rows of the array in the array's own order: data
  line \<open>i\<close> (line \<open>6 + i\<close> of the file) is row \<open>i\<close> of the array, and the writer does not
  flip the array.
\<close>

theorem write_asc_file_row_order:
  assumes "write_asc_file ext a p nd s = (Inr (), s')"
    and "plain_format ext"
    and "i < length (heap s a)"
  shows "\<exists>text. files s' p = Some (Text text) \<and>
           drop 6 (lines_of text) = map (\<lambda>row. join '' '' (map (str_f32 ext) row)) (heap s a) \<and>
           lines_of text ! (6 + i) = join '' '' (map (str_f32 ext) (heap s a ! i))"
proof -
  from assms(1) obtain d where
    f: "files s' p = Some (Text (unlines (asc_lines ext d (heap s a) nd)))"
    by (rule write_asc_file_Inr)
  let ?ls = "asc_lines ext d (heap s a) nd"
  have l: "lines_of (unlines ?ls) = ?ls"
    using asc_lines_no_newline [OF assms(2)] by (intro lines_of_unlines) blast
  have h: "length (asc_header ext d nd) = 6" by (simp add: asc_header_def)
  have "drop 6 ?ls = map (row_line ext) (heap s a)"
    using h by (simp add: asc_lines_def)
  moreover have "?ls ! (6 + i) = row_line ext (heap s a ! i)"
    using h assms(3) by (simp add: asc_lines_def nth_append)
  ultimately show ?thesis using f l by (simp add: row_line_def [abs_def])
qed

theorem write_asc_file_row_order_witness:
  "write_asc_file demo_ext 0 ''out.asc'' (- 9999) demo_loaded =
     (Inr (), snd (write_asc_file demo_ext 0 ''out.asc'' (- 9999) demo_loaded)) \<and>
   plain_format demo_ext \<and> (1::nat) < length (heap demo_loaded 0) \<and>
   (\<exists>text. files (snd (write_asc_file demo_ext 0 ''out.asc'' (- 9999) demo_loaded)) ''out.asc''
             = Some (Text text) \<and>
      drop 6 (lines_of text) = [''100.0 -32768.0'', ''100.0 100.0''] \<and>
      lines_of text ! 7 = ''100.0 100.0'')"
proof -
  have h1: "write_asc_file demo_ext 0 ''out.asc'' (- 9999) demo_loaded =
     (Inr (), snd (write_asc_file demo_ext 0 ''out.asc'' (- 9999) demo_loaded))"
    by (simp add: demo_write)
  have h3: "(1::nat) < length (heap demo_loaded 0)"
    by (simp add: demo_loaded_def)
  have v: "map (\<lambda>row. join '' '' (map (str_f32 demo_ext) row)) (heap demo_loaded 0)
      = [''100.0 -32768.0'', ''100.0 100.0'']"
    "join '' '' (map (str_f32 demo_ext) (heap demo_loaded 0 ! 1)) = ''100.0 100.0''"
    by (simp_all add: demo_loaded_def demo_ext_def str_integral_def str_int_def str_nat.simps digit_def)
  from write_asc_file_row_order [OF h1 plain_format_demo h3]
  show ?thesis using h1 h3 plain_format_demo unfolding v by simp
qed

text \<open>
  C8, as the code has it. The header counts are the grid's (\<^verbatim>\<open>self.width\<close> and
  \<^verbatim>\<open>self.height\<close>), the data lines are the array's, and the writer compares neither
  with the other. For an array of the grid's shape the file is the six header lines, then
  \<open>nrows\<close> lines, each of \<open>ncols\<close> values separated by spaces, in the order of the array,
  and nothing else.
\<close>

theorem write_asc_file_format:
  assumes "write_asc_file ext a p nd s = (Inr (), s')"
    and "loaded s = Some d"
    and "has_shape (heap s a) (height d) (width d)"
    and "plain_format ext"
    and "i < height d"
  shows "\<exists>text rows. files s' p = Some (Text text) \<and>
           lines_of text =
             [''ncols '' @ str_int (int (width d)),
              ''nrows '' @ str_int (int (height d)),
              ''xllcorner '' @ str_float ext (fst (get_bounds d)),
              ''yllcorner '' @ str_float ext (fst (snd (get_bounds d))),
              ''cellsize '' @ str_float ext \<bar>gt1 (geotransform d)\<bar>,
              ''NODATA_value '' @ str_int nd] @ rows \<and>
           length rows = height d \<and>
           split_ws (rows ! i) = map (str_f32 ext) (heap s a ! i) \<and>
           length (split_ws (rows ! i)) = width d"
proof -
  from assms(1) obtain d' where "loaded s = Some d'"
    and "files s' p = Some (Text (unlines (asc_lines ext d' (heap s a) nd)))"
    by (rule write_asc_file_Inr)
  with assms(2) have f: "files s' p = Some (Text (unlines (asc_lines ext d (heap s a) nd)))"
    by simp
  let ?ls = "asc_lines ext d (heap s a) nd"
  let ?rows = "map (row_line ext) (heap s a)"
  have l: "lines_of (unlines ?ls) = ?ls"
    using asc_lines_no_newline [OF assms(4)] by (intro lines_of_unlines) blast
  have len: "length (heap s a) = height d" and row: "length (heap s a ! i) = width d"
    using assms(3,5) by (auto simp: has_shape_def)
  have tok: "\<forall>t \<in> set (map (str_f32 ext) (heap s a ! i)). t \<noteq> [] \<and> (\<forall>c \<in> set t. \<not> is_space c)"
    using assms(4) by (auto simp: plain_format_def)
  have "split_ws (?rows ! i) = map (str_f32 ext) (heap s a ! i)"
    using split_ws_join [OF tok] assms(5) len by (simp add: row_line_def)
  then show ?thesis using f l len row
    by (simp add: asc_lines_def asc_header_def get_bounds_def Let_def)
qed

lemma has_shape_demo: "has_shape (heap demo_loaded 0) (height demo_info) (width demo_info)"
  by (simp add: has_shape_def demo_loaded_def demo_info_def)

theorem write_asc_file_format_witness:
  "write_asc_file demo_ext 0 ''out.asc'' (- 9999) demo_loaded =
     (Inr (), snd (write_asc_file demo_ext 0 ''out.asc'' (- 9999) demo_loaded)) \<and>
   loaded demo_loaded = Some demo_info \<and>
   has_shape (heap demo_loaded 0) (height demo_info) (width demo_info) \<and>
   plain_format demo_ext \<and> (1::nat) < height demo_info \<and>
   (\<exists>text rows.
      files (snd (write_asc_file demo_ext 0 ''out.asc'' (- 9999) demo_loaded)) ''out.asc''
        = Some (Text text) \<and>
      lines_of text =
        [''ncols 2'', ''nrows 2'', ''xllcorner 0.0'', ''yllcorner 0.0'', ''cellsize 1.0'',
         ''NODATA_value -9999''] @ rows \<and>
      length rows = 2 \<and> split_ws (rows ! 1) = [''100.0'', ''100.0''] \<and>
      length (split_ws (rows ! 1)) = 2)"
proof -
  have h1: "write_asc_file demo_ext 0 ''out.asc'' (- 9999) demo_loaded =
     (Inr (), snd (write_asc_file demo_ext 0 ''out.asc'' (- 9999) demo_loaded))"
    by (simp add: demo_write)
  have h2: "loaded demo_loaded = Some demo_info"
    by (simp add: demo_loaded_def)
  have h5: "(1::nat) < height demo_info"
    by (simp add: demo_info_def)
  have v: "''ncols '' @ str_int (int (width demo_info)) = ''ncols 2''"
    "''nrows '' @ str_int (int (height demo_info)) = ''nrows 2''"
    "''xllcorner '' @ str_float demo_ext (fst (get_bounds demo_info)) = ''xllcorner 0.0''"
    "''yllcorner '' @ str_float demo_ext (fst (snd (get_bounds demo_info))) = ''yllcorner 0.0''"
    "''cellsize '' @ str_float demo_ext \<bar>gt1 (geotransform demo_info)\<bar> = ''cellsize 1.0''"
    "''NODATA_value '' @ str_int (- 9999) = ''NODATA_value -9999''"
    "map (str_f32 demo_ext) (heap demo_loaded 0 ! 1) = [''100.0'', ''100.0'']"
    "height demo_info = 2" "width demo_info = 2"
    by (simp_all add: demo_loaded_def demo_info_def demo_ext_def demo_gt_def get_bounds_def
        str_integral_def str_int_def str_nat.simps digit_def)
  from write_asc_file_format [OF h1 h2 has_shape_demo plain_format_demo h5]
  show ?thesis using h1 h2 h5 has_shape_demo plain_format_demo unfolding v
    by (simp add: str_int_def str_nat.simps digit_def)
qed

lemma demo_write_tall:
  "write_asc_file demo_ext 1 ''out.asc'' (- 9999) demo_tall =
     (Inr (), put_file ''out.asc''
        (unlines [''ncols 2'', ''nrows 2'', ''xllcorner 0.0'', ''yllcorner 0.0'', ''cellsize 1.0'',
                  ''NODATA_value -9999'', ''1.0 2.0'', ''3.0 4.0'', ''5.0 6.0'']) 900 demo_tall)"
  by (simp add: write_asc_file_run [where d = demo_info] demo_tall_def demo_loaded_def demo_state_def
      asc_lines_def asc_header_def row_line_def demo_info_def demo_ext_def demo_gt_def str_integral_def
      str_int_def str_nat.simps digit_def)

text \<open>
  C8 as stated fails: for an array of three rows on the grid of two rows, which the writer
  accepts, the file declares \<^verbatim>\<open>nrows 2\<close> and has three data lines.
\<close>

theorem write_asc_file_rows_counterexample:
  "loaded demo_tall = Some demo_info \<and> height demo_info = 2 \<and> length (heap demo_tall 1) = 3 \<and>
   fst (write_asc_file demo_ext 1 ''out.asc'' (- 9999) demo_tall) = Inr () \<and>
   (\<exists>text. files (snd (write_asc_file demo_ext 1 ''out.asc'' (- 9999) demo_tall)) ''out.asc''
             = Some (Text text) \<and>
      lines_of text =
        [''ncols 2'', ''nrows 2'', ''xllcorner 0.0'', ''yllcorner 0.0'', ''cellsize 1.0'',
         ''NODATA_value -9999'', ''1.0 2.0'', ''3.0 4.0'', ''5.0 6.0''])"
proof -
  have "lines_of (unlines [''ncols 2'', ''nrows 2'', ''xllcorner 0.0'', ''yllcorner 0.0'',
            ''cellsize 1.0'', ''NODATA_value -9999'', ''1.0 2.0'', ''3.0 4.0'', ''5.0 6.0'']) =
        [''ncols 2'', ''nrows 2'', ''xllcorner 0.0'', ''yllcorner 0.0'', ''cellsize 1.0'',
         ''NODATA_value -9999'', ''1.0 2.0'', ''3.0 4.0'', ''5.0 6.0'']"
    by (rule lines_of_unlines) simp
  moreover have "loaded demo_tall = Some demo_info" "height demo_info = 2"
    "length (heap demo_tall 1) = 3"
    by (simp_all add: demo_tall_def demo_loaded_def demo_info_def)
  ultimately show ?thesis unfolding demo_write_tall by (simp add: put_file_def)
qed

text \<open>
  C5, as the code has it. Once the DEM is loaded, a destination that cannot be opened for
  writing makes the writer raise \<open>IOError\<close> and leaves the state as it was. The writer
  has no temporary file: it truncates the destination when it opens it, and the text
  goes through the buffer of Python's file object, which hands it to the device when it
  is full and when the file is closed. When the device has no room for the whole grid the
  writer raises \<open>IOError\<close>, and the destination holds the part of the text that found room:
  a proper prefix of the grid, cut where the room ended, be it in the middle of a line.
\<close>

theorem write_asc_file_failure:
  assumes "loaded s = Some d"
  shows "(\<not> writable s p \<longrightarrow> write_asc_file ext a p nd s = (Inl IOError, s)) \<and>
         (writable s p \<and> fst (write_asc_file ext a p nd s) \<noteq> Inr () \<longrightarrow>
            fst (write_asc_file ext a p nd s) = Inl IOError \<and>
            space s < length (unlines (asc_lines ext d (heap s a) nd)) \<and>
            files (snd (write_asc_file ext a p nd s)) p =
              Some (Text (take (space s) (unlines (asc_lines ext d (heap s a) nd)))))"
proof (intro conjI impI)
  assume "\<not> writable s p"
  then show "write_asc_file ext a p nd s = (Inl IOError, s)"
    using assms by (rule write_asc_file_unwritable [rotated])
next
  let ?text = "unlines (asc_lines ext d (heap s a) nd)"
  assume a: "writable s p \<and> fst (write_asc_file ext a p nd s) \<noteq> Inr ()"
  then have w: "writable s p" by simp
  note run = write_asc_file_run [OF assms w, of ext a nd]
  from a run show k: "space s < length ?text" by (auto split: if_splits)
  then show "fst (write_asc_file ext a p nd s) = Inl IOError"
    using run by simp
  show "files (snd (write_asc_file ext a p nd s)) p = Some (Text (take (space s) ?text))"
    using run by (simp add: put_file_def)
qed

lemma demo_write_full:
  "write_asc_file demo_ext 0 ''out.asc'' (- 9999) demo_full =
     (Inl IOError, put_file ''out.asc'' (''ncols 2'' @ newline @ ''nr'') 0 demo_full)"
  by (simp add: write_asc_file_run [where d = demo_info] demo_full_def demo_loaded_def demo_state_def
      asc_lines_def asc_header_def row_line_def demo_info_def demo_ext_def demo_gt_def str_integral_def
      str_int_def str_nat.simps digit_def newline_def)

theorem write_asc_file_failure_witness:
  "loaded demo_readonly = Some demo_info \<and> \<not> writable demo_readonly ''out.asc'' \<and>
   write_asc_file demo_ext 0 ''out.asc'' (- 9999) demo_readonly = (Inl IOError, demo_readonly) \<and>
   loaded demo_full = Some demo_info \<and> writable demo_full ''out.asc'' \<and>
   fst (write_asc_file demo_ext 0 ''out.asc'' (- 9999) demo_full) \<noteq> Inr () \<and>
   fst (write_asc_file demo_ext 0 ''out.asc'' (- 9999) demo_full) = Inl IOError \<and>
   space demo_full < length (unlines (asc_lines demo_ext demo_info (heap demo_full 0) (- 9999))) \<and>
   files (snd (write_asc_file demo_ext 0 ''out.asc'' (- 9999) demo_full)) ''out.asc'' =
     Some (Text (take (space demo_full)
       (unlines (asc_lines demo_ext demo_info (heap demo_full 0) (- 9999)))))"
proof -
  have r: "loaded demo_readonly = Some demo_info" "\<not> writable demo_readonly ''out.asc''"
    by (simp_all add: demo_readonly_def demo_loaded_def)
  have f: "loaded demo_full = Some demo_info" "writable demo_full ''out.asc''"
    "fst (write_asc_file demo_ext 0 ''out.asc'' (- 9999) demo_full) \<noteq> Inr ()"
    by (simp_all add: demo_write_full) (simp_all add: demo_full_def demo_loaded_def demo_state_def)
  from write_asc_file_failure [OF r(1), of "''out.asc''" demo_ext 0 "- 9999"]
    write_asc_file_failure [OF f(1), of "''out.asc''" demo_ext 0 "- 9999"]
  show ?thesis using r f by blast
qed

text \<open>
  C5 as stated fails: with room for ten characters on the device the writer raises
  \<open>IOError\<close>, and a file is found at the destination, where none was: the first header
  line and the first two characters of the second.
\<close>

theorem write_asc_file_partial_counterexample:
  "fst (write_asc_file demo_ext 0 ''out.asc'' (- 9999) demo_full) = Inl IOError \<and>
   files demo_full ''out.asc'' = None \<and>
   files (snd (write_asc_file demo_ext 0 ''out.asc'' (- 9999) demo_full)) ''out.asc'' =
     Some (Text (''ncols 2'' @ newline @ ''nr''))"
  by (simp add: demo_write_full put_file_def) (simp add: demo_full_def demo_loaded_def demo_state_def)

subsection \<open>Rasterization\<close>

lemma zip_map_same: "zip xs (map f xs) = map (\<lambda>x. (x, f x)) xs"
  by (induction xs) simp_all

lemma map2_map_map: "map2 F (map f xs) (map g xs) = map (\<lambda>x. F (f x) (g x)) xs"
  by (induction xs) simp_all

lemma enumerate_map_upt: "enumerate 0 (map f [0..<n]) = map (\<lambda>i. (i, f i)) [0..<n]"
  by (simp add: enumerate_eq_zip zip_map_same)

lemma np_zeros_tabulate2: "np_zeros h w = tabulate2 h w (\<lambda>r c. 0)"
  by (simp add: np_zeros_def tabulate2_def map_replicate_const)

lemma shape_tabulate2: "shape (tabulate2 h w f) = (h, if h = 0 then 0 else w)"
  by (cases h) (simp_all add: shape_def tabulate2_def upt_conv_Cons del: upt_Suc)

lemma eq_scalar_tabulate2: "eq_scalar (tabulate2 h w f) v = tabulate2 h w (\<lambda>r c. f r c = v)"
  by (simp add: eq_scalar_def tabulate2_def)

lemma setitem_mask_tabulate2:
  "setitem_mask (tabulate2 h w f) (tabulate2 h w m) v =
     Inr (tabulate2 h w (\<lambda>r c. if m r c then v else f r c))"
  by (simp add: setitem_mask_def shape_tabulate2) (simp add: tabulate2_def map2_map_map)

lemma burn_geometry_tabulate2:
  "burn_geometry covers v (tabulate2 h w f) = tabulate2 h w (\<lambda>r c. if covers r c then v else f r c)"
  by (simp add: burn_geometry_def tabulate2_def enumerate_map_upt)

lemma RasterizeLayer_tabulate2:
  "RasterizeLayer ext d layer v (tabulate2 h w f) =
     tabulate2 h w (\<lambda>r c. if \<exists>g \<in> set layer. burns ext (geotransform d) (width d) (height d) g r c
                          then v else f r c)"
proof (induction layer arbitrary: f)
  case Nil
  then show ?case by (simp add: RasterizeLayer_def)
next
  case (Cons g layer)
  let ?b = "burns ext (geotransform d) (width d) (height d)"
  have "RasterizeLayer ext d (g # layer) v (tabulate2 h w f) =
        RasterizeLayer ext d layer v (tabulate2 h w (\<lambda>r c. if ?b g r c then v else f r c))"
    by (simp add: RasterizeLayer_def burn_geometry_tabulate2)
  also have "\<dots> = tabulate2 h w (\<lambda>r c. if \<exists>g' \<in> set layer. ?b g' r c then v
                                          else if ?b g r c then v else f r c)"
    by (rule Cons.IH)
  also have "(\<lambda>r c. if \<exists>g' \<in> set layer. ?b g' r c then v else if ?b g r c then v else f r c) =
             (\<lambda>r c. if \<exists>g' \<in> set (g # layer). ?b g' r c then v else f r c)"
    by (intro ext) auto
  finally show ?case .
qed

lemma bnd_Inr: "m s = (Inr x, s') \<Longrightarrow> bnd m f s = f x s'"
  by (simp add: bnd_def)

lemma bnd_Inl: "m s = (Inl e, s') \<Longrightarrow> bnd m f s = (Inl e, s')"
  by (simp add: bnd_def)

lemma seq_Inr: "m s = (Inr (), s') \<Longrightarrow> seq m n s = n s'"
  by (simp add: seq_def bnd_def)

lemma seq_print: "seq (print l) n s = n (s\<lparr>stdout := stdout s @ [l]\<rparr>)"
  by (simp add: seq_def bnd_def print_def)

lemma seq_gdal_reports:
  "seq (gdal_reports ext call) n s = n (s\<lparr>stderr := stderr s @ cpl_stderr ext call s\<rparr>)"
  by (simp add: seq_def bnd_def gdal_reports_def)

lemma bnd_gets: "bnd (gets f) k s = k (f s) s"
  by (simp add: bnd_def gets_def)

lemma bnd_ret: "bnd (ret x) f s = f x s"
  by (simp add: bnd_def ret_def)

lemma bnd_lift: "bnd (lift (Inr x)) f s = f x s"
  by (simp add: bnd_def lift_def)

lemma bnd_gdal_reports:
  "bnd (gdal_reports ext call) f s = f () (s\<lparr>stderr := stderr s @ cpl_stderr ext call s\<rparr>)"
  by (simp add: bnd_def gdal_reports_def)

lemma bnd_assoc: "bnd (bnd m f) g s = bnd m (\<lambda>x. bnd (f x) g) s"
  by (simp add: bnd_def split: prod.splits sum.splits)

lemma bnd_json_load_features:
  "files s p = Some (FeatureCollection fs) \<Longrightarrow> bnd (json_load_features p) f s = f fs s"
  by (simp add: bnd_def json_load_features_def)

lemma for_acc_Nil: "for_acc [] body = ret"
  by (rule ext) simp

lemma fst_bnd:
  "fst (bnd m f s) = (case fst (m s) of Inl e \<Rightarrow> Inl e | Inr x \<Rightarrow> fst (f x (snd (m s))))"
  by (cases "m s") (simp add: bnd_def split: sum.splits)

lemma bnd_fst_Inl: "fst (m s) = Inl e \<Longrightarrow> bnd m f s = (Inl e, snd (m s))"
  by (cases "m s") (simp add: bnd_def)


lemma only_prints_refl: "only_prints s s"
  unfolding only_prints_def by (intro exI [of _ "[]"]) simp

lemma only_prints_trans:
  assumes "only_prints s s'" and "only_prints s' s''"
  shows "only_prints s s''"
proof -
  from assms obtain out err out' err' where
    "s' = s\<lparr>stdout := stdout s @ out, stderr := stderr s @ err\<rparr>"
    and "s'' = s'\<lparr>stdout := stdout s' @ out', stderr := stderr s' @ err'\<rparr>"
    unfolding only_prints_def by blast
  then have "s'' = s\<lparr>stdout := stdout s @ (out @ out'), stderr := stderr s @ (err @ err')\<rparr>"
    by simp
  then show ?thesis unfolding only_prints_def by blast
qed

lemma only_prints_fields:
  assumes "only_prints s s'"
  shows "loaded s' = loaded s" and "files s' = files s" and "heap s' = heap s"
    and "next_addr s' = next_addr s" and "space s' = space s" and "writable s' = writable s"
    and "output_dir s' = output_dir s" and "buildings_geojson_path s' = buildings_geojson_path s"
    and "dem_tile_path s' = dem_tile_path s" and "ticks s' = ticks s"
  using assms by (auto simp: only_prints_def)

lemma only_prints_print: "only_prints s (s\<lparr>stdout := stdout s @ [l]\<rparr>)"
  unfolding only_prints_def by (intro exI [of _ "[l]"] exI [of _ "[]"]) simp

lemma only_reports_only_prints: "only_reports s s' \<Longrightarrow> only_prints s s'"
proof -
  assume "only_reports s s'"
  then obtain err where "s' = s\<lparr>stderr := stderr s @ err\<rparr>" unfolding only_reports_def ..
  then have "s' = s\<lparr>stdout := stdout s @ [], stderr := stderr s @ err\<rparr>" by simp
  then show ?thesis unfolding only_prints_def by blast
qed

lemma prints_only_ret: "prints_only (ret x)"
  by (simp add: prints_only_def ret_def only_prints_refl)

lemma prints_only_raise: "prints_only (raise e)"
  by (simp add: prints_only_def raise_def only_prints_refl)

lemma prints_only_lift: "prints_only (lift r)"
  by (simp add: prints_only_def lift_def only_prints_refl)

lemma prints_only_gets: "prints_only (gets f)"
  by (simp add: prints_only_def gets_def only_prints_refl)

lemma prints_only_attrs: "prints_only attrs"
  by (simp add: prints_only_def attrs_def only_prints_refl split: option.splits)

lemma prints_only_print: "prints_only (print l)"
  by (simp add: prints_only_def print_def only_prints_print)

lemma prints_only_json_load_features: "prints_only (json_load_features p)"
  by (simp add: prints_only_def json_load_features_def only_prints_refl
      split: option.splits file_content.splits)

lemma prints_only_bnd:
  assumes "prints_only m" and "\<And>x. prints_only (f x)"
  shows "prints_only (bnd m f)"
  unfolding prints_only_def
proof
  fix s
  obtain r s1 where m: "m s = (r, s1)" by (cases "m s")
  with assms(1) have 1: "only_prints s s1" by (auto simp: prints_only_def dest: spec [of _ s])
  show "only_prints s (snd (bnd m f s))"
  proof (cases r)
    case (Inl e)
    then show ?thesis using m 1 by (simp add: bnd_def)
  next
    case (Inr x)
    from assms(2) [of x] have "only_prints s1 (snd (f x s1))" by (simp add: prints_only_def)
    then show ?thesis using m 1 Inr by (auto simp: bnd_def intro: only_prints_trans)
  qed
qed

lemma prints_only_seq: "prints_only m \<Longrightarrow> prints_only n \<Longrightarrow> prints_only (seq m n)"
  by (simp add: seq_def prints_only_bnd)

lemma prints_only_for_acc: "(\<And>x acc. prints_only (body x acc)) \<Longrightarrow> prints_only (for_acc xs body acc)"
  by (induction xs arbitrary: acc) (simp_all add: prints_only_ret prints_only_bnd)


lemma only_reports_refl: "only_reports s s"
  unfolding only_reports_def by (intro exI [of _ "[]"]) simp

lemma only_reports_trans:
  assumes "only_reports s s'" and "only_reports s' s''"
  shows "only_reports s s''"
proof -
  from assms obtain err err' where "s' = s\<lparr>stderr := stderr s @ err\<rparr>"
    and "s'' = s'\<lparr>stderr := stderr s' @ err'\<rparr>"
    unfolding only_reports_def by blast
  then have "s'' = s\<lparr>stderr := stderr s @ (err @ err')\<rparr>" by simp
  then show ?thesis unfolding only_reports_def by blast
qed

lemma reports_only_ret: "reports_only (ret x)"
  by (simp add: reports_only_def ret_def only_reports_refl)

lemma reports_only_lift: "reports_only (lift r)"
  by (simp add: reports_only_def lift_def only_reports_refl)

lemma reports_only_attrs: "reports_only attrs"
  by (simp add: reports_only_def attrs_def only_reports_refl split: option.splits)

lemma reports_only_gdal_reports: "reports_only (gdal_reports ext call)"
  unfolding reports_only_def only_reports_def gdal_reports_def by auto

lemma reports_only_bnd:
  assumes "reports_only m" and "\<And>x. reports_only (f x)"
  shows "reports_only (bnd m f)"
  unfolding reports_only_def
proof
  fix s
  obtain r s1 where m: "m s = (r, s1)" by (cases "m s")
  with assms(1) have 1: "only_reports s s1" by (auto simp: reports_only_def dest: spec [of _ s])
  show "only_reports s (snd (bnd m f s))"
  proof (cases r)
    case (Inl e)
    then show ?thesis using m 1 by (simp add: bnd_def)
  next
    case (Inr x)
    from assms(2) [of x] have "only_reports s1 (snd (f x s1))" by (simp add: reports_only_def)
    then show ?thesis using m 1 Inr by (auto simp: bnd_def intro: only_reports_trans)
  qed
qed

lemma reports_only_seq: "reports_only m \<Longrightarrow> reports_only n \<Longrightarrow> reports_only (seq m n)"
  by (simp add: seq_def reports_only_bnd)

lemma reports_only_for_acc: "(\<And>x acc. reports_only (body x acc)) \<Longrightarrow> reports_only (for_acc xs body acc)"
  by (induction xs arbitrary: acc) (simp_all add: reports_only_ret reports_only_bnd)

lemma reports_only_prints_only: "reports_only m \<Longrightarrow> prints_only m"
  by (simp add: reports_only_def prints_only_def only_reports_only_prints)

lemma reports_only_rasterize_chunk: "reports_only (rasterize_chunk ext chunk out)"
  unfolding rasterize_chunk_def Let_def
  by (intro reports_only_bnd reports_only_seq reports_only_attrs reports_only_gdal_reports
        reports_only_for_acc reports_only_lift reports_only_ret)

lemma prints_only_rasterize_chunk: "prints_only (rasterize_chunk ext chunk out)"
  by (rule reports_only_prints_only) (rule reports_only_rasterize_chunk)

lemma prints_only_chunk_step: "prints_only (chunk_step ext fs k i acc)"
  by (cases acc)
     (simp add: chunk_step_def Let_def prints_only_seq prints_only_bnd prints_only_print
        prints_only_ret prints_only_rasterize_chunk)

lemma prints_only_rasterize_buildings_chunked: "prints_only (rasterize_buildings_chunked ext k)"
  unfolding rasterize_buildings_chunked_def Let_def
  by (intro prints_only_bnd prints_only_seq prints_only_gets prints_only_print prints_only_attrs
        prints_only_json_load_features prints_only_lift prints_only_for_acc prints_only_chunk_step)
     (simp add: prints_only_seq prints_only_print prints_only_ret split: prod.splits)


text \<open>
  The loop over the features of a chunk returns their geometries, or raises what the first
  feature without a geometry raises.
\<close>

lemma geometries_append:
  "geometries (xs @ ys) =
     (case geometries xs of
        Inl e \<Rightarrow> Inl e
      | Inr gs \<Rightarrow> (case geometries ys of Inl e \<Rightarrow> Inl e | Inr hs \<Rightarrow> Inr (gs @ hs)))"
  by (induction xs) (simp_all split: sum.splits)

lemma feature_loop_fst:
  "fst (for_acc chunk (\<lambda>feature_data layer.
            bnd (lift (getitem feature_data ''geometry'')) (\<lambda>geom.
            seq (gdal_reports ext (CreateGeometryFromJson_call geom))
                (ret (layer @ [geom])))) layer s) =
     (case geometries chunk of Inl e \<Rightarrow> Inl e | Inr gs \<Rightarrow> Inr (layer @ gs))"
proof -
  define body where "body = (\<lambda>feature_data layer.
            bnd (lift (getitem feature_data ''geometry'')) (\<lambda>geom.
            seq (gdal_reports ext (CreateGeometryFromJson_call geom))
                (ret (layer @ [geom]))))"
  have bad: "body x layer s = (Inl e, s)" if "getitem x ''geometry'' = Inl e"
    for x layer e and s :: "'a state"
    using that by (simp add: body_def bnd_def lift_def)
  have good: "body x layer s =
      (Inr (layer @ [g]), s\<lparr>stderr := stderr s @ cpl_stderr ext (CreateGeometryFromJson_call g) s\<rparr>)"
    if "getitem x ''geometry'' = Inr g" for x layer g and s :: "'a state"
    using that by (simp add: body_def bnd_def lift_def seq_gdal_reports ret_def)
  have "fst (for_acc chunk body layer s) =
     (case geometries chunk of Inl e \<Rightarrow> Inl e | Inr gs \<Rightarrow> Inr (layer @ gs))"
  proof (induction chunk arbitrary: layer s)
    case Nil
    then show ?case by (simp add: ret_def)
  next
    case (Cons x xs)
    show ?case
    proof (cases "getitem x ''geometry''")
      case (Inl e)
      then show ?thesis using bad [OF Inl] by (simp add: bnd_def)
    next
      case (Inr g)
      then show ?thesis using good [OF Inr] by (simp add: bnd_def Cons.IH split: sum.splits)
    qed
  qed
  then show ?thesis unfolding body_def .
qed

lemma rasterize_chunk_tabulate2:
  assumes "loaded s = Some d"
  shows "fst (rasterize_chunk ext chunk (tabulate2 (height d) (width d) f) s) =
     (case geometries chunk of
        Inl e \<Rightarrow> Inl e
      | Inr gs \<Rightarrow>
          Inr (tabulate2 (height d) (width d)
            (\<lambda>r c. if \<exists>g \<in> set gs. burns ext (geotransform d) (width d) (height d) g r c
                   then 1 else f r c)))"
proof -
  have m: "(\<lambda>r c. (if \<exists>g \<in> set gs. burns ext (geotransform d) (width d) (height d) g r c
                then 1 else (0::8 word)) = 1) =
        (\<lambda>r c. \<exists>g \<in> set gs. burns ext (geotransform d) (width d) (height d) g r c)" for gs
    by (intro ext) simp
  show ?thesis using assms
    by (simp add: rasterize_chunk_def bnd_attrs seq_gdal_reports fst_bnd feature_loop_fst Let_def
        np_zeros_tabulate2 RasterizeLayer_tabulate2 eq_scalar_tabulate2 setitem_mask_tabulate2
        lift_def m split: sum.splits)
qed

lemma slice_take_drop:
  assumes "0 \<le> i" and "i \<le> e" and "e \<le> int (length xs)"
  shows "slice xs i e = take (nat e - nat i) (drop (nat i) xs)"
proof -
  have "slice_index (length xs) i = nat i" and "slice_index (length xs) e = nat e"
    using assms by (auto simp: slice_index_def)
  then show ?thesis by (simp add: slice_def Let_def)
qed

lemma take_slice:
  assumes "0 \<le> i" and "i \<le> e" and "e \<le> int (length xs)"
  shows "take (nat e) xs = take (nat i) xs @ slice xs i e"
proof -
  have "nat e = nat i + (nat e - nat i)" using assms by simp
  then have "take (nat e) xs = take (nat i) xs @ take (nat e - nat i) (drop (nat i) xs)"
    using take_add [of "nat i" "nat e - nat i" xs] by simp
  then show ?thesis using assms by (simp add: slice_take_drop)
qed

lemma burn_mask_append:
  "tabulate2 (height d) (width d)
     (\<lambda>r c. if \<exists>g \<in> set hs. burns ext (geotransform d) (width d) (height d) g r c then 1
            else if \<exists>g \<in> set gs. burns ext (geotransform d) (width d) (height d) g r c then 1 else 0)
   = burn_mask ext d (gs @ hs)"
proof -
  have "(\<lambda>r c. if \<exists>g \<in> set hs. burns ext (geotransform d) (width d) (height d) g r c then (1::8 word)
            else if \<exists>g \<in> set gs. burns ext (geotransform d) (width d) (height d) g r c then 1 else 0)
      = (\<lambda>r c. if \<exists>g \<in> set (gs @ hs). burns ext (geotransform d) (width d) (height d) g r c
               then 1 else 0)"
    by (intro ext) auto
  then show ?thesis by (simp add: burn_mask_def)
qed

lemma rasterize_chunk_burn_mask:
  assumes "loaded s = Some d"
  shows "fst (rasterize_chunk ext chunk (burn_mask ext d gs) s) =
           (case geometries chunk of
              Inl e \<Rightarrow> Inl e
            | Inr hs \<Rightarrow> Inr (burn_mask ext d (gs @ hs)))"
proof -
  have bm: "burn_mask ext d gs = tabulate2 (height d) (width d)
      (\<lambda>r c. if \<exists>g \<in> set gs. burns ext (geotransform d) (width d) (height d) g r c then 1 else 0)"
    by (simp add: burn_mask_def)
  show ?thesis unfolding bm
    by (simp add: rasterize_chunk_tabulate2 [OF assms] burn_mask_append split: sum.splits)
qed

lemma chunk_step_fst:
  assumes "loaded s = Some d" and "0 < k" and "0 \<le> i" and "i < int (length fs)"
  shows "fst (chunk_step ext fs k i (burn_mask ext d gs, i) s) =
           (case geometries (slice fs i (min (i + k) (int (length fs)))) of
              Inl e \<Rightarrow> Inl e
            | Inr hs \<Rightarrow> Inr (burn_mask ext d (gs @ hs), min (i + k) (int (length fs))))"
proof -
  let ?e = "min (i + k) (int (length fs))"
  let ?s0 = "s\<lparr>stdout := stdout s @ [''Processing chunk '' @ str_int (i div k + 1) @ ''/''
                      @ str_int ((int (length fs) - 1) div k + 1) @ '' (''
                      @ str_int (?e - i) @ '' polygons)'']\<rparr>"
  let ?K = "\<lambda>buildings_raster.
         seq (if (i + (?e - i)) mod (k * 5) = 0
              then print (''Progress: '' @ str_int (i + (?e - i)) @ ''/''
                           @ str_int (int (length fs)) @ '' polygons processed'')
              else ret ())
             (ret (buildings_raster, i + (?e - i)))"
  have l: "loaded ?s0 = Some d" using assms(1) by simp
  have K: "fst (?K x t) = Inr (x, ?e)" for x and t :: "'a state"
    by (simp add: seq_def bnd_def print_def ret_def)
  have "chunk_step ext fs k i (burn_mask ext d gs, i) s =
      bnd (rasterize_chunk ext (slice fs i ?e) (burn_mask ext d gs)) ?K ?s0"
    by (simp only: chunk_step_def Let_def seq_print prod.case)
  then have "fst (chunk_step ext fs k i (burn_mask ext d gs, i) s) =
      (case fst (rasterize_chunk ext (slice fs i ?e) (burn_mask ext d gs) ?s0) of
         Inl e \<Rightarrow> Inl e | Inr x \<Rightarrow> Inr (x, ?e))"
    by (simp only: fst_bnd K)
  then show ?thesis
    by (simp only: rasterize_chunk_burn_mask [OF l]) (simp split: sum.splits)
qed

lemma chunk_loop_fst:
  "0 < k \<Longrightarrow> n = int (length fs) \<Longrightarrow> loaded s = Some d \<Longrightarrow> 0 \<le> i \<Longrightarrow>
   geometries (take (nat (min i n)) fs) = Inr gs \<Longrightarrow>
     fst (for_acc (range_up i n k) (chunk_step ext fs k) (burn_mask ext d gs, min i n) s) =
       (case geometries fs of Inl e \<Rightarrow> Inl e | Inr all \<Rightarrow> Inr (burn_mask ext d all, n))"
proof (induction i n k arbitrary: s gs rule: range_up.induct)
  case (1 i n k)
  show ?case
  proof (cases "i < n")
    case False
    then have "range_up i n k = []" by (simp add: range_up.simps)
    moreover have "geometries fs = Inr gs" using False "1.prems"(2,5) by simp
    ultimately show ?thesis using False by (simp add: ret_def)
  next
    case True
    let ?e = "min (i + k) n"
    let ?acc = "(burn_mask ext d gs, i)"
    have mi: "min i n = i" using True by simp
    from True "1.prems"(1) have ru: "range_up i n k = i # range_up (i + k) n k"
      by (subst range_up.simps) simp
    have e: "i \<le> ?e" "?e \<le> int (length fs)" using "1.prems" True by auto
    have tk: "take (nat ?e) fs = take (nat i) fs @ slice fs i ?e"
      using take_slice [OF "1.prems"(4) e] .
    have gi: "geometries (take (nat i) fs) = Inr gs" using "1.prems"(5) mi by simp
    have whole: "fs = take (nat ?e) fs @ drop (nat ?e) fs" by simp
    obtain r s1 where st: "chunk_step ext fs k i ?acc s = (r, s1)"
      by (cases "chunk_step ext fs k i ?acc s")
    have p1: "only_prints s s1"
      using prints_only_chunk_step [of ext fs k i ?acc] st
      by (auto simp: prints_only_def dest: spec [of _ s])
    have l1: "loaded s1 = Some d" using p1 "1.prems"(3) by (simp add: only_prints_fields)
    have r: "r = (case geometries (slice fs i ?e) of
              Inl e \<Rightarrow> Inl e | Inr hs \<Rightarrow> Inr (burn_mask ext d (gs @ hs), ?e))"
      using chunk_step_fst [OF "1.prems"(3) "1.prems"(1) "1.prems"(4), of fs ext gs] True "1.prems"(2) st
      by (simp cong: sum.case_cong)
    have loop: "for_acc (range_up i n k) (chunk_step ext fs k) (burn_mask ext d gs, min i n) s =
        bnd (chunk_step ext fs k i ?acc) (for_acc (range_up (i + k) n k) (chunk_step ext fs k)) s"
      using ru mi by (simp add: for_acc_Cons)
    show ?thesis
    proof (cases "geometries (slice fs i ?e)")
      case (Inl err)
      have "geometries (take (nat ?e) fs) = Inl err"
        unfolding tk by (simp add: geometries_append gi Inl)
      then have "geometries fs = Inl err"
        by (subst whole) (simp only: geometries_append sum.case)
      moreover have "r = Inl err" using r Inl by simp
      ultimately show ?thesis unfolding loop using st by (simp add: bnd_def)
    next
      case (Inr hs)
      have ge: "geometries (take (nat (min (i + k) n)) fs) = Inr (gs @ hs)"
        unfolding tk by (simp add: geometries_append gi Inr)
      have "0 \<le> i + k" using "1.prems" by simp
      from "1.IH" [OF _ "1.prems"(1) "1.prems"(2) l1 this ge] True "1.prems"(1)
      have "fst (for_acc (range_up (i + k) n k) (chunk_step ext fs k)
              (burn_mask ext d (gs @ hs), ?e) s1) =
            (case geometries fs of Inl e \<Rightarrow> Inl e | Inr all \<Rightarrow> Inr (burn_mask ext d all, n))"
        by simp
      moreover have "r = Inr (burn_mask ext d (gs @ hs), ?e)" using r Inr by simp
      ultimately show ?thesis unfolding loop using st by (simp add: bnd_def)
    qed
  qed
qed

text \<open>
  With the DEM loaded, a polygon file that is a feature collection and a positive chunk
  size, \<^verbatim>\<open>rasterize_buildings_chunked\<close> returns the mask of the geometries of all the
  features, or raises what the first feature without a geometry raises; its only effect
  is output.
\<close>

lemma rasterize_buildings_chunked_fst:
  assumes "loaded s = Some d"
    and "files s (buildings_geojson_path s) = Some (FeatureCollection fs)"
    and "0 < k"
  shows "fst (rasterize_buildings_chunked ext k s) =
     (case geometries fs of Inl e \<Rightarrow> Inl e | Inr gs \<Rightarrow> Inr (burn_mask ext d gs))"
proof -
  let ?s1 = "s\<lparr>stdout := stdout s @ [''Rasterizing '' @ buildings_geojson_path s @ '' in chunks of ''
                @ str_int k @ ''...'', ''Total building polygons: '' @ str_int (int (length fs))]\<rparr>"
  have z: "np_zeros (height d) (width d) = burn_mask ext d []"
    by (simp add: np_zeros_tabulate2 burn_mask_def)
  have l1: "loaded ?s1 = Some d" using assms(1) by simp
  have g0: "geometries (take (nat (min 0 (int (length fs)))) fs) = Inr []" by simp
  from chunk_loop_fst [OF assms(3) refl l1 _ g0, of ext]
  have lp: "fst (for_acc (range_up 0 (int (length fs)) k) (chunk_step ext fs k)
       (np_zeros (height d) (width d), 0) ?s1) =
       (case geometries fs of Inl e \<Rightarrow> Inl e | Inr all \<Rightarrow> Inr (burn_mask ext d all, int (length fs)))"
    using z by simp
  let ?K = "\<lambda>acc. case acc of (buildings_raster, processed) \<Rightarrow>
     seq (print (''Building rasterization complete. Buildings found in ''
                  @ str_int (np_sum buildings_raster) @ '' pixels''))
         (ret buildings_raster)"
  have K: "fst (?K acc t) = Inr (fst acc)" for acc :: "8 word list list \<times> int" and t :: "'a state"
    by (cases acc) (simp add: seq_print ret_def)
  have "rasterize_buildings_chunked ext k s =
      bnd (for_acc (range_up 0 (int (length fs)) k) (chunk_step ext fs k)
             (np_zeros (height d) (width d), 0)) ?K ?s1"
    using assms
    by (simp add: rasterize_buildings_chunked_def bnd_gets seq_print bnd_attrs Let_def
        bnd_json_load_features py_range_def bnd_lift)
  then have "fst (rasterize_buildings_chunked ext k s) =
      (case fst (for_acc (range_up 0 (int (length fs)) k) (chunk_step ext fs k)
             (np_zeros (height d) (width d), 0) ?s1) of
         Inl e \<Rightarrow> Inl e | Inr acc \<Rightarrow> Inr (fst acc))"
    by (simp only: fst_bnd K)
  then show ?thesis unfolding lp by (simp split: sum.splits)
qed

lemma rasterize_buildings_chunked_run:
  assumes "loaded s = Some d"
    and "files s (buildings_geojson_path s) = Some (FeatureCollection fs)"
    and "geometries fs = Inr gs"
    and "0 < k"
  shows "\<exists>s'. rasterize_buildings_chunked ext k s = (Inr (burn_mask ext d gs), s') \<and> only_prints s s'"
proof -
  have "fst (rasterize_buildings_chunked ext k s) = Inr (burn_mask ext d gs)"
    using rasterize_buildings_chunked_fst [OF assms(1,2,4), of ext] assms(3) by simp
  moreover have "only_prints s (snd (rasterize_buildings_chunked ext k s))"
    using prints_only_rasterize_buildings_chunked [of ext k] by (simp add: prints_only_def)
  ultimately show ?thesis by (metis prod.collapse)
qed

lemma rasterize_buildings_chunked_not_loaded:
  "loaded s = None \<Longrightarrow> fst (rasterize_buildings_chunked ext k s) = Inl AttributeError"
  by (simp add: rasterize_buildings_chunked_def bnd_def seq_def gets_def print_def attrs_def)

lemma rasterize_buildings_chunked_no_features:
  assumes "loaded s = Some d"
    and "\<nexists>fs. files s (buildings_geojson_path s) = Some (FeatureCollection fs)"
  shows "fst (rasterize_buildings_chunked ext k s) =
           (if files s (buildings_geojson_path s) = None then Inl IOError else Inl ValueError)"
  using assms
  by (cases "files s (buildings_geojson_path s)")
     (auto simp: rasterize_buildings_chunked_def bnd_def seq_def gets_def print_def attrs_def
        json_load_features_def Let_def split: file_content.splits)

text \<open>
  C1. For positive chunk sizes the mask \<^verbatim>\<open>rasterize_buildings_chunked\<close> returns does not
  depend on the chunk size: two sizes give the same result, cell for cell (and the same
  exception where the polygons cannot be read or a feature has no geometry).
\<close>

theorem chunk_size_invariance:
  assumes "0 < k1" and "0 < k2"
  shows "fst (rasterize_buildings_chunked ext k1 s) = fst (rasterize_buildings_chunked ext k2 s)"
proof (cases "loaded s")
  case None
  then show ?thesis by (simp add: rasterize_buildings_chunked_not_loaded)
next
  case (Some d)
  show ?thesis
  proof (cases "\<exists>fs. files s (buildings_geojson_path s) = Some (FeatureCollection fs)")
    case True
    then obtain fs where "files s (buildings_geojson_path s) = Some (FeatureCollection fs)" ..
    from rasterize_buildings_chunked_fst [OF Some this assms(1), of ext]
      rasterize_buildings_chunked_fst [OF Some this assms(2), of ext]
    show ?thesis by simp
  next
    case False
    then show ?thesis using rasterize_buildings_chunked_no_features [OF Some] by simp
  qed
qed


lemma str_int_small: "str_int 0 = ''0''" "str_int 1 = ''1''" "str_int 2 = ''2''" "str_int (- 9999) = ''-9999''"
  "str_int 10000 = ''10000''"
  by (simp_all add: str_int_def str_nat.simps digit_def)

lemma getitem_feature_of [simp]: "getitem (feature_of g) ''geometry'' = Inr g"
  by (simp add: getitem_def feature_of_def)

lemma geometries_feature_of [simp]: "geometries (map feature_of gs) = Inr gs"
  by (induction gs) simp_all

lemma demo_burn_mask: "burn_mask demo_ext demo_info [two_point_ring, square11] = [[0, 0], [0, 1]]"
  by (simp add: burn_mask_def tabulate2_def demo_ext_def demo_info_def demo_gt_def demo_burns_def
      two_point_ring_def square11_def upt_conv_Cons Let_def del: upt_Suc)

lemma demo_features:
  "loaded demo_loaded = Some demo_info"
  "files demo_loaded (buildings_geojson_path demo_loaded) =
     Some (FeatureCollection [feature_of two_point_ring, feature_of square11])"
  "geometries [feature_of two_point_ring, feature_of square11] = Inr [two_point_ring, square11]"
  by (simp_all add: demo_loaded_def demo_state_def)

theorem chunk_size_invariance_witness:
  "(0::int) < 1 \<and> (0::int) < 2 \<and>
   fst (rasterize_buildings_chunked demo_ext 1 demo_loaded) =
     fst (rasterize_buildings_chunked demo_ext 2 demo_loaded) \<and>
   fst (rasterize_buildings_chunked demo_ext 2 demo_loaded) = Inr [[0, 0], [0, 1]]"
proof -
  have "fst (rasterize_buildings_chunked demo_ext 2 demo_loaded) = Inr [[0, 0], [0, 1]]"
    using rasterize_buildings_chunked_run [OF demo_features, of 2 demo_ext]
    by (auto simp: demo_burn_mask)
  then show ?thesis
    using chunk_size_invariance [of 1 2 demo_ext demo_loaded] by simp
qed

text \<open>
  Outside the positive chunk sizes the loop is not a chunking of the collection: a chunk
  size of 0 makes \<^verbatim>\<open>range\<close> raise, and with a negative one the loop body never runs.
\<close>

lemma rasterize_buildings_chunked_zero:
  assumes "loaded s = Some d"
    and "files s (buildings_geojson_path s) = Some (FeatureCollection fs)"
  shows "fst (rasterize_buildings_chunked ext 0 s) = Inl ValueError"
  using assms
  by (simp add: rasterize_buildings_chunked_def bnd_def seq_def gets_def print_def attrs_def
      json_load_features_def Let_def lift_def py_range_def)

lemma rasterize_buildings_chunked_negative:
  assumes "loaded s = Some d"
    and "files s (buildings_geojson_path s) = Some (FeatureCollection fs)"
    and "k < 0"
  shows "fst (rasterize_buildings_chunked ext k s) = Inr (np_zeros (height d) (width d))"
proof -
  have "range_down 0 (int (length fs)) k = []"
    by (subst range_down.simps) simp
  then show ?thesis using assms
    by (simp add: rasterize_buildings_chunked_def bnd_def seq_def gets_def print_def attrs_def
        json_load_features_def Let_def lift_def py_range_def ret_def)
qed

lemma tabulate2_nth: "r < h \<Longrightarrow> c < w \<Longrightarrow> tabulate2 h w f ! r ! c = f r c"
  by (simp add: tabulate2_def)

lemma has_shape_tabulate2: "has_shape (tabulate2 h w f) h w"
  by (auto simp: has_shape_def tabulate2_def)

lemma has_shape_eq_tabulate2:
  assumes "has_shape a h w"
  shows "a = tabulate2 h w (\<lambda>r c. a ! r ! c)"
proof (rule nth_equalityI)
  show "length a = length (tabulate2 h w (\<lambda>r c. a ! r ! c))"
    using assms by (simp add: has_shape_def tabulate2_def)
next
  fix r assume "r < length a"
  then have r: "r < h" and "length (a ! r) = w" using assms by (auto simp: has_shape_def)
  then have "a ! r = map ((!) (a ! r)) [0..<w]" using map_nth [of "a ! r"] by simp
  then show "a ! r = tabulate2 h w (\<lambda>r c. a ! r ! c) ! r"
    using r by (simp add: tabulate2_def)
qed

text \<open>
  C7, as the code has it. \<^verbatim>\<open>_rasterize_chunk\<close> checks no geometry, skips none and records
  no warning: it subscripts every feature of the batch with \<^verbatim>\<open>'geometry'\<close> and hands the
  value to GDAL. With the DEM loaded and an output array of the grid's shape, a batch
  whose features all have a geometry does not make it raise; the state after the call is
  the state before it but for what GDAL itself has written to standard error, and a cell
  of the output array is 1 afterwards when a geometry of the batch burns it and is as
  before otherwise. Which cells a malformed geometry burns, and what is said about it on
  standard error, is GDAL's decision. A feature without a geometry makes the call raise
  \<open>KeyError\<close> (\<open>TypeError\<close> when the feature is no dict), and the batch is not rasterized.
\<close>

theorem rasterize_chunk_no_warning:
  assumes "loaded s = Some d"
    and "has_shape out (height d) (width d)"
    and "r < height d" and "c < width d"
  shows "(geometries chunk = Inr gs \<longrightarrow>
           (\<exists>out' err. rasterize_chunk ext chunk out s = (Inr out', s\<lparr>stderr := stderr s @ err\<rparr>) \<and>
              has_shape out' (height d) (width d) \<and>
              out' ! r ! c =
                (if \<exists>g \<in> set gs. burns ext (geotransform d) (width d) (height d) g r c
                 then 1 else out ! r ! c))) \<and>
         (geometries chunk = Inl e \<longrightarrow>
           (\<exists>err. rasterize_chunk ext chunk out s = (Inl e, s\<lparr>stderr := stderr s @ err\<rparr>)))"
proof -
  let ?f = "\<lambda>r c. if \<exists>g \<in> set gs. burns ext (geotransform d) (width d) (height d) g r c
                  then 1 else out ! r ! c"
  from reports_only_rasterize_chunk [of ext chunk out]
  obtain err where s': "snd (rasterize_chunk ext chunk out s) = s\<lparr>stderr := stderr s @ err\<rparr>"
    unfolding reports_only_def only_reports_def by blast
  have res: "fst (rasterize_chunk ext chunk out s) =
     (case geometries chunk of
        Inl e \<Rightarrow> Inl e
      | Inr gs \<Rightarrow>
          Inr (tabulate2 (height d) (width d)
            (\<lambda>r c. if \<exists>g \<in> set gs. burns ext (geotransform d) (width d) (height d) g r c
                   then 1 else out ! r ! c)))"
    using rasterize_chunk_tabulate2 [OF assms(1), of ext chunk "\<lambda>r c. out ! r ! c"]
      has_shape_eq_tabulate2 [OF assms(2)] by simp
  have cell: "tabulate2 (height d) (width d) ?f ! r ! c = ?f r c"
    using assms(3,4) by (rule tabulate2_nth)
  show ?thesis
  proof (intro conjI impI)
    assume "geometries chunk = Inr gs"
    with res s' have "rasterize_chunk ext chunk out s =
        (Inr (tabulate2 (height d) (width d) ?f), s\<lparr>stderr := stderr s @ err\<rparr>)"
      by (simp add: prod_eq_iff)
    with cell has_shape_tabulate2 [of "height d" "width d" ?f]
    show "\<exists>out' err. rasterize_chunk ext chunk out s = (Inr out', s\<lparr>stderr := stderr s @ err\<rparr>) \<and>
              has_shape out' (height d) (width d) \<and> out' ! r ! c = ?f r c"
      by blast
  next
    assume "geometries chunk = Inl e"
    with res s' have "rasterize_chunk ext chunk out s = (Inl e, s\<lparr>stderr := stderr s @ err\<rparr>)"
      by (simp add: prod_eq_iff)
    then show "\<exists>err. rasterize_chunk ext chunk out s = (Inl e, s\<lparr>stderr := stderr s @ err\<rparr>)"
      by blast
  qed
qed

lemma demo_zeros_shape: "has_shape (np_zeros 2 2) (height demo_info) (width demo_info)"
  by (simp add: np_zeros_tabulate2 has_shape_tabulate2 demo_info_def)

lemma getitem_no_geometry [simp]: "getitem no_geometry ''geometry'' = Inl KeyError"
  by (simp add: no_geometry_def getitem_def)

lemma demo_no_geometry:
  "geometries [feature_of square11, no_geometry, feature_of square11] = Inl KeyError"
  by simp

theorem rasterize_chunk_no_warning_witness:
  "loaded demo_loaded = Some demo_info \<and>
   has_shape (np_zeros 2 2) (height demo_info) (width demo_info) \<and>
   (1::nat) < height demo_info \<and> (1::nat) < width demo_info \<and>
   geometries [feature_of two_point_ring, feature_of square11] = Inr [two_point_ring, square11] \<and>
   (\<exists>out' err. rasterize_chunk demo_ext [feature_of two_point_ring, feature_of square11]
                  (np_zeros 2 2) demo_loaded
              = (Inr out', demo_loaded\<lparr>stderr := stderr demo_loaded @ err\<rparr>) \<and>
      has_shape out' (height demo_info) (width demo_info) \<and> out' ! 1 ! 1 = 1) \<and>
   geometries [feature_of square11, no_geometry, feature_of square11] = Inl KeyError \<and>
   (\<exists>err. rasterize_chunk demo_ext [feature_of square11, no_geometry, feature_of square11]
             (np_zeros 2 2) demo_loaded
           = (Inl KeyError, demo_loaded\<lparr>stderr := stderr demo_loaded @ err\<rparr>))"
proof -
  have h: "(1::nat) < height demo_info" "(1::nat) < width demo_info"
    by (simp_all add: demo_info_def)
  have b: "\<exists>g \<in> set [two_point_ring, square11].
      burns demo_ext (geotransform demo_info) (width demo_info) (height demo_info) g 1 1"
    by (simp add: demo_ext_def demo_info_def demo_gt_def demo_burns_def two_point_ring_def square11_def)
  from rasterize_chunk_no_warning [OF demo_features(1) demo_zeros_shape h,
      where chunk = "[feature_of two_point_ring, feature_of square11]"
        and gs = "[two_point_ring, square11]" and ext = demo_ext]
    rasterize_chunk_no_warning [OF demo_features(1) demo_zeros_shape h,
      where chunk = "[feature_of square11, no_geometry, feature_of square11]"
        and e = KeyError and ext = demo_ext]
  show ?thesis using h b demo_features(1,3) demo_zeros_shape demo_no_geometry by auto
qed

text \<open>
  C7 as stated fails: a batch with a ring of two points and a valid square is rasterized
  (the square's cell is set); the ring is not skipped but handed to GDAL like the square,
  and the code records nothing for it: nothing is printed, and all there is on standard
  error is the message of the example's GDAL, which names no index.
\<close>

theorem rasterize_chunk_warning_counterexample:
  "rasterize_chunk demo_ext [feature_of two_point_ring, feature_of square11] (np_zeros 2 2) demo_loaded =
     (Inr [[0, 0], [0, 1]], demo_loaded\<lparr>stderr := [demo_warning]\<rparr>) \<and>
   stdout demo_loaded = [] \<and> stderr demo_loaded = []"
proof -
  let ?run = "rasterize_chunk demo_ext [feature_of two_point_ring, feature_of square11]
      (np_zeros 2 2) demo_loaded"
  have l: "loaded demo_loaded = Some demo_info" "stdout demo_loaded = []" "stderr demo_loaded = []"
    by (simp_all add: demo_loaded_def demo_state_def)
  have "np_zeros 2 2 = tabulate2 (height demo_info) (width demo_info) (\<lambda>r c. 0)"
    by (simp add: np_zeros_tabulate2 demo_info_def)
  then have "fst ?run = Inr (burn_mask demo_ext demo_info [two_point_ring, square11])"
    using rasterize_chunk_tabulate2 [OF l(1), of demo_ext
        "[feature_of two_point_ring, feature_of square11]" "\<lambda>r c. 0"]
    by (simp add: burn_mask_def)
  then have 1: "fst ?run = Inr [[0, 0], [0, 1]]" by (simp add: demo_burn_mask)
  have c: "cpl_stderr demo_ext = demo_stderr" by (simp add: demo_ext_def)
  have 2: "snd ?run = demo_loaded\<lparr>stderr := [demo_warning]\<rparr>"
    unfolding rasterize_chunk_def
    by (simp add: bnd_attrs [OF l(1)] seq_def bnd_assoc bnd_gdal_reports for_acc_Cons for_acc_Nil
        bnd_lift bnd_ret Let_def lift_def c demo_stderr_def two_point_ring_def square11_def l(3))
  from 1 2 show ?thesis using l by (simp add: prod_eq_iff)
qed

subsection \<open>Compositing\<close>

lemma setitem_mask_masked_dem:
  "setitem_mask (map (map (f32 ext)) dem) (eq_scalar m 1) (- 9999) =
     (if shape m = shape dem then Inr (masked_dem ext dem m) else Inl IndexError)"
proof -
  have s: "shape (eq_scalar m (1::8 word)) = shape m" "shape (map (map (f32 ext)) dem) = shape dem"
    by (simp_all add: shape_def eq_scalar_def split: list.splits)
  have "map2 (\<lambda>row mrow. map2 (\<lambda>x b. if b then - 9999 else x) row mrow)
          (map (map (f32 ext)) dem) (map (map (\<lambda>x. x = 1)) m) = masked_dem ext dem m"
    by (simp add: masked_dem_def zip_map_map split_def)
  then show ?thesis unfolding setitem_mask_def s by (simp add: eq_scalar_def)
qed

lemma bnd_alloc:
  "bnd (alloc a) k s =
     k (next_addr s) (s\<lparr>heap := (heap s)(next_addr s := a), next_addr := Suc (next_addr s)\<rparr>)"
  by (simp add: bnd_def alloc_def)

lemma seq_setitem_mask_at:
  "seq (setitem_mask_at a m v) k s =
     (case setitem_mask (heap s a) m v of
        Inl e \<Rightarrow> (Inl e, s)
      | Inr arr \<Rightarrow> k (s\<lparr>heap := (heap s)(a := arr)\<rparr>))"
  by (simp add: seq_def bnd_def setitem_mask_at_def split: sum.splits)

lemma create_dem_run:
  assumes "loaded s = Some d"
    and "files s (buildings_geojson_path s) = Some (FeatureCollection fs)"
    and "geometries fs = Inr gs"
  shows "\<exists>s1. composited s (heap s (dem_array d)) (map (map (f32 ext)) (heap s (dem_array d))) s1 \<and>
     create_dem_with_buildings_nodata ext fn s =
       (if shape (burn_mask ext d gs) = shape (heap s (dem_array d))
        then seq (write_asc_file ext (Suc (next_addr s)) (path_join (output_dir s) fn) (- 9999))
               (seq (print (''DEM with buildings as NoData created: '' @ path_join (output_dir s) fn))
                    (ret (path_join (output_dir s) fn)))
               (s1\<lparr>heap := (heap s1)(Suc (next_addr s) :=
                         masked_dem ext (heap s (dem_array d)) (burn_mask ext d gs)),
                    stdout := stdout s1 @ [''Set '' @ str_int (np_sum_bool (eq_scalar (burn_mask ext d gs) 1))
                         @ '' pixels to NoData (buildings)'']\<rparr>)
        else (Inl IndexError, s1))"
proof -
  let ?s0 = "s\<lparr>stdout := stdout s @ [''Creating DEM with buildings as NoData: '' @ fn]\<rparr>"
  let ?m = "burn_mask ext d gs"
  let ?dem = "heap s (dem_array d)"
  have "loaded ?s0 = Some d" "files ?s0 (buildings_geojson_path ?s0) = Some (FeatureCollection fs)"
    using assms by simp_all
  from rasterize_buildings_chunked_run [OF this assms(3), of 10000 ext]
  obtain s' where r: "rasterize_buildings_chunked ext 10000 ?s0 = (Inr ?m, s')"
    and "only_prints ?s0 s'" by auto
  then obtain printed err where
    s': "s' = ?s0\<lparr>stdout := stdout ?s0 @ printed, stderr := stderr ?s0 @ err\<rparr>"
    unfolding only_prints_def by blast
  let ?s1 = "s\<lparr>stdout := stdout s @ ([''Creating DEM with buildings as NoData: '' @ fn] @ printed),
                stderr := stderr s @ err,
                heap := (heap s)(next_addr s := ?dem, Suc (next_addr s) := map (map (f32 ext)) ?dem),
                next_addr := Suc (Suc (next_addr s))\<rparr>"
  have c: "composited s ?dem (map (map (f32 ext)) ?dem) ?s1"
    unfolding composited_def by blast
  have "create_dem_with_buildings_nodata ext fn s =
       (if shape ?m = shape ?dem
        then seq (write_asc_file ext (Suc (next_addr s)) (path_join (output_dir s) fn) (- 9999))
               (seq (print (''DEM with buildings as NoData created: '' @ path_join (output_dir s) fn))
                    (ret (path_join (output_dir s) fn)))
               (?s1\<lparr>heap := (heap ?s1)(Suc (next_addr s) := masked_dem ext ?dem ?m),
                    stdout := stdout ?s1 @ [''Set '' @ str_int (np_sum_bool (eq_scalar ?m 1))
                         @ '' pixels to NoData (buildings)'']\<rparr>)
        else (Inl IndexError, ?s1))"
    apply (simp only: create_dem_with_buildings_nodata_def seq_print)
    apply (subst bnd_Inr [where m = "rasterize_buildings_chunked ext 10000" and s = ?s0, OF r])
    unfolding s' using assms(1)
    apply (simp add: bnd_attrs ndarray_copy_def astype_float32_def bnd_assoc bnd_gets bnd_alloc
        seq_setitem_mask_at setitem_mask_masked_dem Let_def seq_print)
    done
  with c show ?thesis by blast
qed


lemma bnd_eq_Inr:
  "bnd m f s = (Inr y, s') \<longleftrightarrow> (\<exists>x s1. m s = (Inr x, s1) \<and> f x s1 = (Inr y, s'))"
  by (cases "m s") (auto simp: bnd_def split: sum.splits)

lemma seq_eq_Inr:
  "seq m n s = (Inr y, s') \<longleftrightarrow> (\<exists>s1. m s = (Inr (), s1) \<and> n s1 = (Inr y, s'))"
  by (simp add: seq_def bnd_eq_Inr)

lemma write_asc_file_fields:
  "heap (snd (write_asc_file ext a p nd s)) = heap s"
  "loaded (snd (write_asc_file ext a p nd s)) = loaded s"
  "next_addr (snd (write_asc_file ext a p nd s)) = next_addr s"
  "stdout (snd (write_asc_file ext a p nd s)) = stdout s"
  "output_dir (snd (write_asc_file ext a p nd s)) = output_dir s"
  "buildings_geojson_path (snd (write_asc_file ext a p nd s)) = buildings_geojson_path s"
  "dem_tile_path (snd (write_asc_file ext a p nd s)) = dem_tile_path s"
  "writable (snd (write_asc_file ext a p nd s)) = writable s"
  "ticks (snd (write_asc_file ext a p nd s)) = ticks s"
  "q \<noteq> p \<Longrightarrow> files (snd (write_asc_file ext a p nd s)) q = files s q"
  "stderr (snd (write_asc_file ext a p nd s)) = stderr s"
proof -
  have "\<exists>t n. snd (write_asc_file ext a p nd s) = s \<or> snd (write_asc_file ext a p nd s) = put_file p t n s"
  proof (cases "loaded s")
    case None
    then show ?thesis by (simp add: write_asc_file_eq)
  next
    case (Some d)
    show ?thesis
    proof (cases "writable s p")
      case True
      from write_asc_file_run [OF Some True, of ext a nd] show ?thesis
        by (metis snd_conv)
    next
      case False
      then show ?thesis using write_asc_file_unwritable [OF Some False] by simp
    qed
  qed
  then obtain t n where *: "snd (write_asc_file ext a p nd s) = s \<or>
      snd (write_asc_file ext a p nd s) = put_file p t n s" by blast
  from * show "heap (snd (write_asc_file ext a p nd s)) = heap s" by (auto simp: put_file_def)
  from * show "loaded (snd (write_asc_file ext a p nd s)) = loaded s" by (auto simp: put_file_def)
  from * show "next_addr (snd (write_asc_file ext a p nd s)) = next_addr s" by (auto simp: put_file_def)
  from * show "stdout (snd (write_asc_file ext a p nd s)) = stdout s" by (auto simp: put_file_def)
  from * show "output_dir (snd (write_asc_file ext a p nd s)) = output_dir s" by (auto simp: put_file_def)
  from * show "buildings_geojson_path (snd (write_asc_file ext a p nd s)) = buildings_geojson_path s"
    by (auto simp: put_file_def)
  from * show "dem_tile_path (snd (write_asc_file ext a p nd s)) = dem_tile_path s" by (auto simp: put_file_def)
  from * show "writable (snd (write_asc_file ext a p nd s)) = writable s" by (auto simp: put_file_def)
  from * show "ticks (snd (write_asc_file ext a p nd s)) = ticks s" by (auto simp: put_file_def)
  from * show "q \<noteq> p \<Longrightarrow> files (snd (write_asc_file ext a p nd s)) q = files s q"
    by (auto simp: put_file_def)
  from * show "stderr (snd (write_asc_file ext a p nd s)) = stderr s" by (auto simp: put_file_def)
qed

lemma create_dem_rasterize_fails:
  assumes "fst (rasterize_buildings_chunked ext 10000
      (s\<lparr>stdout := stdout s @ [''Creating DEM with buildings as NoData: '' @ fn]\<rparr>)) = Inl e"
  shows "fst (create_dem_with_buildings_nodata ext fn s) = Inl e"
    and "only_prints s (snd (create_dem_with_buildings_nodata ext fn s))"
proof -
  let ?s0 = "s\<lparr>stdout := stdout s @ [''Creating DEM with buildings as NoData: '' @ fn]\<rparr>"
  have p: "only_prints ?s0 (snd (rasterize_buildings_chunked ext 10000 ?s0))"
    using prints_only_rasterize_buildings_chunked [of ext 10000] by (simp add: prints_only_def)
  have p0: "only_prints s ?s0" by (rule only_prints_print)
  have "create_dem_with_buildings_nodata ext fn s =
      (Inl e, snd (rasterize_buildings_chunked ext 10000 ?s0))"
    by (simp only: create_dem_with_buildings_nodata_def seq_print
        bnd_fst_Inl [where m = "rasterize_buildings_chunked ext 10000" and s = ?s0, OF assms])
  then show "fst (create_dem_with_buildings_nodata ext fn s) = Inl e"
    and "only_prints s (snd (create_dem_with_buildings_nodata ext fn s))"
    using only_prints_trans [OF p0 p] by simp_all
qed

lemma create_dem_not_loaded:
  assumes "loaded s = None"
  shows "fst (create_dem_with_buildings_nodata ext fn s) = Inl AttributeError"
    and "only_prints s (snd (create_dem_with_buildings_nodata ext fn s))"
proof -
  let ?s0 = "s\<lparr>stdout := stdout s @ [''Creating DEM with buildings as NoData: '' @ fn]\<rparr>"
  have f: "fst (rasterize_buildings_chunked ext 10000 ?s0) = Inl AttributeError"
    using assms by (simp add: rasterize_buildings_chunked_not_loaded)
  from create_dem_rasterize_fails [OF f]
  show "fst (create_dem_with_buildings_nodata ext fn s) = Inl AttributeError"
    and "only_prints s (snd (create_dem_with_buildings_nodata ext fn s))" .
qed

lemma create_dem_no_features:
  assumes "loaded s = Some d"
    and "\<nexists>fs. files s (buildings_geojson_path s) = Some (FeatureCollection fs)"
  shows "fst (create_dem_with_buildings_nodata ext fn s) =
           (if files s (buildings_geojson_path s) = None then Inl IOError else Inl ValueError)"
    and "only_prints s (snd (create_dem_with_buildings_nodata ext fn s))"
proof -
  let ?s0 = "s\<lparr>stdout := stdout s @ [''Creating DEM with buildings as NoData: '' @ fn]\<rparr>"
  let ?e = "if files s (buildings_geojson_path s) = None then IOError else ValueError"
  have f: "fst (rasterize_buildings_chunked ext 10000 ?s0) = Inl ?e"
    using rasterize_buildings_chunked_no_features [of ?s0 d ext 10000] assms by simp
  from create_dem_rasterize_fails [OF f]
  show "fst (create_dem_with_buildings_nodata ext fn s) =
           (if files s (buildings_geojson_path s) = None then Inl IOError else Inl ValueError)"
    and "only_prints s (snd (create_dem_with_buildings_nodata ext fn s))"
    by simp_all
qed

lemma create_dem_bad_feature:
  assumes "loaded s = Some d"
    and "files s (buildings_geojson_path s) = Some (FeatureCollection fs)"
    and "geometries fs = Inl e"
  shows "fst (create_dem_with_buildings_nodata ext fn s) = Inl e"
    and "only_prints s (snd (create_dem_with_buildings_nodata ext fn s))"
proof -
  let ?s0 = "s\<lparr>stdout := stdout s @ [''Creating DEM with buildings as NoData: '' @ fn]\<rparr>"
  have f: "fst (rasterize_buildings_chunked ext 10000 ?s0) = Inl e"
    using rasterize_buildings_chunked_fst [of ?s0 d fs 10000 ext] assms by simp
  from create_dem_rasterize_fails [OF f]
  show "fst (create_dem_with_buildings_nodata ext fn s) = Inl e"
    and "only_prints s (snd (create_dem_with_buildings_nodata ext fn s))" .
qed

lemma composited_fields:
  assumes "composited s dem out s1"
  shows "loaded s1 = loaded s" and "files s1 = files s" and "space s1 = space s"
    and "writable s1 = writable s" and "output_dir s1 = output_dir s"
    and "buildings_geojson_path s1 = buildings_geojson_path s"
    and "dem_tile_path s1 = dem_tile_path s" and "ticks s1 = ticks s"
    and "next_addr s1 = Suc (Suc (next_addr s))"
    and "heap s1 = (heap s)(next_addr s := dem, Suc (next_addr s) := out)"
  using assms by (auto simp: composited_def)

text \<open>
  What a call of \<^verbatim>\<open>create_dem_with_buildings_nodata\<close> that returns has found and done.
\<close>

lemma create_dem_Inr:
  assumes run: "create_dem_with_buildings_nodata ext fn s = (Inr p, s')"
  obtains d fs gs where "loaded s = Some d"
    and "files s (buildings_geojson_path s) = Some (FeatureCollection fs)"
    and "geometries fs = Inr gs"
    and "shape (burn_mask ext d gs) = shape (heap s (dem_array d))"
    and "p = path_join (output_dir s) fn"
    and "heap s' = (heap s)(next_addr s := heap s (dem_array d),
            Suc (next_addr s) := masked_dem ext (heap s (dem_array d)) (burn_mask ext d gs))"
    and "files s' p = Some (Text (unlines (asc_lines ext d
            (masked_dem ext (heap s (dem_array d)) (burn_mask ext d gs)) (- 9999))))"
    and "\<And>q. q \<noteq> p \<Longrightarrow> files s' q = files s q"
    and "loaded s' = loaded s" and "next_addr s' = Suc (Suc (next_addr s))"
    and "output_dir s' = output_dir s" and "buildings_geojson_path s' = buildings_geojson_path s"
    and "dem_tile_path s' = dem_tile_path s" and "writable s' = writable s" and "ticks s' = ticks s"
proof -
  obtain d where d: "loaded s = Some d"
    using run create_dem_not_loaded(1) [of s ext fn] by (cases "loaded s") auto
  have "\<exists>fs. files s (buildings_geojson_path s) = Some (FeatureCollection fs)"
  proof (rule ccontr)
    assume "\<nexists>fs. files s (buildings_geojson_path s) = Some (FeatureCollection fs)"
    from create_dem_no_features(1) [OF d this, of ext fn] run show False
      by (simp split: if_splits)
  qed
  then obtain fs where fs: "files s (buildings_geojson_path s) = Some (FeatureCollection fs)" ..
  obtain gs where gs: "geometries fs = Inr gs"
    using run create_dem_bad_feature(1) [OF d fs, of _ ext fn] by (cases "geometries fs") auto
  let ?n = "next_addr s"
  let ?dem = "heap s (dem_array d)"
  let ?m = "burn_mask ext d gs"
  let ?p = "path_join (output_dir s) fn"
  let ?out = "masked_dem ext ?dem ?m"
  from create_dem_run [OF d fs gs, of ext fn] obtain s1 where
    c: "composited s ?dem (map (map (f32 ext)) ?dem) s1" and
    e: "create_dem_with_buildings_nodata ext fn s =
       (if shape ?m = shape ?dem
        then seq (write_asc_file ext (Suc ?n) ?p (- 9999))
               (seq (print (''DEM with buildings as NoData created: '' @ ?p)) (ret ?p))
               (s1\<lparr>heap := (heap s1)(Suc ?n := ?out),
                    stdout := stdout s1 @ [''Set '' @ str_int (np_sum_bool (eq_scalar ?m 1))
                         @ '' pixels to NoData (buildings)'']\<rparr>)
        else (Inl IndexError, s1))"
    by blast
  let ?s2 = "s1\<lparr>heap := (heap s1)(Suc ?n := ?out),
                    stdout := stdout s1 @ [''Set '' @ str_int (np_sum_bool (eq_scalar ?m 1))
                         @ '' pixels to NoData (buildings)'']\<rparr>"
  note cf = composited_fields [OF c]
  from run e have sh: "shape ?m = shape ?dem" by (auto split: if_splits)
  with run e obtain s3 where
    w: "write_asc_file ext (Suc ?n) ?p (- 9999) ?s2 = (Inr (), s3)" and
    k: "seq (print (''DEM with buildings as NoData created: '' @ ?p)) (ret ?p) s3 = (Inr p, s')"
    by (auto simp: seq_eq_Inr)
  from k have p: "p = ?p" and s': "s' = s3\<lparr>stdout := stdout s3 @ [''DEM with buildings as NoData created: '' @ ?p]\<rparr>"
    by (auto simp: seq_print ret_def)
  have s3: "s3 = snd (write_asc_file ext (Suc ?n) ?p (- 9999) ?s2)" using w by simp
  note wf = write_asc_file_fields [where ext = ext and a = "Suc ?n" and p = ?p and nd = "- 9999"
      and s = ?s2, folded s3]
  from w obtain d' where "loaded ?s2 = Some d'"
    and "files s3 ?p = Some (Text (unlines (asc_lines ext d' (heap ?s2 (Suc ?n)) (- 9999))))"
    by (rule write_asc_file_Inr)
  then have f: "files s3 ?p = Some (Text (unlines (asc_lines ext d ?out (- 9999))))"
    using d cf(1) by simp
  have h: "heap s' = (heap s)(?n := ?dem, Suc ?n := ?out)"
    unfolding s' using wf(1) cf(10) by simp
  show ?thesis
  proof (rule that [OF d fs gs sh p h])
    show "files s' p = Some (Text (unlines (asc_lines ext d ?out (- 9999))))"
      using f p s' by simp
    show "files s' q = files s q" if "q \<noteq> p" for q
      using wf(10) [where q = q] that p s' cf(2) by simp
    show "loaded s' = loaded s" using s' wf(2) cf(1) by simp
    show "next_addr s' = Suc (Suc (next_addr s))" using s' wf(3) cf(9) by simp
    show "output_dir s' = output_dir s" using s' wf(5) cf(5) by simp
    show "buildings_geojson_path s' = buildings_geojson_path s" using s' wf(6) cf(6) by simp
    show "dem_tile_path s' = dem_tile_path s" using s' wf(7) cf(7) by simp
    show "writable s' = writable s" using s' wf(8) cf(4) by simp
    show "ticks s' = ticks s" using s' wf(9) cf(8) by simp
  qed
qed

lemma has_shape_shape: "has_shape a h w \<Longrightarrow> shape a = (h, if h = 0 then 0 else w)"
  by (cases a) (auto simp: has_shape_def shape_def)

lemma masked_dem_nth:
  assumes "has_shape dem h w" and "has_shape m h w" and "r < h" and "c < w"
  shows "masked_dem ext dem m ! r ! c = (if m ! r ! c = 1 then - 9999 else f32 ext (dem ! r ! c))"
  using assms by (simp add: masked_dem_def has_shape_def)

lemma has_shape_masked_dem:
  assumes "has_shape dem h w" and "has_shape m h w"
  shows "has_shape (masked_dem ext dem m) h w"
  using assms by (auto simp: masked_dem_def has_shape_def set_zip)

lemma has_shape_burn_mask: "has_shape (burn_mask ext d gs) (height d) (width d)"
  by (simp add: burn_mask_def has_shape_tabulate2)

lemma create_dem_succeeds:
  assumes "loaded s = Some d"
    and "files s (buildings_geojson_path s) = Some (FeatureCollection fs)"
    and "geometries fs = Inr gs"
    and "shape (burn_mask ext d gs) = shape (heap s (dem_array d))"
    and "writable s (path_join (output_dir s) fn)"
    and "length (unlines (asc_lines ext d
           (masked_dem ext (heap s (dem_array d)) (burn_mask ext d gs)) (- 9999))) \<le> space s"
  shows "fst (create_dem_with_buildings_nodata ext fn s) = Inr (path_join (output_dir s) fn)"
proof -
  let ?n = "next_addr s"
  let ?dem = "heap s (dem_array d)"
  let ?m = "burn_mask ext d gs"
  let ?p = "path_join (output_dir s) fn"
  let ?out = "masked_dem ext ?dem ?m"
  from create_dem_run [OF assms(1,2,3), of ext fn] assms(4) obtain s1 where
    c: "composited s ?dem (map (map (f32 ext)) ?dem) s1" and
    e: "create_dem_with_buildings_nodata ext fn s =
        seq (write_asc_file ext (Suc ?n) ?p (- 9999))
               (seq (print (''DEM with buildings as NoData created: '' @ ?p)) (ret ?p))
               (s1\<lparr>heap := (heap s1)(Suc ?n := ?out),
                    stdout := stdout s1 @ [''Set '' @ str_int (np_sum_bool (eq_scalar ?m 1))
                         @ '' pixels to NoData (buildings)'']\<rparr>)"
    by auto
  let ?s2 = "s1\<lparr>heap := (heap s1)(Suc ?n := ?out),
                    stdout := stdout s1 @ [''Set '' @ str_int (np_sum_bool (eq_scalar ?m 1))
                         @ '' pixels to NoData (buildings)'']\<rparr>"
  note cf = composited_fields [OF c]
  have l: "loaded ?s2 = Some d" and w: "writable ?s2 ?p" and sp: "space ?s2 = space s"
    and h: "heap ?s2 (Suc ?n) = ?out"
    using cf assms(1,5) by simp_all
  have "fst (write_asc_file ext (Suc ?n) ?p (- 9999) ?s2) = Inr ()"
    using write_asc_file_run [OF l w, of ext "Suc ?n" "- 9999"] h assms(6) sp by simp
  then obtain s3 where "write_asc_file ext (Suc ?n) ?p (- 9999) ?s2 = (Inr (), s3)"
    by (metis prod.collapse)
  then show ?thesis unfolding e by (simp add: seq_eq_Inr seq_Inr seq_print ret_def)
qed

lemma demo_masked:
  "masked_dem demo_ext (heap demo_loaded 0) [[0, 0], [0, 1]] = [[100, - 32768], [100, - 9999]]"
  by (simp add: masked_dem_def demo_loaded_def demo_ext_def)

lemma demo_create_dem:
  "fst (create_dem_with_buildings_nodata demo_ext ''x.asc'' demo_loaded) = Inr ''input/x.asc''"
proof -
  have d: "dem_array demo_info = 0" "output_dir demo_loaded = ''input''" "space demo_loaded = 1000"
    by (simp_all add: demo_info_def demo_loaded_def demo_state_def)
  have 1: "shape (burn_mask demo_ext demo_info [two_point_ring, square11]) =
        shape (heap demo_loaded (dem_array demo_info))"
    by (simp add: demo_burn_mask d) (simp add: shape_def demo_loaded_def)
  have 2: "writable demo_loaded (path_join (output_dir demo_loaded) ''x.asc'')"
    by (simp add: demo_loaded_def demo_state_def)
  have 3: "length (unlines (asc_lines demo_ext demo_info
           (masked_dem demo_ext (heap demo_loaded (dem_array demo_info))
             (burn_mask demo_ext demo_info [two_point_ring, square11])) (- 9999))) \<le> space demo_loaded"
    unfolding demo_burn_mask d demo_masked
    by (simp add: asc_lines_def asc_header_def row_line_def demo_info_def demo_ext_def demo_gt_def
        str_integral_def str_int_def str_nat.simps digit_def)
  from create_dem_succeeds [OF demo_features 1 2 3]
  show ?thesis by (simp add: d path_join_def)
qed

lemma demo_mask:
  "fst (rasterize_buildings_chunked demo_ext 10000 demo_loaded) = Inr [[0, 0], [0, 1]]"
  using rasterize_buildings_chunked_run [OF demo_features, of 10000 demo_ext]
  by (auto simp: demo_burn_mask)

lemma mask_of_run:
  assumes "loaded s = Some d"
    and "files s (buildings_geojson_path s) = Some (FeatureCollection fs)"
    and "geometries fs = Inr gs"
    and "fst (rasterize_buildings_chunked ext 10000 s) = Inr m"
  shows "m = burn_mask ext d gs"
  using rasterize_buildings_chunked_run [OF assms(1,2,3), of 10000 ext] assms(4) by auto

text \<open>
  C2, as the code has it. In the array the compositing step builds, every cell set in the
  mask is the literal -9999, the value the written header declares as \<open>NODATA_value\<close>,
  whatever the nodata value of the DEM; every other cell is the cell of the (float32) DEM,
  the DEM's own nodata cells among them. The array is the one written to the file.
\<close>

theorem composite_cells:
  assumes "create_dem_with_buildings_nodata ext fn s = (Inr p, s')"
    and "loaded s = Some d"
    and "fst (rasterize_buildings_chunked ext 10000 s) = Inr m"
    and "has_shape (heap s (dem_array d)) (height d) (width d)"
    and "is_float32 ext (heap s (dem_array d))"
    and "r < height d" and "c < width d"
  shows "heap s' (Suc (next_addr s)) ! r ! c =
           (if m ! r ! c = 1 then - 9999 else heap s (dem_array d) ! r ! c) \<and>
         files s' p = Some (Text (unlines (asc_lines ext d (heap s' (Suc (next_addr s))) (- 9999))))"
proof -
  from assms(1) obtain d' fs gs where "loaded s = Some d'"
    and fs: "files s (buildings_geojson_path s) = Some (FeatureCollection fs)"
    and gs: "geometries fs = Inr gs"
    and h: "heap s' = (heap s)(next_addr s := heap s (dem_array d'),
            Suc (next_addr s) := masked_dem ext (heap s (dem_array d')) (burn_mask ext d' gs))"
    and f: "files s' p = Some (Text (unlines (asc_lines ext d'
            (masked_dem ext (heap s (dem_array d')) (burn_mask ext d' gs)) (- 9999))))"
    by (rule create_dem_Inr)
  with assms(2) have d': "d' = d" by simp
  have m: "m = burn_mask ext d gs" using mask_of_run [OF assms(2) fs gs assms(3)] .
  have out: "heap s' (Suc (next_addr s)) = masked_dem ext (heap s (dem_array d)) m"
    using h d' m by simp
  have "heap s (dem_array d) ! r \<in> set (heap s (dem_array d))"
    and "length (heap s (dem_array d) ! r) = width d"
    using assms(4,6) by (auto simp: has_shape_def)
  then have "f32 ext (heap s (dem_array d) ! r ! c) = heap s (dem_array d) ! r ! c"
    using assms(5,7) by (auto simp: is_float32_def)
  then have "masked_dem ext (heap s (dem_array d)) m ! r ! c =
      (if m ! r ! c = 1 then - 9999 else heap s (dem_array d) ! r ! c)"
    using masked_dem_nth [OF assms(4) _ assms(6,7), of m ext] has_shape_burn_mask [of ext d gs] m
    by simp
  then show ?thesis using out f d' m by simp
qed

lemma demo_shape: "has_shape (heap demo_loaded (dem_array demo_info)) (height demo_info) (width demo_info)"
  by (simp add: has_shape_def demo_loaded_def demo_info_def)

lemma demo_float32: "is_float32 demo_ext (heap demo_loaded (dem_array demo_info))"
  by (simp add: is_float32_def demo_ext_def)

theorem composite_cells_witness:
  "create_dem_with_buildings_nodata demo_ext ''x.asc'' demo_loaded =
     (Inr ''input/x.asc'', snd (create_dem_with_buildings_nodata demo_ext ''x.asc'' demo_loaded)) \<and>
   loaded demo_loaded = Some demo_info \<and>
   fst (rasterize_buildings_chunked demo_ext 10000 demo_loaded) = Inr [[0, 0], [0, 1]] \<and>
   has_shape (heap demo_loaded (dem_array demo_info)) (height demo_info) (width demo_info) \<and>
   is_float32 demo_ext (heap demo_loaded (dem_array demo_info)) \<and>
   (1::nat) < height demo_info \<and> (1::nat) < width demo_info \<and>
   heap (snd (create_dem_with_buildings_nodata demo_ext ''x.asc'' demo_loaded))
     (Suc (next_addr demo_loaded)) ! 1 ! 1 = - 9999"
proof -
  have run: "create_dem_with_buildings_nodata demo_ext ''x.asc'' demo_loaded =
     (Inr ''input/x.asc'', snd (create_dem_with_buildings_nodata demo_ext ''x.asc'' demo_loaded))"
    using demo_create_dem by (metis prod.collapse)
  have h: "(1::nat) < height demo_info" "(1::nat) < width demo_info"
    by (simp_all add: demo_info_def)
  from composite_cells [OF run demo_features(1) demo_mask demo_shape demo_float32 h]
  show ?thesis using run demo_features(1) demo_mask demo_shape demo_float32 h by simp
qed

text \<open>
  C2 as stated fails: the demo DEM's nodata value is -32768, the cell at row 1, column 1
  is set in the mask, and the composited cell is -9999, not the DEM's nodata value.
\<close>

theorem composite_nodata_counterexample:
  "nodata demo_info = Some (- 32768) \<and>
   fst (rasterize_buildings_chunked demo_ext 10000 demo_loaded) = Inr [[0, 0], [0, 1]] \<and>
   fst (create_dem_with_buildings_nodata demo_ext ''x.asc'' demo_loaded) = Inr ''input/x.asc'' \<and>
   heap (snd (create_dem_with_buildings_nodata demo_ext ''x.asc'' demo_loaded)) 2 ! 1 ! 1 = - 9999 \<and>
   Some (heap (snd (create_dem_with_buildings_nodata demo_ext ''x.asc'' demo_loaded)) 2 ! 1 ! 1)
     \<noteq> nodata demo_info"
proof -
  have run: "create_dem_with_buildings_nodata demo_ext ''x.asc'' demo_loaded =
     (Inr ''input/x.asc'', snd (create_dem_with_buildings_nodata demo_ext ''x.asc'' demo_loaded))"
    using demo_create_dem by (metis prod.collapse)
  from run obtain d fs gs where l: "loaded demo_loaded = Some d"
    and f: "files demo_loaded (buildings_geojson_path demo_loaded) = Some (FeatureCollection fs)"
    and g: "geometries fs = Inr gs"
    and h: "heap (snd (create_dem_with_buildings_nodata demo_ext ''x.asc'' demo_loaded)) =
      (heap demo_loaded)(next_addr demo_loaded := heap demo_loaded (dem_array d),
        Suc (next_addr demo_loaded) := masked_dem demo_ext (heap demo_loaded (dem_array d)) (burn_mask demo_ext d gs))"
    by (rule create_dem_Inr)
  have d: "d = demo_info" and gs: "gs = [two_point_ring, square11]"
    using l f g demo_features by simp_all
  have a: "dem_array demo_info = 0" "Suc (next_addr demo_loaded) = 2"
    by (simp_all add: demo_info_def demo_loaded_def)
  have "heap (snd (create_dem_with_buildings_nodata demo_ext ''x.asc'' demo_loaded)) 2 =
      [[100, - 32768], [100, - 9999]]"
    unfolding h d gs demo_burn_mask a demo_masked by simp
  then show ?thesis using demo_mask demo_create_dem by (simp add: demo_info_def)
qed

lemma shape_burn_mask: "shape (burn_mask ext d gs) = shape (np_zeros (height d) (width d))"
  by (simp add: burn_mask_def np_zeros_tabulate2 shape_tabulate2)

text \<open>
  C6, as the code has it. The compositing step has no dimension check of its own and
  nothing in the source raises \<open>DimensionMismatch\<close>. When the shape of the DEM array is not
  the shape of the mask (built as \<^verbatim>\<open>np.zeros((height, width))\<close>), numpy's boolean-mask
  assignment raises \<open>IndexError\<close>; that is after the rasterization and the copies, and
  before anything is written: the files are as they were. (When a feature of the polygon
  file has no geometry the assignment is not reached: the rasterization has raised, and
  the files are as they were, too.)
\<close>

theorem composite_shape_mismatch:
  assumes "loaded s = Some d"
    and "files s (buildings_geojson_path s) = Some (FeatureCollection fs)"
    and "shape (heap s (dem_array d)) \<noteq> shape (np_zeros (height d) (width d))"
  shows "fst (create_dem_with_buildings_nodata ext fn s) =
           (case geometries fs of Inl e \<Rightarrow> Inl e | Inr gs \<Rightarrow> Inl IndexError) \<and>
         files (snd (create_dem_with_buildings_nodata ext fn s)) = files s"
proof (cases "geometries fs")
  case (Inl e)
  from create_dem_bad_feature [OF assms(1,2) Inl, of ext fn]
  show ?thesis using Inl by (simp add: only_prints_fields)
next
  case (Inr gs)
  from create_dem_run [OF assms(1,2) Inr, of ext fn] assms(3)
  obtain s1 where c: "composited s (heap s (dem_array d)) (map (map (f32 ext)) (heap s (dem_array d))) s1"
    and "create_dem_with_buildings_nodata ext fn s = (Inl IndexError, s1)"
    by (auto simp: shape_burn_mask)
  then show ?thesis using composited_fields(2) [OF c] Inr by simp
qed

lemma demo_mismatch_facts:
  "loaded demo_mismatch = Some demo_wide_info"
  "files demo_mismatch (buildings_geojson_path demo_mismatch) =
     Some (FeatureCollection [feature_of two_point_ring, feature_of square11])"
  "geometries [feature_of two_point_ring, feature_of square11] = Inr [two_point_ring, square11]"
  "shape (heap demo_mismatch (dem_array demo_wide_info)) = (2, 2)"
  "shape (np_zeros (height demo_wide_info) (width demo_wide_info)) = (2, 3)"
  by (simp_all add: demo_mismatch_def demo_wide_info_def demo_loaded_def demo_state_def demo_info_def
      shape_def np_zeros_def numeral_2_eq_2)

theorem composite_shape_mismatch_witness:
  "loaded demo_mismatch = Some demo_wide_info \<and>
   files demo_mismatch (buildings_geojson_path demo_mismatch) =
     Some (FeatureCollection [feature_of two_point_ring, feature_of square11]) \<and>
   shape (heap demo_mismatch (dem_array demo_wide_info)) \<noteq>
     shape (np_zeros (height demo_wide_info) (width demo_wide_info)) \<and>
   fst (create_dem_with_buildings_nodata demo_ext ''x.asc'' demo_mismatch) = Inl IndexError \<and>
   files (snd (create_dem_with_buildings_nodata demo_ext ''x.asc'' demo_mismatch)) = files demo_mismatch"
proof -
  have ne: "shape (heap demo_mismatch (dem_array demo_wide_info)) \<noteq>
     shape (np_zeros (height demo_wide_info) (width demo_wide_info))"
    unfolding demo_mismatch_facts by simp
  from composite_shape_mismatch [OF demo_mismatch_facts(1,2) ne, of demo_ext "''x.asc''"]
  show ?thesis using demo_mismatch_facts(1,2,3) ne by simp
qed

text \<open>
  C6 as stated fails: with a DEM array of 2 by 2 cells and a grid recorded as 2 rows of 3
  columns, the compositing step raises \<open>IndexError\<close>, not \<open>DimensionMismatch\<close>.
\<close>

theorem composite_dimension_counterexample:
  "shape (heap demo_mismatch (dem_array demo_wide_info)) = (2, 2) \<and>
   shape (np_zeros (height demo_wide_info) (width demo_wide_info)) = (2, 3) \<and>
   fst (create_dem_with_buildings_nodata demo_ext ''x.asc'' demo_mismatch) = Inl IndexError \<and>
   fst (create_dem_with_buildings_nodata demo_ext ''x.asc'' demo_mismatch) \<noteq> Inl DimensionMismatch"
proof -
  from create_dem_run [OF demo_mismatch_facts(1,2,3), of demo_ext "''x.asc''"]
  have "fst (create_dem_with_buildings_nodata demo_ext ''x.asc'' demo_mismatch) = Inl IndexError"
    by (auto simp: shape_burn_mask demo_mismatch_facts)
  then show ?thesis by (simp add: demo_mismatch_facts)
qed

lemma seq_write_state:
  "snd (seq w (seq (print l) (ret p)) t) =
     (if fst (w t) = Inr () then (snd (w t))\<lparr>stdout := stdout (snd (w t)) @ [l]\<rparr> else snd (w t))"
  by (cases "w t") (auto simp: seq_def bnd_def print_def ret_def split: sum.splits)

text \<open>
  C9. The compositing step works on a copy: after \<^verbatim>\<open>create_dem_with_buildings_nodata\<close>,
  whether it returned or raised, \<^verbatim>\<open>self.dem_array\<close> still refers to the array it
  referred to, and that array is as it was, cell for cell.
\<close>

theorem dem_array_unchanged:
  assumes "loaded s = Some d" and "dem_array d < next_addr s"
  shows "loaded (snd (create_dem_with_buildings_nodata ext fn s)) = Some d \<and>
         heap (snd (create_dem_with_buildings_nodata ext fn s)) (dem_array d) = heap s (dem_array d)"
proof (cases "\<exists>fs. files s (buildings_geojson_path s) = Some (FeatureCollection fs)")
  case False
  from create_dem_no_features(2) [OF assms(1) False, of ext fn]
  show ?thesis using assms(1) by (simp add: only_prints_fields)
next
  case True
  then obtain fs where fs: "files s (buildings_geojson_path s) = Some (FeatureCollection fs)" ..
  show ?thesis
  proof (cases "geometries fs")
    case (Inl e)
    from create_dem_bad_feature(2) [OF assms(1) fs Inl, of ext fn]
    show ?thesis using assms(1) by (simp add: only_prints_fields)
  next
    case (Inr gs)
    let ?n = "next_addr s"
    let ?dem = "heap s (dem_array d)"
    let ?m = "burn_mask ext d gs"
    let ?p = "path_join (output_dir s) fn"
    from create_dem_run [OF assms(1) fs Inr, of ext fn] obtain s1 where
      c: "composited s ?dem (map (map (f32 ext)) ?dem) s1" and
      e: "create_dem_with_buildings_nodata ext fn s =
         (if shape ?m = shape ?dem
          then seq (write_asc_file ext (Suc ?n) ?p (- 9999))
                 (seq (print (''DEM with buildings as NoData created: '' @ ?p)) (ret ?p))
                 (s1\<lparr>heap := (heap s1)(Suc ?n := masked_dem ext ?dem ?m),
                      stdout := stdout s1 @ [''Set '' @ str_int (np_sum_bool (eq_scalar ?m 1))
                           @ '' pixels to NoData (buildings)'']\<rparr>)
          else (Inl IndexError, s1))"
      by blast
    note cf = composited_fields [OF c]
    have a: "dem_array d \<noteq> ?n" "dem_array d \<noteq> Suc ?n" using assms(2) by simp_all
    show ?thesis
    proof (cases "shape ?m = shape ?dem")
      case False
      then show ?thesis using e cf(1,10) a assms(1) by simp
    next
      case True
      then show ?thesis using e cf(1,10) a assms(1)
        by (simp add: seq_write_state write_asc_file_fields)
    qed
  qed
qed

theorem dem_array_unchanged_witness:
  "loaded demo_loaded = Some demo_info \<and> dem_array demo_info < next_addr demo_loaded \<and>
   fst (create_dem_with_buildings_nodata demo_ext ''x.asc'' demo_loaded) = Inr ''input/x.asc'' \<and>
   loaded (snd (create_dem_with_buildings_nodata demo_ext ''x.asc'' demo_loaded)) = Some demo_info \<and>
   heap (snd (create_dem_with_buildings_nodata demo_ext ''x.asc'' demo_loaded)) (dem_array demo_info) =
     [[100, - 32768], [100, 100]]"
proof -
  have a: "dem_array demo_info < next_addr demo_loaded"
    by (simp add: demo_info_def demo_loaded_def)
  have "heap demo_loaded (dem_array demo_info) = [[100, - 32768], [100, 100]]"
    by (simp add: demo_info_def demo_loaded_def)
  with dem_array_unchanged [OF demo_features(1) a, of demo_ext "''x.asc''"]
  show ?thesis using a demo_features(1) demo_create_dem by simp
qed

text \<open>
  C10, as the code has it. Whatever the nodata value of the DEM, the compositing step
  stores the literal -9999 in the cells the mask covers and the header of the written file
  declares \<open>NODATA_value -9999\<close>. A cell outside the mask that holds the DEM's own nodata
  value holds the 32-bit rounding of that value afterwards, for \<^verbatim>\<open>astype(np.float32)\<close>
  rounds every cell: it keeps the DEM's value when that value is a 32-bit float, and it
  differs from the sentinel the header declares when the rounded value is not -9999.
\<close>

theorem nodata_sentinel_literal:
  assumes "create_dem_with_buildings_nodata ext fn s = (Inr p, s')"
    and "loaded s = Some d"
    and "fst (rasterize_buildings_chunked ext 10000 s) = Inr m"
    and "has_shape (heap s (dem_array d)) (height d) (width d)"
    and "r < height d" and "c < width d"
  shows "files s' p = Some (Text (unlines (asc_lines ext d (heap s' (Suc (next_addr s))) (- 9999)))) \<and>
         asc_lines ext d (heap s' (Suc (next_addr s))) (- 9999) ! 5 = ''NODATA_value -9999'' \<and>
         (m ! r ! c = 1 \<longrightarrow> heap s' (Suc (next_addr s)) ! r ! c = - 9999) \<and>
         (m ! r ! c \<noteq> 1 \<and> nodata d = Some nd \<and> heap s (dem_array d) ! r ! c = nd \<longrightarrow>
            heap s' (Suc (next_addr s)) ! r ! c = f32 ext nd \<and>
            (f32 ext nd = nd \<longrightarrow> heap s' (Suc (next_addr s)) ! r ! c = nd) \<and>
            (f32 ext nd \<noteq> - 9999 \<longrightarrow> heap s' (Suc (next_addr s)) ! r ! c \<noteq> - 9999))"
proof -
  from assms(1) obtain d' fs gs where "loaded s = Some d'"
    and fs: "files s (buildings_geojson_path s) = Some (FeatureCollection fs)"
    and gs: "geometries fs = Inr gs"
    and h: "heap s' = (heap s)(next_addr s := heap s (dem_array d'),
            Suc (next_addr s) := masked_dem ext (heap s (dem_array d')) (burn_mask ext d' gs))"
    and f: "files s' p = Some (Text (unlines (asc_lines ext d'
            (masked_dem ext (heap s (dem_array d')) (burn_mask ext d' gs)) (- 9999))))"
    by (rule create_dem_Inr)
  with assms(2) have d': "d' = d" by simp
  have m: "m = burn_mask ext d gs" using mask_of_run [OF assms(2) fs gs assms(3)] .
  have out: "heap s' (Suc (next_addr s)) = masked_dem ext (heap s (dem_array d)) m"
    using h d' m by simp
  have cell: "masked_dem ext (heap s (dem_array d)) m ! r ! c =
      (if m ! r ! c = 1 then - 9999 else f32 ext (heap s (dem_array d) ! r ! c))"
    using masked_dem_nth [OF assms(4) _ assms(5,6), of m ext] has_shape_burn_mask [of ext d gs] m
    by simp
  have "asc_lines ext d (heap s' (Suc (next_addr s))) (- 9999) ! 5 = ''NODATA_value -9999''"
    by (simp add: asc_lines_def asc_header_def str_int_small)
  then show ?thesis using out f d' m cell by auto
qed

theorem nodata_sentinel_literal_witness:
  "create_dem_with_buildings_nodata demo_ext ''x.asc'' demo_loaded =
     (Inr ''input/x.asc'', snd (create_dem_with_buildings_nodata demo_ext ''x.asc'' demo_loaded)) \<and>
   loaded demo_loaded = Some demo_info \<and>
   fst (rasterize_buildings_chunked demo_ext 10000 demo_loaded) = Inr [[0, 0], [0, 1]] \<and>
   has_shape (heap demo_loaded (dem_array demo_info)) (height demo_info) (width demo_info) \<and>
   (0::nat) < height demo_info \<and> (1::nat) < width demo_info \<and>
   [[0, 0], [0, 1::8 word]] ! 0 ! 1 \<noteq> 1 \<and> nodata demo_info = Some (- 32768) \<and>
   heap demo_loaded (dem_array demo_info) ! 0 ! 1 = - 32768 \<and>
   f32 demo_ext (- 32768) = - 32768 \<and> f32 demo_ext (- 32768) \<noteq> - 9999 \<and>
   heap (snd (create_dem_with_buildings_nodata demo_ext ''x.asc'' demo_loaded))
     (Suc (next_addr demo_loaded)) ! 0 ! 1 = - 32768 \<and>
   heap (snd (create_dem_with_buildings_nodata demo_ext ''x.asc'' demo_loaded))
     (Suc (next_addr demo_loaded)) ! 0 ! 1 \<noteq> - 9999 \<and>
   asc_lines demo_ext demo_info
     (heap (snd (create_dem_with_buildings_nodata demo_ext ''x.asc'' demo_loaded))
        (Suc (next_addr demo_loaded))) (- 9999) ! 5 = ''NODATA_value -9999''"
proof -
  have run: "create_dem_with_buildings_nodata demo_ext ''x.asc'' demo_loaded =
     (Inr ''input/x.asc'', snd (create_dem_with_buildings_nodata demo_ext ''x.asc'' demo_loaded))"
    using demo_create_dem by (metis prod.collapse)
  have h: "(0::nat) < height demo_info" "(1::nat) < width demo_info"
    by (simp_all add: demo_info_def)
  have v: "[[0, 0], [0, 1::8 word]] ! 0 ! 1 \<noteq> 1" "nodata demo_info = Some (- 32768)"
    "heap demo_loaded (dem_array demo_info) ! 0 ! 1 = - 32768"
    "f32 demo_ext (- 32768) = - 32768" "f32 demo_ext (- 32768) \<noteq> - 9999"
    by (simp_all add: demo_info_def demo_loaded_def demo_ext_def)
  from nodata_sentinel_literal [OF run demo_features(1) demo_mask demo_shape h, of "- 32768"]
  show ?thesis using run demo_features(1) demo_mask demo_shape h v by simp
qed

lemma demo_f64_facts:
  "loaded demo_f64 = Some demo_f64_info"
  "files demo_f64 (buildings_geojson_path demo_f64) =
     Some (FeatureCollection [feature_of two_point_ring, feature_of square11])"
  "geometries [feature_of two_point_ring, feature_of square11] = Inr [two_point_ring, square11]"
  "burn_mask demo_round_ext demo_f64_info [two_point_ring, square11] = [[0, 0], [0, 1]]"
  "heap demo_f64 (dem_array demo_f64_info) = [[100, - 99990001 / 10000], [100, 100]]"
  "next_addr demo_f64 = 1" "output_dir demo_f64 = ''input''" "space demo_f64 = 1000"
  "nodata demo_f64_info = Some (- 99990001 / 10000)"
  by (simp_all add: demo_f64_def demo_f64_info_def demo_loaded_def demo_state_def
      burn_mask_def tabulate2_def demo_round_ext_def demo_ext_def demo_info_def demo_gt_def
      demo_burns_def two_point_ring_def square11_def upt_conv_Cons Let_def del: upt_Suc)

lemma demo_f32_values: "demo_f32 100 = 100" "demo_f32 (- 99990001 / 10000) = - 9999"
  "demo_f32 (- (99990001 / 10000)) = - 9999"
  unfolding demo_f32_def round_def by (simp_all add: floor_eq_iff)

lemma demo_f64_masked:
  "masked_dem demo_round_ext [[100, - 99990001 / 10000], [100, 100]] [[0, 0], [0, 1]] =
     [[100, - 9999], [100, - 9999]]"
  by (simp add: masked_dem_def demo_round_ext_def demo_f32_values)

text \<open>
  C10 as stated fails: a DEM of 64-bit floats has the nodata value -9999.0001, which is
  not -9999, and holds it in the cell of row 0, column 1, outside the mask. The 32-bit
  rounding turns the cell into -9999: it does not keep the DEM's sentinel, and it matches
  the sentinel the header declares.
\<close>

theorem nodata_rounding_counterexample:
  "nodata demo_f64_info = Some (- 99990001 / 10000) \<and> (- 99990001 / 10000 :: real) \<noteq> - 9999 \<and>
   heap demo_f64 (dem_array demo_f64_info) ! 0 ! 1 = - 99990001 / 10000 \<and>
   fst (rasterize_buildings_chunked demo_round_ext 10000 demo_f64) = Inr [[0, 0], [0, 1]] \<and>
   fst (create_dem_with_buildings_nodata demo_round_ext ''x.asc'' demo_f64) = Inr ''input/x.asc'' \<and>
   heap (snd (create_dem_with_buildings_nodata demo_round_ext ''x.asc'' demo_f64)) 2 ! 0 ! 1 = - 9999"
proof -
  note f = demo_f64_facts
  have m: "fst (rasterize_buildings_chunked demo_round_ext 10000 demo_f64) = Inr [[0, 0], [0, 1]]"
    using rasterize_buildings_chunked_run [OF f(1,2,3), of 10000 demo_round_ext]
    by (auto simp: f(4))
  have 1: "shape (burn_mask demo_round_ext demo_f64_info [two_point_ring, square11]) =
        shape (heap demo_f64 (dem_array demo_f64_info))"
    unfolding f by (simp add: shape_def)
  have 2: "writable demo_f64 (path_join (output_dir demo_f64) ''x.asc'')"
    by (simp add: demo_f64_def demo_loaded_def demo_state_def)
  have 3: "length (unlines (asc_lines demo_round_ext demo_f64_info
           (masked_dem demo_round_ext (heap demo_f64 (dem_array demo_f64_info))
             (burn_mask demo_round_ext demo_f64_info [two_point_ring, square11])) (- 9999)))
          \<le> space demo_f64"
    unfolding f demo_f64_masked
    by (simp add: asc_lines_def asc_header_def row_line_def demo_f64_info_def demo_info_def
        demo_round_ext_def demo_ext_def demo_gt_def str_integral_def str_int_def str_nat.simps digit_def)
  from create_dem_succeeds [OF f(1,2,3) 1 2 3]
  have ok: "fst (create_dem_with_buildings_nodata demo_round_ext ''x.asc'' demo_f64) = Inr ''input/x.asc''"
    by (simp add: f path_join_def)
  then have run: "create_dem_with_buildings_nodata demo_round_ext ''x.asc'' demo_f64 =
     (Inr ''input/x.asc'', snd (create_dem_with_buildings_nodata demo_round_ext ''x.asc'' demo_f64))"
    by (metis prod.collapse)
  from run obtain d fs gs where l: "loaded demo_f64 = Some d"
    and ff: "files demo_f64 (buildings_geojson_path demo_f64) = Some (FeatureCollection fs)"
    and g: "geometries fs = Inr gs"
    and h: "heap (snd (create_dem_with_buildings_nodata demo_round_ext ''x.asc'' demo_f64)) =
      (heap demo_f64)(next_addr demo_f64 := heap demo_f64 (dem_array d),
        Suc (next_addr demo_f64) :=
          masked_dem demo_round_ext (heap demo_f64 (dem_array d)) (burn_mask demo_round_ext d gs))"
    by (rule create_dem_Inr)
  have d: "d = demo_f64_info" and gs: "gs = [two_point_ring, square11]"
    using l ff g f(1,2,3) by simp_all
  have "heap (snd (create_dem_with_buildings_nodata demo_round_ext ''x.asc'' demo_f64)) 2 =
      [[100, - 9999], [100, - 9999]]"
    unfolding h d gs f demo_f64_masked by simp
  then show ?thesis using m ok by (simp add: f)
qed

subsection \<open>The footprint raster and the whole pipeline\<close>

lemma write_asc_file_Inr_space:
  assumes "write_asc_file ext a p nd s = (Inr (), s')" and "loaded s = Some d"
  shows "space s' = space s - length (unlines (asc_lines ext d (heap s a) nd))"
    and "length (unlines (asc_lines ext d (heap s a) nd)) \<le> space s"
proof -
  have w: "writable s p"
    using assms write_asc_file_unwritable [of s d p ext a nd] by (cases "writable s p") auto
  let ?text = "unlines (asc_lines ext d (heap s a) nd)"
  from assms(1) write_asc_file_run [OF assms(2) w, of ext a nd]
  have k: "length ?text \<le> space s"
    and s': "s' = put_file p (take (space s) ?text) (space s - length ?text) s"
    by (auto split: if_splits)
  show "space s' = space s - length ?text"
    unfolding s' by (simp add: put_file_def)
  show "length ?text \<le> space s" by (rule k)
qed

lemma write_asc_file_succeeds:
  assumes "loaded s = Some d" and "writable s p"
    and "length (unlines (asc_lines ext d (heap s a) nd)) \<le> space s"
  shows "fst (write_asc_file ext a p nd s) = Inr ()"
  using write_asc_file_run [OF assms(1,2), of ext a nd] assms(3) by simp

lemma bnd_astype_float32_of_uint8:
  "bnd (astype_float32_of_uint8 m) k s =
     k (next_addr s) (s\<lparr>heap := (heap s)(next_addr s := map (map (\<lambda>b. real (unat b))) m),
                         next_addr := Suc (next_addr s)\<rparr>)"
  by (simp add: astype_float32_of_uint8_def bnd_alloc)

lemma footprint_run:
  assumes "loaded s = Some d"
    and "files s (buildings_geojson_path s) = Some (FeatureCollection fs)"
    and "geometries fs = Inr gs"
  shows "\<exists>s1. footprinted s (map (map (\<lambda>b. real (unat b))) (burn_mask ext d gs)) s1 \<and>
     create_building_footprint_raster ext fn s =
       seq (write_asc_file ext (next_addr s) (path_join (output_dir s) fn) (- 9999))
           (seq (print (''Building footprint raster created: '' @ path_join (output_dir s) fn))
                (ret (path_join (output_dir s) fn))) s1"
proof -
  let ?s0 = "s\<lparr>stdout := stdout s @ [''Creating building footprint raster: '' @ fn]\<rparr>"
  let ?m = "burn_mask ext d gs"
  have "loaded ?s0 = Some d" "files ?s0 (buildings_geojson_path ?s0) = Some (FeatureCollection fs)"
    using assms by simp_all
  from rasterize_buildings_chunked_run [OF this assms(3), of 10000 ext]
  obtain s' where r: "rasterize_buildings_chunked ext 10000 ?s0 = (Inr ?m, s')"
    and "only_prints ?s0 s'" by auto
  then obtain printed err where
    s': "s' = ?s0\<lparr>stdout := stdout ?s0 @ printed, stderr := stderr ?s0 @ err\<rparr>"
    unfolding only_prints_def by blast
  let ?s1 = "s\<lparr>stdout := stdout s @ ([''Creating building footprint raster: '' @ fn] @ printed),
                stderr := stderr s @ err,
                heap := (heap s)(next_addr s := map (map (\<lambda>b. real (unat b))) ?m),
                next_addr := Suc (next_addr s)\<rparr>"
  have c: "footprinted s (map (map (\<lambda>b. real (unat b))) ?m) ?s1"
    unfolding footprinted_def by blast
  have "create_building_footprint_raster ext fn s =
       seq (write_asc_file ext (next_addr s) (path_join (output_dir s) fn) (- 9999))
           (seq (print (''Building footprint raster created: '' @ path_join (output_dir s) fn))
                (ret (path_join (output_dir s) fn))) ?s1"
    apply (simp only: create_building_footprint_raster_def seq_print)
    apply (subst bnd_Inr [where m = "rasterize_buildings_chunked ext 10000" and s = ?s0, OF r])
    unfolding s'
    apply (simp add: bnd_gets bnd_astype_float32_of_uint8 Let_def)
    done
  with c show ?thesis by blast
qed

lemma footprinted_fields:
  assumes "footprinted s arr s1"
  shows "loaded s1 = loaded s" and "files s1 = files s" and "space s1 = space s"
    and "writable s1 = writable s" and "output_dir s1 = output_dir s"
    and "buildings_geojson_path s1 = buildings_geojson_path s"
    and "dem_tile_path s1 = dem_tile_path s" and "ticks s1 = ticks s"
    and "next_addr s1 = Suc (next_addr s)"
    and "heap s1 = (heap s)(next_addr s := arr)"
  using assms by (auto simp: footprinted_def)

lemma footprint_rasterize_fails:
  assumes "fst (rasterize_buildings_chunked ext 10000
      (s\<lparr>stdout := stdout s @ [''Creating building footprint raster: '' @ fn]\<rparr>)) = Inl e"
  shows "fst (create_building_footprint_raster ext fn s) = Inl e"
proof -
  let ?s0 = "s\<lparr>stdout := stdout s @ [''Creating building footprint raster: '' @ fn]\<rparr>"
  have "create_building_footprint_raster ext fn s =
      (Inl e, snd (rasterize_buildings_chunked ext 10000 ?s0))"
    by (simp only: create_building_footprint_raster_def seq_print
        bnd_fst_Inl [where m = "rasterize_buildings_chunked ext 10000" and s = ?s0, OF assms])
  then show ?thesis by simp
qed

lemma footprint_not_loaded:
  assumes "loaded s = None"
  shows "fst (create_building_footprint_raster ext fn s) = Inl AttributeError"
  using assms by (intro footprint_rasterize_fails) (simp add: rasterize_buildings_chunked_not_loaded)

lemma footprint_no_features:
  assumes "loaded s = Some d"
    and "\<nexists>fs. files s (buildings_geojson_path s) = Some (FeatureCollection fs)"
  shows "fst (create_building_footprint_raster ext fn s) =
           (if files s (buildings_geojson_path s) = None then Inl IOError else Inl ValueError)"
proof -
  let ?s0 = "s\<lparr>stdout := stdout s @ [''Creating building footprint raster: '' @ fn]\<rparr>"
  let ?e = "if files s (buildings_geojson_path s) = None then IOError else ValueError"
  have f: "fst (rasterize_buildings_chunked ext 10000 ?s0) = Inl ?e"
    using rasterize_buildings_chunked_no_features [of ?s0 d ext 10000] assms by simp
  from footprint_rasterize_fails [OF f] show ?thesis by simp
qed

lemma footprint_bad_feature:
  assumes "loaded s = Some d"
    and "files s (buildings_geojson_path s) = Some (FeatureCollection fs)"
    and "geometries fs = Inl e"
  shows "fst (create_building_footprint_raster ext fn s) = Inl e"
proof -
  let ?s0 = "s\<lparr>stdout := stdout s @ [''Creating building footprint raster: '' @ fn]\<rparr>"
  have f: "fst (rasterize_buildings_chunked ext 10000 ?s0) = Inl e"
    using rasterize_buildings_chunked_fst [of ?s0 d fs 10000 ext] assms by simp
  from footprint_rasterize_fails [OF f] show ?thesis .
qed

text \<open>
  What a call of \<^verbatim>\<open>create_building_footprint_raster\<close> that returns has found and done.
\<close>

lemma footprint_Inr:
  assumes run: "create_building_footprint_raster ext fn s = (Inr p, s')"
  obtains d fs gs where "loaded s = Some d"
    and "files s (buildings_geojson_path s) = Some (FeatureCollection fs)"
    and "geometries fs = Inr gs"
    and "p = path_join (output_dir s) fn"
    and "files s' p = Some (Text (unlines (asc_lines ext d
            (map (map (\<lambda>b. real (unat b))) (burn_mask ext d gs)) (- 9999))))"
    and "\<And>q. q \<noteq> p \<Longrightarrow> files s' q = files s q"
    and "loaded s' = loaded s" and "output_dir s' = output_dir s"
proof -
  obtain d where d: "loaded s = Some d"
    using run footprint_not_loaded [of s ext fn] by (cases "loaded s") auto
  have "\<exists>fs. files s (buildings_geojson_path s) = Some (FeatureCollection fs)"
  proof (rule ccontr)
    assume "\<nexists>fs. files s (buildings_geojson_path s) = Some (FeatureCollection fs)"
    from footprint_no_features [OF d this, of ext fn] run show False
      by (simp split: if_splits)
  qed
  then obtain fs where fs: "files s (buildings_geojson_path s) = Some (FeatureCollection fs)" ..
  obtain gs where gs: "geometries fs = Inr gs"
    using run footprint_bad_feature [OF d fs, of _ ext fn] by (cases "geometries fs") auto
  let ?n = "next_addr s"
  let ?p = "path_join (output_dir s) fn"
  let ?arr = "map (map (\<lambda>b. real (unat b))) (burn_mask ext d gs)"
  from footprint_run [OF d fs gs, of ext fn] obtain s1 where
    c: "footprinted s ?arr s1" and
    e: "create_building_footprint_raster ext fn s =
       seq (write_asc_file ext ?n ?p (- 9999))
           (seq (print (''Building footprint raster created: '' @ ?p)) (ret ?p)) s1"
    by blast
  note cf = footprinted_fields [OF c]
  from run e obtain s3 where
    w: "write_asc_file ext ?n ?p (- 9999) s1 = (Inr (), s3)" and
    k: "seq (print (''Building footprint raster created: '' @ ?p)) (ret ?p) s3 = (Inr p, s')"
    by (auto simp: seq_eq_Inr)
  from k have p: "p = ?p" and s': "s' = s3\<lparr>stdout := stdout s3 @ [''Building footprint raster created: '' @ ?p]\<rparr>"
    by (auto simp: seq_print ret_def)
  have s3: "s3 = snd (write_asc_file ext ?n ?p (- 9999) s1)" using w by simp
  note wf = write_asc_file_fields [where ext = ext and a = ?n and p = ?p and nd = "- 9999"
      and s = s1, folded s3]
  from w obtain d' where "loaded s1 = Some d'"
    and "files s3 ?p = Some (Text (unlines (asc_lines ext d' (heap s1 ?n) (- 9999))))"
    by (rule write_asc_file_Inr)
  then have f: "files s3 ?p = Some (Text (unlines (asc_lines ext d ?arr (- 9999))))"
    using d cf(1,10) by simp
  show ?thesis
  proof (rule that [OF d fs gs p])
    show "files s' p = Some (Text (unlines (asc_lines ext d ?arr (- 9999))))"
      using f p s' by simp
    show "files s' q = files s q" if "q \<noteq> p" for q
      using wf(10) [where q = q] that p s' cf(2) by simp
    show "loaded s' = loaded s" using s' wf(2) cf(1) by simp
    show "output_dir s' = output_dir s" using s' wf(5) cf(5) by simp
  qed
qed


lemma keeps_passes_ret: "keeps_passes (ret x)"
  by (simp add: keeps_passes_def ret_def)

lemma keeps_passes_raise: "keeps_passes (raise e)"
  by (simp add: keeps_passes_def raise_def)

lemma keeps_passes_lift: "keeps_passes (lift r)"
  by (simp add: keeps_passes_def lift_def)

lemma keeps_passes_gets: "keeps_passes (gets f)"
  by (simp add: keeps_passes_def gets_def)

lemma keeps_passes_attrs: "keeps_passes attrs"
  by (simp add: keeps_passes_def attrs_def split: option.splits)

lemma keeps_passes_print: "\<not> rasterizing_line l \<Longrightarrow> keeps_passes (print l)"
  by (simp add: keeps_passes_def print_def passes_def)

lemma keeps_passes_stdout: "(\<And>s. stdout (snd (m s)) = stdout s) \<Longrightarrow> keeps_passes m"
  by (simp add: keeps_passes_def passes_def)

lemma keeps_passes_bnd:
  assumes "keeps_passes m" and "\<And>x. keeps_passes (f x)"
  shows "keeps_passes (bnd m f)"
  unfolding keeps_passes_def
proof
  fix s
  obtain r s1 where m: "m s = (r, s1)" by (cases "m s")
  with assms(1) have 1: "passes s1 = passes s" by (auto simp: keeps_passes_def dest: spec [of _ s])
  show "passes (snd (bnd m f s)) = passes s"
  proof (cases r)
    case (Inl e)
    then show ?thesis using m 1 by (simp add: bnd_def)
  next
    case (Inr x)
    from assms(2) [of x] have "passes (snd (f x s1)) = passes s1" by (simp add: keeps_passes_def)
    then show ?thesis using m 1 Inr by (simp add: bnd_def)
  qed
qed

lemma keeps_passes_seq: "keeps_passes m \<Longrightarrow> keeps_passes n \<Longrightarrow> keeps_passes (seq m n)"
  by (simp add: seq_def keeps_passes_bnd)

lemma keeps_passes_for_acc: "(\<And>x acc. keeps_passes (body x acc)) \<Longrightarrow> keeps_passes (for_acc xs body acc)"
  by (induction xs arbitrary: acc) (simp_all add: keeps_passes_ret keeps_passes_bnd)

lemma keeps_passes_only_state: "(\<And>s. snd (m s) = s) \<Longrightarrow> keeps_passes m"
  by (simp add: keeps_passes_def)

lemma keeps_passes_gdal_reports: "keeps_passes (gdal_reports ext call)"
  by (rule keeps_passes_stdout) (simp add: gdal_reports_def)

lemma keeps_passes_rasterize_chunk: "keeps_passes (rasterize_chunk ext chunk out)"
proof (rule keeps_passes_stdout)
  fix s :: "'a state"
  from reports_only_rasterize_chunk [of ext chunk out]
  obtain err where "snd (rasterize_chunk ext chunk out s) = s\<lparr>stderr := stderr s @ err\<rparr>"
    unfolding reports_only_def only_reports_def by blast
  then show "stdout (snd (rasterize_chunk ext chunk out s)) = stdout s" by simp
qed

lemma not_rasterizing_lines:
  "\<not> rasterizing_line (''Processing chunk '' @ x)"
  "\<not> rasterizing_line (''Progress: '' @ x)"
  "\<not> rasterizing_line (''Total building polygons: '' @ x)"
  "\<not> rasterizing_line (''Building rasterization complete. Buildings found in '' @ x)"
  "\<not> rasterizing_line (''Creating DEM with buildings as NoData: '' @ x)"
  "\<not> rasterizing_line (''Set '' @ x)"
  "\<not> rasterizing_line (''DEM with buildings as NoData created: '' @ x)"
  "\<not> rasterizing_line (''Creating building footprint raster: '' @ x)"
  "\<not> rasterizing_line (''Building footprint raster created: '' @ x)"
  "\<not> rasterizing_line ''Loading DEM information...''"
  "\<not> rasterizing_line (''DEM dimensions: '' @ x)"
  "\<not> rasterizing_line (''DEM bounds: '' @ x)"
  "\<not> rasterizing_line (''Pixel size: '' @ x)"
  "\<not> rasterizing_line (''Converting DEM to ASC format: '' @ x)"
  "\<not> rasterizing_line (''Basic DEM ASC file created: '' @ x)"
  "\<not> rasterizing_line ''=== DEM to ASC Processing Started ===''"
  "\<not> rasterizing_line (newline @ x)"
  "\<not> rasterizing_line (''Files created in '' @ x)"
  "\<not> rasterizing_line (''- '' @ x)"
  "rasterizing_line (''Rasterizing '' @ x)"
  by (simp_all add: rasterizing_line_def newline_def)

lemma keeps_passes_chunk_step: "keeps_passes (chunk_step ext fs k i acc)"
  by (cases acc)
     (simp add: chunk_step_def Let_def keeps_passes_seq keeps_passes_bnd keeps_passes_print
        keeps_passes_ret keeps_passes_rasterize_chunk rasterizing_line_def)

lemma keeps_passes_json_load_features: "keeps_passes (json_load_features p)"
  by (simp add: keeps_passes_def json_load_features_def split: option.splits file_content.splits)

lemma passes_seq_print:
  assumes "keeps_passes rest" and "rasterizing_line l"
  shows "passes (snd (seq (print l) rest s)) = Suc (passes s)"
proof -
  have "passes (s\<lparr>stdout := stdout s @ [l]\<rparr>) = Suc (passes s)"
    using assms(2) by (simp add: passes_def)
  then show ?thesis using assms(1) by (simp add: seq_print keeps_passes_def)
qed

lemma keeps_passes_case_prod: "(\<And>a b. keeps_passes (f a b)) \<Longrightarrow> keeps_passes (case p of (a, b) \<Rightarrow> f a b)"
  by (cases p) simp

lemma passes_rasterize_buildings_chunked:
  "passes (snd (rasterize_buildings_chunked ext k s)) = Suc (passes s)"
  apply (simp only: rasterize_buildings_chunked_def bnd_gets Let_def)
  apply (rule passes_seq_print)
   apply (intro keeps_passes_bnd keeps_passes_seq keeps_passes_attrs
          keeps_passes_json_load_features keeps_passes_lift keeps_passes_for_acc
          keeps_passes_chunk_step keeps_passes_print keeps_passes_case_prod keeps_passes_ret
          not_rasterizing_lines)
  apply (rule not_rasterizing_lines)
  done

lemma passes_after:
  assumes "\<And>s. passes (snd (m s)) = Suc (passes s)" and "\<And>x. keeps_passes (f x)"
  shows "passes (snd (bnd m f s)) = Suc (passes s)"
proof (cases "m s")
  case (Pair r s1)
  with assms(1) [of s] have 1: "passes s1 = Suc (passes s)" by simp
  show ?thesis
  proof (cases r)
    case (Inl e)
    then show ?thesis using Pair 1 by (simp add: bnd_def)
  next
    case (Inr x)
    then show ?thesis using Pair 1 assms(2) [of x] by (simp add: bnd_def keeps_passes_def)
  qed
qed

lemma keeps_passes_write_asc_file: "keeps_passes (write_asc_file ext a p nd)"
  by (rule keeps_passes_stdout) (rule write_asc_file_fields)

lemma keeps_passes_alloc: "keeps_passes (alloc a)"
  by (rule keeps_passes_stdout) (simp add: alloc_def)

lemma keeps_passes_setitem_mask_at: "keeps_passes (setitem_mask_at a m v)"
  by (rule keeps_passes_stdout) (simp add: setitem_mask_at_def split: sum.splits)

lemma keeps_passes_ndarray_copy: "keeps_passes (ndarray_copy a)"
  by (simp add: ndarray_copy_def keeps_passes_bnd keeps_passes_gets keeps_passes_alloc)

lemma keeps_passes_astype_float32: "keeps_passes (astype_float32 ext a)"
  by (simp add: astype_float32_def keeps_passes_bnd keeps_passes_gets keeps_passes_alloc)

lemma keeps_passes_astype_float32_of_uint8: "keeps_passes (astype_float32_of_uint8 m)"
  by (simp add: astype_float32_of_uint8_def keeps_passes_alloc)

lemma passes_create_dem:
  "passes (snd (create_dem_with_buildings_nodata ext fn s)) = Suc (passes s)"
proof -
  have "passes (snd (bnd (rasterize_buildings_chunked ext 10000) k t)) = Suc (passes t)"
    if "\<And>x. keeps_passes (k x)" for k :: "8 word list list \<Rightarrow> (string, 'a) py" and t
    using passes_rasterize_buildings_chunked that by (rule passes_after)
  moreover have "passes (s\<lparr>stdout := stdout s @ [''Creating DEM with buildings as NoData: '' @ fn]\<rparr>)
      = passes s"
    by (simp add: passes_def rasterizing_line_def)
  ultimately show ?thesis
    apply (simp only: create_dem_with_buildings_nodata_def seq_print Let_def)
    apply (subst \<open>\<And>k t. (\<And>x. keeps_passes (k x)) \<Longrightarrow>
        passes (snd (bnd (rasterize_buildings_chunked ext 10000) k t)) = Suc (passes t)\<close>)
     apply (intro keeps_passes_bnd keeps_passes_seq keeps_passes_attrs keeps_passes_gets
        keeps_passes_alloc keeps_passes_setitem_mask_at keeps_passes_write_asc_file
        keeps_passes_print keeps_passes_ret not_rasterizing_lines
        keeps_passes_ndarray_copy keeps_passes_astype_float32)
    apply simp
    done
qed

lemma passes_footprint:
  "passes (snd (create_building_footprint_raster ext fn s)) = Suc (passes s)"
proof -
  have "passes (snd (bnd (rasterize_buildings_chunked ext 10000) k t)) = Suc (passes t)"
    if "\<And>x. keeps_passes (k x)" for k :: "8 word list list \<Rightarrow> (string, 'a) py" and t
    using passes_rasterize_buildings_chunked that by (rule passes_after)
  moreover have "passes (s\<lparr>stdout := stdout s @ [''Creating building footprint raster: '' @ fn]\<rparr>)
      = passes s"
    by (simp add: passes_def rasterizing_line_def)
  ultimately show ?thesis
    apply (simp only: create_building_footprint_raster_def seq_print Let_def)
    apply (subst \<open>\<And>k t. (\<And>x. keeps_passes (k x)) \<Longrightarrow>
        passes (snd (bnd (rasterize_buildings_chunked ext 10000) k t)) = Suc (passes t)\<close>)
     apply (intro keeps_passes_bnd keeps_passes_seq keeps_passes_gets
        keeps_passes_write_asc_file keeps_passes_print keeps_passes_ret not_rasterizing_lines
        keeps_passes_astype_float32_of_uint8)
    apply simp
    done
qed


lemma load_dem_info_fields:
  assumes "files s (dem_tile_path s) = Some (GTiff ds)"
  shows "fst (load_dem_info ext s) = Inr ()"
    and "loaded (snd (load_dem_info ext s)) = Some (info_of ds (next_addr s))"
    and "heap (snd (load_dem_info ext s)) = (heap s)(next_addr s := ReadAsArray ds)"
    and "next_addr (snd (load_dem_info ext s)) = Suc (next_addr s)"
    and "files (snd (load_dem_info ext s)) = files s"
    and "space (snd (load_dem_info ext s)) = space s"
    and "writable (snd (load_dem_info ext s)) = writable s"
    and "output_dir (snd (load_dem_info ext s)) = output_dir s"
    and "buildings_geojson_path (snd (load_dem_info ext s)) = buildings_geojson_path s"
    and "dem_tile_path (snd (load_dem_info ext s)) = dem_tile_path s"
    and "passes (snd (load_dem_info ext s)) = passes s"
  using assms
  by (simp_all add: load_dem_info_def gets_def gdal_Open_def gdal_reports_def bnd_def alloc_def
      attrs_def print_def seq_def info_of_def passes_def rasterizing_line_def)

lemma load_dem_info_fails:
  assumes "\<nexists>ds. files s (dem_tile_path s) = Some (GTiff ds)"
  shows "fst (load_dem_info ext s) = Inl ValueError"
  using assms
  by (cases "files s (dem_tile_path s)")
     (auto simp: load_dem_info_def gets_def gdal_Open_def gdal_reports_def seq_def print_def
        bnd_def raise_def split: file_content.splits)

lemma vsi_write_fields:
  "loaded (snd (vsi_write p t s)) = loaded s"
  "heap (snd (vsi_write p t s)) = heap s"
  "next_addr (snd (vsi_write p t s)) = next_addr s"
  "writable (snd (vsi_write p t s)) = writable s"
  "output_dir (snd (vsi_write p t s)) = output_dir s"
  "buildings_geojson_path (snd (vsi_write p t s)) = buildings_geojson_path s"
  "dem_tile_path (snd (vsi_write p t s)) = dem_tile_path s"
  "stdout (snd (vsi_write p t s)) = stdout s"
  "fst (vsi_write p t s) = Inr ()"
  "files (snd (vsi_write p t s)) q = files s q \<or> (\<exists>x. files (snd (vsi_write p t s)) q = Some (Text x))"
  "q \<noteq> p \<Longrightarrow> files (snd (vsi_write p t s)) q = files s q"
  "space s - length t \<le> space (snd (vsi_write p t s))"
  by (simp_all add: vsi_write_def)

lemma write_if_any_fields:
  "loaded (snd (write_if_any p t s)) = loaded s"
  "heap (snd (write_if_any p t s)) = heap s"
  "next_addr (snd (write_if_any p t s)) = next_addr s"
  "writable (snd (write_if_any p t s)) = writable s"
  "output_dir (snd (write_if_any p t s)) = output_dir s"
  "buildings_geojson_path (snd (write_if_any p t s)) = buildings_geojson_path s"
  "dem_tile_path (snd (write_if_any p t s)) = dem_tile_path s"
  "stdout (snd (write_if_any p t s)) = stdout s"
  "fst (write_if_any p t s) = Inr ()"
  "files (snd (write_if_any p t s)) q = files s q \<or> (\<exists>x. files (snd (write_if_any p t s)) q = Some (Text x))"
  "q \<noteq> p \<Longrightarrow> files (snd (write_if_any p t s)) q = files s q"
  "space s - (case t of None \<Rightarrow> 0 | Some x \<Rightarrow> length x) \<le> space (snd (write_if_any p t s))"
  by (cases t; simp add: write_if_any_def ret_def vsi_write_fields)+

lemma gdal_Translate_eq:
  "gdal_Translate ext dst src s =
     (case files s src of
        Some (GTiff ds) \<Rightarrow>
          if writable s dst
          then (Inr (),
                snd (write_if_any (aux_xml_path dst) (aux_xml ext ds)
                  (snd (write_if_any (prj_path dst) (prj ext ds)
                    (snd (vsi_write dst (Translate ext ds)
                      (s\<lparr>stderr := stderr s @ cpl_stderr ext (Translate_call dst src) s\<rparr>)))))))
          else (Inr (), s\<lparr>stderr := stderr s @ cpl_stderr ext (Translate_call dst src) s\<rparr>)
      | _ \<Rightarrow> (Inr (), s\<lparr>stderr := stderr s @ cpl_stderr ext (Translate_call dst src) s\<rparr>))"
proof -
  have three: "seq (vsi_write a x) (seq (write_if_any b y) (write_if_any c z)) t =
      (Inr (), snd (write_if_any c z (snd (write_if_any b y (snd (vsi_write a x t))))))"
    for a b c x y z and t :: "'a state"
    using vsi_write_fields(9) [of a x t] write_if_any_fields(9) [of b y "snd (vsi_write a x t)"]
      write_if_any_fields(9) [of c z "snd (write_if_any b y (snd (vsi_write a x t)))"]
    by (cases "vsi_write a x t"; cases "write_if_any b y (snd (vsi_write a x t))";
        cases "write_if_any c z (snd (write_if_any b y (snd (vsi_write a x t))))")
       (simp add: seq_def bnd_def)
  show ?thesis
    by (simp add: gdal_Translate_def seq_gdal_reports three split: option.splits file_content.splits)
qed

text \<open>
  \<^verbatim>\<open>gdal.Translate\<close> returns, leaves the attributes and the arrays alone, and a file is
  afterwards what it was or a text GDAL has written; the files it can touch are the
  destination and the two beside it.
\<close>

lemma gdal_Translate_fields:
  "fst (gdal_Translate ext dst src s) = Inr ()"
  "loaded (snd (gdal_Translate ext dst src s)) = loaded s"
  "heap (snd (gdal_Translate ext dst src s)) = heap s"
  "next_addr (snd (gdal_Translate ext dst src s)) = next_addr s"
  "writable (snd (gdal_Translate ext dst src s)) = writable s"
  "output_dir (snd (gdal_Translate ext dst src s)) = output_dir s"
  "buildings_geojson_path (snd (gdal_Translate ext dst src s)) = buildings_geojson_path s"
  "stdout (snd (gdal_Translate ext dst src s)) = stdout s"
  "files (snd (gdal_Translate ext dst src s)) q = files s q \<or>
     (\<exists>x. files (snd (gdal_Translate ext dst src s)) q = Some (Text x))"
  "q \<noteq> dst \<Longrightarrow> q \<noteq> prj_path dst \<Longrightarrow> q \<noteq> aux_xml_path dst \<Longrightarrow>
     files (snd (gdal_Translate ext dst src s)) q = files s q"
proof -
  note e = gdal_Translate_eq [where ext = ext and dst = dst and src = src and s = s]
  note f = vsi_write_fields write_if_any_fields
  show "fst (gdal_Translate ext dst src s) = Inr ()"
    unfolding e by (simp split: option.splits file_content.splits)
  show "loaded (snd (gdal_Translate ext dst src s)) = loaded s"
    unfolding e by (simp add: f split: option.splits file_content.splits)
  show "heap (snd (gdal_Translate ext dst src s)) = heap s"
    unfolding e by (simp add: f split: option.splits file_content.splits)
  show "next_addr (snd (gdal_Translate ext dst src s)) = next_addr s"
    unfolding e by (simp add: f split: option.splits file_content.splits)
  show "writable (snd (gdal_Translate ext dst src s)) = writable s"
    unfolding e by (simp add: f split: option.splits file_content.splits)
  show "output_dir (snd (gdal_Translate ext dst src s)) = output_dir s"
    unfolding e by (simp add: f split: option.splits file_content.splits)
  show "buildings_geojson_path (snd (gdal_Translate ext dst src s)) = buildings_geojson_path s"
    unfolding e by (simp add: f split: option.splits file_content.splits)
  show "stdout (snd (gdal_Translate ext dst src s)) = stdout s"
    unfolding e by (simp add: f split: option.splits file_content.splits)
  show "q \<noteq> dst \<Longrightarrow> q \<noteq> prj_path dst \<Longrightarrow> q \<noteq> aux_xml_path dst \<Longrightarrow>
     files (snd (gdal_Translate ext dst src s)) q = files s q"
    unfolding e by (simp add: f split: option.splits file_content.splits)
  have chain: "files (snd (write_if_any c z (snd (write_if_any b y (snd (vsi_write a x t)))))) q
        = files t q \<or>
      (\<exists>u. files (snd (write_if_any c z (snd (write_if_any b y (snd (vsi_write a x t)))))) q
        = Some (Text u))"
    for a b c x y z and t :: "'a state"
    using vsi_write_fields(10) [of a x t q]
      write_if_any_fields(10) [of b y "snd (vsi_write a x t)" q]
      write_if_any_fields(10) [of c z "snd (write_if_any b y (snd (vsi_write a x t)))" q]
    by metis
  show "files (snd (gdal_Translate ext dst src s)) q = files s q \<or>
     (\<exists>x. files (snd (gdal_Translate ext dst src s)) q = Some (Text x))"
    unfolding e
    using chain [of "aux_xml_path dst" _ "prj_path dst" _ dst _
        "s\<lparr>stderr := stderr s @ cpl_stderr ext (Translate_call dst src) s\<rparr>"]
    by (auto split: option.splits file_content.splits)
qed

lemma gdal_Translate_space:
  assumes "files s src = Some (GTiff ds)"
  shows "space s - (length (Translate ext ds)
           + (case prj ext ds of None \<Rightarrow> 0 | Some x \<Rightarrow> length x)
           + (case aux_xml ext ds of None \<Rightarrow> 0 | Some x \<Rightarrow> length x))
         \<le> space (snd (gdal_Translate ext dst src s))"
proof -
  let ?s0 = "s\<lparr>stderr := stderr s @ cpl_stderr ext (Translate_call dst src) s\<rparr>"
  let ?s1 = "snd (vsi_write dst (Translate ext ds) ?s0)"
  let ?s2 = "snd (write_if_any (prj_path dst) (prj ext ds) ?s1)"
  let ?s3 = "snd (write_if_any (aux_xml_path dst) (aux_xml ext ds) ?s2)"
  have "snd (gdal_Translate ext dst src s) = (if writable s dst then ?s3 else ?s0)"
    using assms by (simp add: gdal_Translate_eq)
  moreover have "space ?s0 = space s" by simp
  moreover note vsi_write_fields(12) [of ?s0 "Translate ext ds" dst]
    write_if_any_fields(12) [of ?s1 "prj ext ds" "prj_path dst"]
    write_if_any_fields(12) [of ?s2 "aux_xml ext ds" "aux_xml_path dst"]
  ultimately show ?thesis by (auto split: if_splits)
qed

lemma convert_dem_to_asc_eq:
  "convert_dem_to_asc ext fn s =
     (Inr (path_join (output_dir s) fn),
      (snd (gdal_Translate ext (path_join (output_dir s) fn) (dem_tile_path s)
              (s\<lparr>stdout := stdout s @ [''Converting DEM to ASC format: '' @ fn]\<rparr>)))
        \<lparr>stdout := stdout s @ [''Converting DEM to ASC format: '' @ fn,
                   ''Basic DEM ASC file created: '' @ path_join (output_dir s) fn]\<rparr>)"
proof -
  let ?s0 = "s\<lparr>stdout := stdout s @ [''Converting DEM to ASC format: '' @ fn]\<rparr>"
  let ?p = "path_join (output_dir s) fn"
  let ?s1 = "snd (gdal_Translate ext ?p (dem_tile_path s) ?s0)"
  have t: "gdal_Translate ext ?p (dem_tile_path s) ?s0 = (Inr (), ?s1)"
    using gdal_Translate_fields(1) [where ext = ext and dst = ?p and src = "dem_tile_path s" and s = ?s0]
    by (simp add: prod_eq_iff)
  have "convert_dem_to_asc ext fn s =
      seq (gdal_Translate ext ?p (dem_tile_path s))
          (seq (print (''Basic DEM ASC file created: '' @ ?p)) (ret ?p)) ?s0"
    by (simp add: convert_dem_to_asc_def seq_print bnd_gets Let_def)
  also have "\<dots> = seq (print (''Basic DEM ASC file created: '' @ ?p)) (ret ?p) ?s1"
    by (rule seq_Inr [where m = "gdal_Translate ext ?p (dem_tile_path s)" and s = ?s0, OF t])
  also have "\<dots> = (Inr ?p, ?s1\<lparr>stdout := stdout ?s1 @ [''Basic DEM ASC file created: '' @ ?p]\<rparr>)"
    by (simp add: seq_print ret_def)
  finally show ?thesis
    using gdal_Translate_fields(8) [where ext = ext and dst = ?p and src = "dem_tile_path s" and s = ?s0]
    by simp
qed

lemma convert_dem_to_asc_fields:
  "fst (convert_dem_to_asc ext fn s) = Inr (path_join (output_dir s) fn)"
  "loaded (snd (convert_dem_to_asc ext fn s)) = loaded s"
  "heap (snd (convert_dem_to_asc ext fn s)) = heap s"
  "next_addr (snd (convert_dem_to_asc ext fn s)) = next_addr s"
  "writable (snd (convert_dem_to_asc ext fn s)) = writable s"
  "output_dir (snd (convert_dem_to_asc ext fn s)) = output_dir s"
  "buildings_geojson_path (snd (convert_dem_to_asc ext fn s)) = buildings_geojson_path s"
  "passes (snd (convert_dem_to_asc ext fn s)) = passes s"
  "files (snd (convert_dem_to_asc ext fn s)) q = files s q \<or>
     (\<exists>t. files (snd (convert_dem_to_asc ext fn s)) q = Some (Text t))"
  "q \<noteq> path_join (output_dir s) fn \<Longrightarrow> q \<noteq> prj_path (path_join (output_dir s) fn) \<Longrightarrow>
   q \<noteq> aux_xml_path (path_join (output_dir s) fn) \<Longrightarrow>
     files (snd (convert_dem_to_asc ext fn s)) q = files s q"
proof -
  let ?s0 = "s\<lparr>stdout := stdout s @ [''Converting DEM to ASC format: '' @ fn]\<rparr>"
  let ?p = "path_join (output_dir s) fn"
  note e = convert_dem_to_asc_eq [where ext = ext and fn = fn and s = s]
  note t = gdal_Translate_fields [where ext = ext and dst = ?p and src = "dem_tile_path s" and s = ?s0]
  show "fst (convert_dem_to_asc ext fn s) = Inr (path_join (output_dir s) fn)" by (simp add: e)
  show "loaded (snd (convert_dem_to_asc ext fn s)) = loaded s" using t(2-8) by (simp add: e)
  show "heap (snd (convert_dem_to_asc ext fn s)) = heap s" using t(2-8) by (simp add: e)
  show "next_addr (snd (convert_dem_to_asc ext fn s)) = next_addr s" using t(2-8) by (simp add: e)
  show "writable (snd (convert_dem_to_asc ext fn s)) = writable s" using t(2-8) by (simp add: e)
  show "output_dir (snd (convert_dem_to_asc ext fn s)) = output_dir s" using t(2-8) by (simp add: e)
  show "buildings_geojson_path (snd (convert_dem_to_asc ext fn s)) = buildings_geojson_path s"
    using t(2-8) by (simp add: e)
  show "passes (snd (convert_dem_to_asc ext fn s)) = passes s"
    by (simp add: e passes_def rasterizing_line_def)
  show "files (snd (convert_dem_to_asc ext fn s)) q = files s q \<or>
     (\<exists>t. files (snd (convert_dem_to_asc ext fn s)) q = Some (Text t))"
    using t(9) [where q = q] by (simp add: e)
  show "q \<noteq> path_join (output_dir s) fn \<Longrightarrow> q \<noteq> prj_path (path_join (output_dir s) fn) \<Longrightarrow>
   q \<noteq> aux_xml_path (path_join (output_dir s) fn) \<Longrightarrow>
     files (snd (convert_dem_to_asc ext fn s)) q = files s q"
    using t(10) [where q = q] by (simp add: e)
qed

lemma path_join_inject:
  assumes "path_join a b = path_join a c" and "b \<noteq> []" and "hd b \<noteq> CHR ''/''"
    and "c \<noteq> []" and "hd c \<noteq> CHR ''/''"
  shows "b = c"
  using assms by (auto simp: path_join_def split: if_splits)

lemma process_all_Inr:
  assumes "process_all ext s = (Inr (a, b, c), s')"
  obtains s0 s1 s2 s3 s4 where
    "s0 = s\<lparr>stdout := stdout s @ [''=== DEM to ASC Processing Started ===''], ticks := Suc (ticks s)\<rparr>"
    and "load_dem_info ext s0 = (Inr (), s1)"
    and "convert_dem_to_asc ext ''Nairobi_DEM.asc'' s1 = (Inr a, s2)"
    and "create_dem_with_buildings_nodata ext ''Nairobi_DEM_housesnodata.asc'' s2 = (Inr b, s3)"
    and "create_building_footprint_raster ext ''Nairobi_OSM_buildings.asc'' s3 = (Inr c, s4)"
    and "files s' = files s4" and "loaded s' = loaded s4" and "passes s' = passes s4"
proof -
  let ?s0 = "s\<lparr>stdout := stdout s @ [''=== DEM to ASC Processing Started ===''], ticks := Suc (ticks s)\<rparr>"
  from assms obtain s1 s2 s3 s4 where
    1: "load_dem_info ext ?s0 = (Inr (), s1)"
    and 2: "convert_dem_to_asc ext ''Nairobi_DEM.asc'' s1 = (Inr a, s2)"
    and 3: "create_dem_with_buildings_nodata ext ''Nairobi_DEM_housesnodata.asc'' s2 = (Inr b, s3)"
    and 4: "create_building_footprint_raster ext ''Nairobi_OSM_buildings.asc'' s3 = (Inr c, s4)"
    and 5: "s' = s4\<lparr>ticks := Suc (ticks s4), stdout := stdout s4 @
        [newline @ ''=== Processing Complete in '' @ fmt_1f ext (time ext (ticks s4) - time ext (ticks s))
           @ '' seconds ==='',
         ''Files created in '' @ [CHR 0x27] @ output_dir s4 @ [CHR 0x27] @ '' directory:'',
         ''- '' @ basename a @ '' (basic DEM)'',
         ''- '' @ basename b @ '' (DEM with buildings as NoData - for RIM2D)'',
         ''- '' @ basename c @ '' (building footprints)'']\<rparr>"
    by (auto simp: process_all_def seq_eq_Inr bnd_eq_Inr print_def time_time_def gets_def ret_def Let_def)
  from 5 have "files s' = files s4" "loaded s' = loaded s4" "passes s' = passes s4"
    by (auto simp: passes_def rasterizing_line_def newline_def)
  with 1 2 3 4 show ?thesis using that by blast
qed


lemma create_dem_space:
  assumes run: "create_dem_with_buildings_nodata ext fn s = (Inr p, s')"
    and d: "loaded s = Some d"
    and fs: "files s (buildings_geojson_path s) = Some (FeatureCollection fs)"
    and gs: "geometries fs = Inr gs"
  shows "space s' = space s - length (unlines (asc_lines ext d
            (masked_dem ext (heap s (dem_array d)) (burn_mask ext d gs)) (- 9999)))"
proof -
  let ?n = "next_addr s"
  let ?dem = "heap s (dem_array d)"
  let ?m = "burn_mask ext d gs"
  let ?p = "path_join (output_dir s) fn"
  let ?out = "masked_dem ext ?dem ?m"
  from create_dem_run [OF d fs gs, of ext fn] obtain s1 where
    c: "composited s ?dem (map (map (f32 ext)) ?dem) s1" and
    e: "create_dem_with_buildings_nodata ext fn s =
       (if shape ?m = shape ?dem
        then seq (write_asc_file ext (Suc ?n) ?p (- 9999))
               (seq (print (''DEM with buildings as NoData created: '' @ ?p)) (ret ?p))
               (s1\<lparr>heap := (heap s1)(Suc ?n := ?out),
                    stdout := stdout s1 @ [''Set '' @ str_int (np_sum_bool (eq_scalar ?m 1))
                         @ '' pixels to NoData (buildings)'']\<rparr>)
        else (Inl IndexError, s1))"
    by blast
  let ?s2 = "s1\<lparr>heap := (heap s1)(Suc ?n := ?out),
                    stdout := stdout s1 @ [''Set '' @ str_int (np_sum_bool (eq_scalar ?m 1))
                         @ '' pixels to NoData (buildings)'']\<rparr>"
  note cf = composited_fields [OF c]
  from run e have sh: "shape ?m = shape ?dem" by (auto split: if_splits)
  with run e obtain s3 where
    w: "write_asc_file ext (Suc ?n) ?p (- 9999) ?s2 = (Inr (), s3)" and
    k: "seq (print (''DEM with buildings as NoData created: '' @ ?p)) (ret ?p) s3 = (Inr p, s')"
    by (auto simp: seq_eq_Inr)
  from k have s': "s' = s3\<lparr>stdout := stdout s3 @ [''DEM with buildings as NoData created: '' @ ?p]\<rparr>"
    by (auto simp: seq_print ret_def)
  have l: "loaded ?s2 = Some d" using cf(1) d by simp
  from write_asc_file_Inr_space(1) [OF w l] show ?thesis
    unfolding s' using cf(3) by simp
qed

lemma footprint_succeeds:
  assumes "loaded s = Some d"
    and "files s (buildings_geojson_path s) = Some (FeatureCollection fs)"
    and "geometries fs = Inr gs"
    and "writable s (path_join (output_dir s) fn)"
    and "length (unlines (asc_lines ext d
           (map (map (\<lambda>b. real (unat b))) (burn_mask ext d gs)) (- 9999))) \<le> space s"
  shows "fst (create_building_footprint_raster ext fn s) = Inr (path_join (output_dir s) fn)"
proof -
  let ?n = "next_addr s"
  let ?p = "path_join (output_dir s) fn"
  let ?arr = "map (map (\<lambda>b. real (unat b))) (burn_mask ext d gs)"
  from footprint_run [OF assms(1,2,3), of ext fn] obtain s1 where
    c: "footprinted s ?arr s1" and
    e: "create_building_footprint_raster ext fn s =
       seq (write_asc_file ext ?n ?p (- 9999))
           (seq (print (''Building footprint raster created: '' @ ?p)) (ret ?p)) s1"
    by blast
  note cf = footprinted_fields [OF c]
  have l: "loaded s1 = Some d" and w: "writable s1 ?p" and sp: "space s1 = space s"
    and h: "heap s1 ?n = ?arr"
    using cf assms(1,4) by simp_all
  have "fst (write_asc_file ext ?n ?p (- 9999) s1) = Inr ()"
    using write_asc_file_succeeds [OF l w, of ext ?n "- 9999"] h assms(5) sp by simp
  then obtain s3 where "write_asc_file ext ?n ?p (- 9999) s1 = (Inr (), s3)"
    by (metis prod.collapse)
  then show ?thesis unfolding e by (simp add: seq_eq_Inr seq_Inr seq_print ret_def)
qed

lemma convert_dem_to_asc_space:
  assumes "files s (dem_tile_path s) = Some (GTiff ds)"
  shows "space s - (length (Translate ext ds)
           + (case prj ext ds of None \<Rightarrow> 0 | Some x \<Rightarrow> length x)
           + (case aux_xml ext ds of None \<Rightarrow> 0 | Some x \<Rightarrow> length x))
         \<le> space (snd (convert_dem_to_asc ext fn s))"
proof -
  let ?s0 = "s\<lparr>stdout := stdout s @ [''Converting DEM to ASC format: '' @ fn]\<rparr>"
  have "files ?s0 (dem_tile_path s) = Some (GTiff ds)" using assms by simp
  from gdal_Translate_space [OF this, where ext = ext and dst = "path_join (output_dir s) fn"]
  show ?thesis by (simp add: convert_dem_to_asc_eq)
qed

lemma process_all_passes:
  assumes "process_all ext s = (Inr r, s')"
  shows "passes s' = passes s + 2"
proof -
  obtain a b c where r: "r = (a, b, c)" by (cases r)
  from assms [unfolded r] obtain s0 s1 s2 s3 s4 where
    s0: "s0 = s\<lparr>stdout := stdout s @ [''=== DEM to ASC Processing Started ===''], ticks := Suc (ticks s)\<rparr>"
    and 1: "load_dem_info ext s0 = (Inr (), s1)"
    and 2: "convert_dem_to_asc ext ''Nairobi_DEM.asc'' s1 = (Inr a, s2)"
    and 3: "create_dem_with_buildings_nodata ext ''Nairobi_DEM_housesnodata.asc'' s2 = (Inr b, s3)"
    and 4: "create_building_footprint_raster ext ''Nairobi_OSM_buildings.asc'' s3 = (Inr c, s4)"
    and 5: "passes s' = passes s4"
    by (rule process_all_Inr) blast
  obtain ds where G0: "files s0 (dem_tile_path s0) = Some (GTiff ds)"
    using 1 load_dem_info_fails [of s0 ext] by fastforce
  have "passes s0 = passes s" by (simp add: s0 passes_def rasterizing_line_def)
  moreover have "passes s1 = passes s0"
    using load_dem_info_fields(11) [OF G0, of ext] 1 by simp
  moreover have "passes s2 = passes s1"
    using convert_dem_to_asc_fields(8) [of ext "''Nairobi_DEM.asc''" s1] 2 by simp
  moreover have "passes s3 = Suc (passes s2)"
    using passes_create_dem [of ext "''Nairobi_DEM_housesnodata.asc''" s2] 3 by simp
  moreover have "passes s4 = Suc (passes s3)"
    using passes_footprint [of ext "''Nairobi_OSM_buildings.asc''" s3] 4 by simp
  ultimately show ?thesis using 5 by simp
qed

lemma process_all_succeeds:
  assumes G: "files s (dem_tile_path s) = Some (GTiff ds)"
    and F: "files s (buildings_geojson_path s) = Some (FeatureCollection fs)"
    and gs: "geometries fs = Inr gs"
    and d: "d = info_of ds (next_addr s)"
    and na: "buildings_geojson_path s \<noteq> path_join (output_dir s) ''Nairobi_DEM.asc''"
      "buildings_geojson_path s \<noteq> prj_path (path_join (output_dir s) ''Nairobi_DEM.asc'')"
      "buildings_geojson_path s \<noteq> aux_xml_path (path_join (output_dir s) ''Nairobi_DEM.asc'')"
    and nb: "buildings_geojson_path s \<noteq> path_join (output_dir s) ''Nairobi_DEM_housesnodata.asc''"
    and sh: "shape (burn_mask ext d gs) = shape (ReadAsArray ds)"
    and wb: "writable s (path_join (output_dir s) ''Nairobi_DEM_housesnodata.asc'')"
    and wc: "writable s (path_join (output_dir s) ''Nairobi_OSM_buildings.asc'')"
    and sp: "length (Translate ext ds)
        + (case prj ext ds of None \<Rightarrow> 0 | Some x \<Rightarrow> length x)
        + (case aux_xml ext ds of None \<Rightarrow> 0 | Some x \<Rightarrow> length x)
        + length (unlines (asc_lines ext d (masked_dem ext (ReadAsArray ds) (burn_mask ext d gs)) (- 9999)))
        + length (unlines (asc_lines ext d (map (map (\<lambda>b. real (unat b))) (burn_mask ext d gs)) (- 9999)))
        \<le> space s"
  shows "fst (process_all ext s) =
     Inr (path_join (output_dir s) ''Nairobi_DEM.asc'',
          path_join (output_dir s) ''Nairobi_DEM_housesnodata.asc'',
          path_join (output_dir s) ''Nairobi_OSM_buildings.asc'')"
proof -
  let ?A = "path_join (output_dir s) ''Nairobi_DEM.asc''"
  let ?B = "path_join (output_dir s) ''Nairobi_DEM_housesnodata.asc''"
  let ?C = "path_join (output_dir s) ''Nairobi_OSM_buildings.asc''"
  let ?tb = "unlines (asc_lines ext d (masked_dem ext (ReadAsArray ds) (burn_mask ext d gs)) (- 9999))"
  let ?tc = "unlines (asc_lines ext d (map (map (\<lambda>b. real (unat b))) (burn_mask ext d gs)) (- 9999))"
  let ?ta = "length (Translate ext ds)
        + (case prj ext ds of None \<Rightarrow> 0 | Some x \<Rightarrow> length x)
        + (case aux_xml ext ds of None \<Rightarrow> 0 | Some x \<Rightarrow> length x)"
  define s0 where "s0 = s\<lparr>stdout := stdout s @ [''=== DEM to ASC Processing Started ===''],
      ticks := Suc (ticks s)\<rparr>"
  define s1 where "s1 = snd (load_dem_info ext s0)"
  define s2 where "s2 = snd (convert_dem_to_asc ext ''Nairobi_DEM.asc'' s1)"
  define s3 where "s3 = snd (create_dem_with_buildings_nodata ext ''Nairobi_DEM_housesnodata.asc'' s2)"
  define s4 where "s4 = snd (create_building_footprint_raster ext ''Nairobi_OSM_buildings.asc'' s3)"
  have G0: "files s0 (dem_tile_path s0) = Some (GTiff ds)" using G by (simp add: s0_def)
  note l = load_dem_info_fields [OF G0, where ext = ext, folded s1_def]
  have 1: "load_dem_info ext s0 = (Inr (), s1)"
    using l(1) by (simp add: s1_def prod_eq_iff)
  have d1: "loaded s1 = Some d" using l(2) d by (simp add: s0_def)
  have o1: "output_dir s1 = output_dir s" "buildings_geojson_path s1 = buildings_geojson_path s"
    "writable s1 = writable s" "files s1 = files s" "space s1 = space s"
    "heap s1 (dem_array d) = ReadAsArray ds"
    using l d by (simp_all add: s0_def info_of_def)
  note c = convert_dem_to_asc_fields [where ext = ext and fn = "''Nairobi_DEM.asc''" and s = s1, folded s2_def]
  have 2: "convert_dem_to_asc ext ''Nairobi_DEM.asc'' s1 = (Inr ?A, s2)"
    using c(1) o1(1) by (simp add: s2_def prod_eq_iff)
  have d2: "loaded s2 = Some d" using c(2) d1 by simp
  have G1: "files s1 (dem_tile_path s1) = Some (GTiff ds)" using l(5,10) G0 by simp
  have o2: "output_dir s2 = output_dir s" "buildings_geojson_path s2 = buildings_geojson_path s"
    "writable s2 = writable s" "heap s2 (dem_array d) = ReadAsArray ds"
    "files s2 (buildings_geojson_path s2) = Some (FeatureCollection fs)"
    "space s - ?ta \<le> space s2"
    using c(2-7) c(10) [of "buildings_geojson_path s"] o1 na F
      convert_dem_to_asc_space [OF G1, where ext = ext and fn = "''Nairobi_DEM.asc''"]
    by (simp_all add: s2_def)
  have "fst (create_dem_with_buildings_nodata ext ''Nairobi_DEM_housesnodata.asc'' s2) =
      Inr (path_join (output_dir s2) ''Nairobi_DEM_housesnodata.asc'')"
    using d2 o2 sh wb sp gs by (intro create_dem_succeeds [where d = d and fs = fs and gs = gs]) simp_all
  then have 3: "create_dem_with_buildings_nodata ext ''Nairobi_DEM_housesnodata.asc'' s2 = (Inr ?B, s3)"
    using o2(1) by (simp add: s3_def prod_eq_iff)
  from 3 obtain d' fs' gs' where "loaded s2 = Some d'"
    and f3: "\<And>q. q \<noteq> ?B \<Longrightarrow> files s3 q = files s2 q"
    and l3: "loaded s3 = loaded s2" and o3: "output_dir s3 = output_dir s2"
      "buildings_geojson_path s3 = buildings_geojson_path s2" "writable s3 = writable s2"
    by (rule create_dem_Inr) blast
  have sp3: "space s3 = space s2 - length ?tb"
    using create_dem_space [OF 3 d2 o2(5) gs] o2(4) by simp
  have "fst (create_building_footprint_raster ext ''Nairobi_OSM_buildings.asc'' s3) =
      Inr (path_join (output_dir s3) ''Nairobi_OSM_buildings.asc'')"
    using l3 d2 o3 o2 f3 [of "buildings_geojson_path s"] nb wc sp sp3 gs
    by (intro footprint_succeeds [where d = d and fs = fs and gs = gs]) simp_all
  then have 4: "create_building_footprint_raster ext ''Nairobi_OSM_buildings.asc'' s3 = (Inr ?C, s4)"
    using o3(1) o2(1) by (simp add: s4_def prod_eq_iff)
  show ?thesis
    using 1 2 3 4 unfolding s0_def
    by (simp add: process_all_def seq_print bnd_def seq_def time_time_def gets_def ret_def print_def Let_def)
qed

text \<open>
  C3, as the code has it. \<^verbatim>\<open>process_all\<close> rasterizes the polygons twice, once in
  \<^verbatim>\<open>create_dem_with_buildings_nodata\<close> and once in
  \<^verbatim>\<open>create_building_footprint_raster\<close>: a run that returns has printed the line that opens
  a rasterization exactly twice, and nothing is kept from the first pass for the second.
  In a run that returns, both passes have found at the polygon path the feature collection
  the run started with (a run that has overwritten it by then does not return) and have
  rasterized it on the grid of the loaded DEM, so they return the same mask, and the two
  files are written from it: the DEM composited with that mask, and that mask as a grid.
\<close>

theorem process_all_masks:
  assumes "process_all ext s = (Inr (a, b, c), s')"
  shows "\<exists>ds fs gs d.
           files s (dem_tile_path s) = Some (GTiff ds) \<and>
           files s (buildings_geojson_path s) = Some (FeatureCollection fs) \<and>
           geometries fs = Inr gs \<and>
           d = info_of ds (next_addr s) \<and> loaded s' = Some d \<and>
           passes s' = passes s + 2 \<and>
           b = path_join (output_dir s) ''Nairobi_DEM_housesnodata.asc'' \<and>
           c = path_join (output_dir s) ''Nairobi_OSM_buildings.asc'' \<and>
           files s' b = Some (Text (unlines (asc_lines ext d
              (masked_dem ext (ReadAsArray ds) (burn_mask ext d gs)) (- 9999)))) \<and>
           files s' c = Some (Text (unlines (asc_lines ext d
              (map (map (\<lambda>x. real (unat x))) (burn_mask ext d gs)) (- 9999))))"
proof -
  from assms obtain s0 s1 s2 s3 s4 where
    s0: "s0 = s\<lparr>stdout := stdout s @ [''=== DEM to ASC Processing Started ===''], ticks := Suc (ticks s)\<rparr>"
    and 1: "load_dem_info ext s0 = (Inr (), s1)"
    and 2: "convert_dem_to_asc ext ''Nairobi_DEM.asc'' s1 = (Inr a, s2)"
    and 3: "create_dem_with_buildings_nodata ext ''Nairobi_DEM_housesnodata.asc'' s2 = (Inr b, s3)"
    and 4: "create_building_footprint_raster ext ''Nairobi_OSM_buildings.asc'' s3 = (Inr c, s4)"
    and 5: "files s' = files s4" "loaded s' = loaded s4"
    by (rule process_all_Inr)
  obtain ds where G0: "files s0 (dem_tile_path s0) = Some (GTiff ds)"
    using 1 load_dem_info_fails [of s0 ext] by fastforce
  define d where "d = info_of ds (next_addr s)"
  have s1: "s1 = snd (load_dem_info ext s0)" using 1 by simp
  note l = load_dem_info_fields [OF G0, where ext = ext, folded s1]
  have d1: "loaded s1 = Some d" using l(2) by (simp add: s0 d_def)
  have o1: "output_dir s1 = output_dir s" "buildings_geojson_path s1 = buildings_geojson_path s"
    "files s1 = files s" "heap s1 (dem_array d) = ReadAsArray ds"
    using l by (simp_all add: s0 d_def info_of_def)
  have s2: "s2 = snd (convert_dem_to_asc ext ''Nairobi_DEM.asc'' s1)" using 2 by simp
  note c = convert_dem_to_asc_fields [where ext = ext and fn = "''Nairobi_DEM.asc''" and s = s1, folded s2]
  have d2: "loaded s2 = Some d" using c(2) d1 by simp
  have o2: "output_dir s2 = output_dir s" "buildings_geojson_path s2 = buildings_geojson_path s"
    "heap s2 (dem_array d) = ReadAsArray ds"
    using c(2-7) o1 by simp_all
  from 3 obtain d' fs gs where "loaded s2 = Some d'"
    and F2: "files s2 (buildings_geojson_path s2) = Some (FeatureCollection fs)"
    and gs: "geometries fs = Inr gs"
    and b: "b = path_join (output_dir s2) ''Nairobi_DEM_housesnodata.asc''"
    and fb: "files s3 b = Some (Text (unlines (asc_lines ext d'
            (masked_dem ext (heap s2 (dem_array d')) (burn_mask ext d' gs)) (- 9999))))"
    and f3: "\<And>q. q \<noteq> b \<Longrightarrow> files s3 q = files s2 q"
    and l3: "loaded s3 = loaded s2" and o3: "output_dir s3 = output_dir s2"
      "buildings_geojson_path s3 = buildings_geojson_path s2"
    by (rule create_dem_Inr) blast
  with d2 have d': "d' = d" by simp
  have F: "files s (buildings_geojson_path s) = Some (FeatureCollection fs)"
    using c(9) [of "buildings_geojson_path s"] F2 o2(2) o1(3) by auto
  from 4 obtain d'' fs' gs' where "loaded s3 = Some d''"
    and F3: "files s3 (buildings_geojson_path s3) = Some (FeatureCollection fs')"
    and gs': "geometries fs' = Inr gs'"
    and c': "c = path_join (output_dir s3) ''Nairobi_OSM_buildings.asc''"
    and fc: "files s4 c = Some (Text (unlines (asc_lines ext d''
            (map (map (\<lambda>b. real (unat b))) (burn_mask ext d'' gs')) (- 9999))))"
    and f4: "\<And>q. q \<noteq> c \<Longrightarrow> files s4 q = files s3 q"
    and l4: "loaded s4 = loaded s3"
    by (rule footprint_Inr) blast
  with l3 d2 have d'': "d'' = d" by simp
  have "buildings_geojson_path s3 \<noteq> b"
    using F3 fb by auto
  then have "files s3 (buildings_geojson_path s3) = files s2 (buildings_geojson_path s2)"
    using f3 o3(2) by simp
  with F2 F3 have "fs' = fs" by simp
  with gs gs' have gs'': "gs' = gs" by simp
  have "b \<noteq> c"
    using path_join_inject [of "output_dir s" "''Nairobi_DEM_housesnodata.asc''" "''Nairobi_OSM_buildings.asc''"]
      b c' o3(1) o2(1) by auto
  then have "files s4 b = files s3 b" using f4 by simp
  then show ?thesis
    using G0 F gs d1 d2 l3 l4 5 b c' fb fc d' d'' gs'' o2 o3 process_all_passes [OF assms]
    by (auto simp: s0 d_def)
qed

lemma info_of_demo: "info_of demo_dataset 0 = demo_info"
  by (simp add: info_of_def demo_dataset_def demo_info_def)

lemma demo_paths:
  "path_join ''input'' ''Nairobi_DEM.asc'' = ''input/Nairobi_DEM.asc''"
  "path_join ''input'' ''Nairobi_DEM_housesnodata.asc'' = ''input/Nairobi_DEM_housesnodata.asc''"
  "path_join ''input'' ''Nairobi_OSM_buildings.asc'' = ''input/Nairobi_OSM_buildings.asc''"
  "prj_path ''input/Nairobi_DEM.asc'' = ''input/Nairobi_DEM.prj''"
  "aux_xml_path ''input/Nairobi_DEM.asc'' = ''input/Nairobi_DEM.asc.aux.xml''"
  by (simp_all add: path_join_def prj_path_def aux_xml_path_def strip_extension_def)

lemma demo_process_all:
  "fst (process_all demo_ext demo_state) =
     Inr (''input/Nairobi_DEM.asc'', ''input/Nairobi_DEM_housesnodata.asc'',
          ''input/Nairobi_OSM_buildings.asc'')"
proof -
  have f: "files demo_state (dem_tile_path demo_state) = Some (GTiff demo_dataset)"
    "files demo_state (buildings_geojson_path demo_state) =
       Some (FeatureCollection [feature_of two_point_ring, feature_of square11])"
    "geometries [feature_of two_point_ring, feature_of square11] = Inr [two_point_ring, square11]"
    "demo_info = info_of demo_dataset (next_addr demo_state)"
    by (simp_all add: demo_state_def info_of_demo)
  have o: "output_dir demo_state = ''input''" by (simp add: demo_state_def)
  have n: "buildings_geojson_path demo_state \<noteq> ''input/Nairobi_DEM.asc''"
    "buildings_geojson_path demo_state \<noteq> ''input/Nairobi_DEM.prj''"
    "buildings_geojson_path demo_state \<noteq> ''input/Nairobi_DEM.asc.aux.xml''"
    "buildings_geojson_path demo_state \<noteq> ''input/Nairobi_DEM_housesnodata.asc''"
    "writable demo_state ''input/Nairobi_DEM_housesnodata.asc''"
    "writable demo_state ''input/Nairobi_OSM_buildings.asc''"
    by (simp_all add: demo_state_def)
  have sh: "shape (burn_mask demo_ext demo_info [two_point_ring, square11]) = shape (ReadAsArray demo_dataset)"
    by (simp add: demo_burn_mask) (simp add: shape_def demo_dataset_def)
  have m: "masked_dem demo_ext (ReadAsArray demo_dataset) [[0, 0], [0, 1]] = [[100, - 32768], [100, - 9999]]"
    by (simp add: masked_dem_def demo_dataset_def demo_ext_def)
  have sp: "length (Translate demo_ext demo_dataset)
        + (case prj demo_ext demo_dataset of None \<Rightarrow> 0 | Some x \<Rightarrow> length x)
        + (case aux_xml demo_ext demo_dataset of None \<Rightarrow> 0 | Some x \<Rightarrow> length x)
        + length (unlines (asc_lines demo_ext demo_info
            (masked_dem demo_ext (ReadAsArray demo_dataset)
               (burn_mask demo_ext demo_info [two_point_ring, square11])) (- 9999)))
        + length (unlines (asc_lines demo_ext demo_info
            (map (map (\<lambda>b. real (unat b))) (burn_mask demo_ext demo_info [two_point_ring, square11]))
            (- 9999)))
        \<le> space demo_state"
    unfolding demo_burn_mask m
    by (simp add: asc_lines_def asc_header_def row_line_def demo_info_def demo_ext_def demo_gt_def
        demo_dataset_def demo_state_def str_integral_def str_int_def str_nat.simps digit_def)
  from process_all_succeeds [OF f, unfolded o demo_paths, OF n(1,2,3,4) sh n(5,6) sp]
  show ?thesis .
qed

theorem process_all_masks_witness:
  "process_all demo_ext demo_state =
     (Inr (''input/Nairobi_DEM.asc'', ''input/Nairobi_DEM_housesnodata.asc'',
           ''input/Nairobi_OSM_buildings.asc''), snd (process_all demo_ext demo_state)) \<and>
   (\<exists>ds fs gs d.
      files demo_state (dem_tile_path demo_state) = Some (GTiff ds) \<and>
      files demo_state (buildings_geojson_path demo_state) = Some (FeatureCollection fs) \<and>
      geometries fs = Inr gs \<and>
      d = info_of ds (next_addr demo_state) \<and>
      loaded (snd (process_all demo_ext demo_state)) = Some d \<and>
      passes (snd (process_all demo_ext demo_state)) = passes demo_state + 2 \<and>
      files (snd (process_all demo_ext demo_state)) ''input/Nairobi_DEM_housesnodata.asc'' =
        Some (Text (unlines (asc_lines demo_ext d
           (masked_dem demo_ext (ReadAsArray ds) (burn_mask demo_ext d gs)) (- 9999)))) \<and>
      files (snd (process_all demo_ext demo_state)) ''input/Nairobi_OSM_buildings.asc'' =
        Some (Text (unlines (asc_lines demo_ext d
           (map (map (\<lambda>x. real (unat x))) (burn_mask demo_ext d gs)) (- 9999)))))"
proof -
  have run: "process_all demo_ext demo_state =
     (Inr (''input/Nairobi_DEM.asc'', ''input/Nairobi_DEM_housesnodata.asc'',
           ''input/Nairobi_OSM_buildings.asc''), snd (process_all demo_ext demo_state))"
    using demo_process_all by (simp add: prod_eq_iff)
  from process_all_masks [OF run] show ?thesis using run by blast
qed

text \<open>
  C3 as stated fails: the demo run of \<^verbatim>\<open>process_all\<close> returns its three paths, nothing had
  been printed before it, and afterwards standard output holds two lines that open a
  rasterization: the mask was computed twice.
\<close>

theorem process_all_two_passes_counterexample:
  "fst (process_all demo_ext demo_state) =
     Inr (''input/Nairobi_DEM.asc'', ''input/Nairobi_DEM_housesnodata.asc'',
          ''input/Nairobi_OSM_buildings.asc'') \<and>
   stdout demo_state = [] \<and>
   passes (snd (process_all demo_ext demo_state)) = 2"
proof -
  have run: "process_all demo_ext demo_state =
     (Inr (''input/Nairobi_DEM.asc'', ''input/Nairobi_DEM_housesnodata.asc'',
           ''input/Nairobi_OSM_buildings.asc''), snd (process_all demo_ext demo_state))"
    using demo_process_all by (simp add: prod_eq_iff)
  have "passes demo_state = 0" "stdout demo_state = []"
    by (simp_all add: passes_def demo_state_def)
  with process_all_passes [OF run] demo_process_all show ?thesis by simp
qed

text \<open>
  The polygon file is safe only until the second pass has read it. With the polygon file
  at the path of the third output the run returns, and what is found at the polygon path
  afterwards is the footprint grid, no longer the feature collection.
\<close>

lemma process_all_overwrites_polygons:
  "fst (process_all demo_ext demo_overwrite) =
     Inr (''input/Nairobi_DEM.asc'', ''input/Nairobi_DEM_housesnodata.asc'',
          ''input/Nairobi_OSM_buildings.asc'') \<and>
   files demo_overwrite (buildings_geojson_path demo_overwrite) =
     Some (FeatureCollection [feature_of two_point_ring, feature_of square11]) \<and>
   (\<exists>text. files (snd (process_all demo_ext demo_overwrite)) (buildings_geojson_path demo_overwrite) =
      Some (Text text))"
proof -
  have f: "files demo_overwrite (dem_tile_path demo_overwrite) = Some (GTiff demo_dataset)"
    "files demo_overwrite (buildings_geojson_path demo_overwrite) =
       Some (FeatureCollection [feature_of two_point_ring, feature_of square11])"
    "geometries [feature_of two_point_ring, feature_of square11] = Inr [two_point_ring, square11]"
    "demo_info = info_of demo_dataset (next_addr demo_overwrite)"
    by (simp_all add: demo_overwrite_def demo_state_def info_of_demo)
  have o: "output_dir demo_overwrite = ''input''"
    "buildings_geojson_path demo_overwrite = ''input/Nairobi_OSM_buildings.asc''"
    by (simp_all add: demo_overwrite_def demo_state_def)
  have n: "buildings_geojson_path demo_overwrite \<noteq> ''input/Nairobi_DEM.asc''"
    "buildings_geojson_path demo_overwrite \<noteq> ''input/Nairobi_DEM.prj''"
    "buildings_geojson_path demo_overwrite \<noteq> ''input/Nairobi_DEM.asc.aux.xml''"
    "buildings_geojson_path demo_overwrite \<noteq> ''input/Nairobi_DEM_housesnodata.asc''"
    "writable demo_overwrite ''input/Nairobi_DEM_housesnodata.asc''"
    "writable demo_overwrite ''input/Nairobi_OSM_buildings.asc''"
    by (simp_all add: demo_overwrite_def demo_state_def)
  have sh: "shape (burn_mask demo_ext demo_info [two_point_ring, square11]) = shape (ReadAsArray demo_dataset)"
    by (simp add: demo_burn_mask) (simp add: shape_def demo_dataset_def)
  have m: "masked_dem demo_ext (ReadAsArray demo_dataset) [[0, 0], [0, 1]] = [[100, - 32768], [100, - 9999]]"
    by (simp add: masked_dem_def demo_dataset_def demo_ext_def)
  have sp: "length (Translate demo_ext demo_dataset)
        + (case prj demo_ext demo_dataset of None \<Rightarrow> 0 | Some x \<Rightarrow> length x)
        + (case aux_xml demo_ext demo_dataset of None \<Rightarrow> 0 | Some x \<Rightarrow> length x)
        + length (unlines (asc_lines demo_ext demo_info
            (masked_dem demo_ext (ReadAsArray demo_dataset)
               (burn_mask demo_ext demo_info [two_point_ring, square11])) (- 9999)))
        + length (unlines (asc_lines demo_ext demo_info
            (map (map (\<lambda>b. real (unat b))) (burn_mask demo_ext demo_info [two_point_ring, square11]))
            (- 9999)))
        \<le> space demo_overwrite"
    unfolding demo_burn_mask m
    by (simp add: asc_lines_def asc_header_def row_line_def demo_info_def demo_ext_def demo_gt_def
        demo_dataset_def demo_overwrite_def demo_state_def str_integral_def str_int_def
        str_nat.simps digit_def)
  from process_all_succeeds [OF f, unfolded o(1) demo_paths, OF n(1,2,3,4) sh n(5,6) sp]
  have ok: "fst (process_all demo_ext demo_overwrite) =
     Inr (''input/Nairobi_DEM.asc'', ''input/Nairobi_DEM_housesnodata.asc'',
          ''input/Nairobi_OSM_buildings.asc'')" .
  then have run: "process_all demo_ext demo_overwrite =
     (Inr (''input/Nairobi_DEM.asc'', ''input/Nairobi_DEM_housesnodata.asc'',
           ''input/Nairobi_OSM_buildings.asc''), snd (process_all demo_ext demo_overwrite))"
    by (simp add: prod_eq_iff)
  from run obtain s3 s4 where
    4: "create_building_footprint_raster demo_ext ''Nairobi_OSM_buildings.asc'' s3 =
          (Inr ''input/Nairobi_OSM_buildings.asc'', s4)"
    and 5: "files (snd (process_all demo_ext demo_overwrite)) = files s4"
    by (rule process_all_Inr) blast
  from 4 obtain t where "files s4 ''input/Nairobi_OSM_buildings.asc'' = Some (Text t)"
    by (rule footprint_Inr) blast
  then show ?thesis using ok f(2) 5 o(2) by simp
qed

end
